theory Spec2Isabelle
  imports Main "HOL-Library.Word"
begin

unbundle bit_operations_syntax

section \<open>Bytes, machine integers and checked reads\<close>

text \<open>
  The extractor works on a borrowed byte slice \<open>(const uint8_t* data, size_t size)\<close>.
  The slice is a list of bytes; \<open>uint16_t\<close> and \<open>uint32_t\<close> are words, whose
  arithmetic wraps as the C++ unsigned arithmetic does; \<open>size_t\<close> values are natural
  numbers, with the wrap-around modulo \<open>2 ^ 64\<close> written out where a subtraction can go
  below zero.

  A read outside the slice is undefined behaviour in C++. In the model every read is
  checked against the length of the slice and a run that reads outside it ends in
  \<open>Inl OutOfBounds\<close>. A loop that the source does not bound takes fuel and ends in
  \<open>Inl OutOfFuel\<close> when the fuel is used up.
\<close>

type_synonym u8 = "8 word"
type_synonym u16 = "16 word"
type_synonym u32 = "32 word"

text \<open>A C++ \<open>int\<close>: 32 bits, read as two's complement by \<open>sint\<close>.\<close>

type_synonym i32 = "32 word"

datatype fault = OutOfBounds | OutOfFuel

type_synonym 'a run = "fault + 'a"

definition andThen :: "'a run \<Rightarrow> ('a \<Rightarrow> 'b run) \<Rightarrow> 'b run" where
  "andThen m f = (case m of Inl e \<Rightarrow> Inl e | Inr x \<Rightarrow> f x)"

lemma andThen_Inl [simp]: "andThen (Inl e) f = Inl e"
  by (simp add: andThen_def)

lemma andThen_Inr [simp]: "andThen (Inr x) f = f x"
  by (simp add: andThen_def)

lemma andThen_cong [fundef_cong]:
  "m = m' \<Longrightarrow> (\<And>x. m' = Inr x \<Longrightarrow> f x = f' x) \<Longrightarrow> andThen m f = andThen m' f'"
  by (cases m') (simp_all add: andThen_def)

lemma andThen_eq_Inr:
  "andThen m f = Inr y \<longleftrightarrow> (\<exists>x. m = Inr x \<and> f x = Inr y)"
  by (cases m) simp_all

text \<open>\<open>data[i]\<close>: the byte at index \<open>i\<close> of the slice.\<close>

definition rd :: "u8 list \<Rightarrow> nat \<Rightarrow> u8 run" where
  "rd data i = (if i < length data then Inr (data ! i) else Inl OutOfBounds)"

text \<open>\<open>a - b\<close> on \<open>size_t\<close> (64 bits, unsigned).\<close>

definition size_sub :: "nat \<Rightarrow> nat \<Rightarrow> nat" where
  "size_sub a b = (if b \<le> a then a - b else a + 2 ^ 64 - b)"

text \<open>Below another \<open>uint32_t\<close>, adding one does not wrap.\<close>

lemma unat_succ_less:
  fixes i b :: u32
  assumes "i < b"
  shows "unat (i + 1) = unat i + 1"
proof -
  have "unat i < unat b" using assms by (simp add: word_less_nat_alt)
  moreover have "unat b < 2 ^ 32" using unsigned_less [of b, where 'a = nat] by simp
  ultimately have "unat i + unat (1 :: u32) < 2 ^ LENGTH(32)" by simp
  then have "unat (i + 1) = unat i + unat (1 :: u32)"
    by (simp only: unat_add_lem)
  then show ?thesis by simp
qed

lemma unat_diff_succ_less:
  fixes i b :: u32
  assumes "i < b"
  shows "unat b - unat (i + 1) < unat b - unat i"
proof -
  have "unat i < unat b" using assms by (simp add: word_less_nat_alt)
  then show ?thesis by (simp add: unat_succ_less [OF assms])
qed

section \<open>Endian primitives (utils/endian.cpp)\<close>

text \<open>\<open>readUInt16(buffer, littleEndian)\<close> with \<open>buffer = data + off\<close>.\<close>

definition readUInt16 :: "u8 list \<Rightarrow> nat \<Rightarrow> bool \<Rightarrow> u16 run" where
  "readUInt16 data off le =
     andThen (rd data off) (\<lambda>b0.
     andThen (rd data (off + 1)) (\<lambda>b1.
       Inr (if le then ucast b0 OR push_bit 8 (ucast b1)
            else push_bit 8 (ucast b0) OR ucast b1)))"

definition readUInt32 :: "u8 list \<Rightarrow> nat \<Rightarrow> bool \<Rightarrow> u32 run" where
  "readUInt32 data off le =
     andThen (rd data off) (\<lambda>b0.
     andThen (rd data (off + 1)) (\<lambda>b1.
     andThen (rd data (off + 2)) (\<lambda>b2.
     andThen (rd data (off + 3)) (\<lambda>b3.
       Inr (if le
            then ucast b0 OR push_bit 8 (ucast b1) OR push_bit 16 (ucast b2)
                 OR push_bit 24 (ucast b3)
            else push_bit 24 (ucast b0) OR push_bit 16 (ucast b1)
                 OR push_bit 8 (ucast b2) OR ucast b3)))))"

text \<open>
  \<open>detectEndianness(buffer)\<close>: \<open>II\<close> is little endian, \<open>MM\<close> big endian, anything
  else little endian. The second byte is read only where the \<open>&&\<close> of the source
  reaches it.
\<close>

definition detectEndianness :: "u8 list \<Rightarrow> bool run" where
  "detectEndianness data =
     andThen (rd data 0) (\<lambda>b0.
       if b0 = 0x49 then andThen (rd data 1) (\<lambda>b1. Inr True)
       else if b0 = 0x4D then andThen (rd data 1) (\<lambda>b1. Inr (b1 \<noteq> 0x4D))
       else Inr True)"

text \<open>
  \<open>memcmp(data + off, s, n) == 0\<close> and \<open>strncmp(data + off, s, n) == 0\<close> for a
  literal \<open>s\<close> of \<open>n\<close> non-zero bytes: the \<open>n\<close> bytes at \<open>off\<close> equal \<open>s\<close>.
\<close>

definition bytes_at :: "u8 list \<Rightarrow> nat \<Rightarrow> nat \<Rightarrow> u8 list run" where
  "bytes_at data off n =
     (if off + n \<le> length data then Inr (take n (drop off data)) else Inl OutOfBounds)"

definition ascii :: "string \<Rightarrow> u8 list" where
  "ascii s = map (\<lambda>c. of_nat (of_char c)) s"

definition memcmp_eq :: "u8 list \<Rightarrow> nat \<Rightarrow> u8 list \<Rightarrow> bool run" where
  "memcmp_eq data off s = andThen (bytes_at data off (length s)) (\<lambda>bs. Inr (bs = s))"

text \<open>Running a list of reads in order, stopping at the first fault.\<close>

fun run_all :: "'a run list \<Rightarrow> 'a list run" where
  "run_all [] = Inr []"
| "run_all (m # ms) = andThen m (\<lambda>x. andThen (run_all ms) (\<lambda>xs. Inr (x # xs)))"

section \<open>JPEG validator (utils/jpeg\_validator.cpp)\<close>

text \<open>
  The functions of the validator take a pointer that callers have advanced
  (\<open>data + offset\<close>); the model passes the slice and the offset \<open>base\<close> of the pointer
  in it.

  \<open>isValidJpeg\<close>: the loop \<open>for (size_t i = size - 2; i > 2; i--)\<close>.
\<close>

fun isValidJpeg_loop :: "u8 list \<Rightarrow> nat \<Rightarrow> nat \<Rightarrow> bool run" where
  "isValidJpeg_loop data base i =
     (if i > 2 then
        andThen (rd data (base + i)) (\<lambda>a.
          if a = 0xFF then
            andThen (rd data (base + i + 1)) (\<lambda>b.
              if b = 0xD9 then Inr True
              else isValidJpeg_loop data base (i - 1))
          else isValidJpeg_loop data base (i - 1))
      else Inr False)"

declare isValidJpeg_loop.simps [simp del]

definition isValidJpeg :: "u8 list \<Rightarrow> nat \<Rightarrow> nat \<Rightarrow> bool run" where
  "isValidJpeg data base sz =
     (if sz < 4 then Inr False
      else andThen (rd data base) (\<lambda>b0.
        if b0 \<noteq> 0xFF then Inr False
        else andThen (rd data (base + 1)) (\<lambda>b1.
          if b1 \<noteq> 0xD8 then Inr False
          else isValidJpeg_loop data base (sz - 2))))"

text \<open>\<open>SIZE_MAX\<close>, the "not found" result of the two searches.\<close>

definition SIZE_MAX :: nat where
  "SIZE_MAX = 2 ^ 64 - 1"

text \<open>
  \<open>findJpegStart\<close>: \<open>for (size_t i = 0; i < size - 1; i++)\<close>, where \<open>size - 1\<close>
  is computed on \<open>size_t\<close>.
\<close>

function findJpegStart_loop :: "u8 list \<Rightarrow> nat \<Rightarrow> nat \<Rightarrow> nat \<Rightarrow> nat run" where
  "findJpegStart_loop data base limit i =
     (if i < limit then
        andThen (rd data (base + i)) (\<lambda>a.
          if a = 0xFF then
            andThen (rd data (base + i + 1)) (\<lambda>b.
              if b = 0xD8 then Inr i
              else findJpegStart_loop data base limit (i + 1))
          else findJpegStart_loop data base limit (i + 1))
      else Inr SIZE_MAX)"
  by pat_completeness auto
termination
  by (relation "measure (\<lambda>(data, base, limit, i). limit - i)") auto

declare findJpegStart_loop.simps [simp del]

definition findJpegStart :: "u8 list \<Rightarrow> nat \<Rightarrow> nat \<Rightarrow> nat run" where
  "findJpegStart data base sz = findJpegStart_loop data base (size_sub sz 1) 0"

text \<open>
  \<open>findJpegEnd\<close>:
  \<open>for (size_t i = std::max(startOffset, 2); i < size - 1; i++)\<close>; the result
  includes the end marker.
\<close>

function findJpegEnd_loop :: "u8 list \<Rightarrow> nat \<Rightarrow> nat \<Rightarrow> nat \<Rightarrow> nat run" where
  "findJpegEnd_loop data base limit i =
     (if i < limit then
        andThen (rd data (base + i)) (\<lambda>a.
          if a = 0xFF then
            andThen (rd data (base + i + 1)) (\<lambda>b.
              if b = 0xD9 then Inr (i + 2)
              else findJpegEnd_loop data base limit (i + 1))
          else findJpegEnd_loop data base limit (i + 1))
      else Inr SIZE_MAX)"
  by pat_completeness auto
termination
  by (relation "measure (\<lambda>(data, base, limit, i). limit - i)") auto

declare findJpegEnd_loop.simps [simp del]

definition findJpegEnd :: "u8 list \<Rightarrow> nat \<Rightarrow> nat \<Rightarrow> nat \<Rightarrow> nat run" where
  "findJpegEnd data base sz startOffset =
     findJpegEnd_loop data base (size_sub sz 1) (max startOffset 2)"

datatype PreviewQuality = QUALITY_THUMBNAIL | QUALITY_PREVIEW | QUALITY_FULL

definition classifyPreview :: "u32 \<Rightarrow> u32 \<Rightarrow> nat \<Rightarrow> PreviewQuality" where
  "classifyPreview w h fileSize =
     (if fileSize \<le> 500 * 1024 \<or> (w \<le> 320 \<and> h \<le> 240) then QUALITY_THUMBNAIL
      else if fileSize \<ge> 200 * 1024 \<and> fileSize \<le> 3 * 1024 * 1024 \<and> w \<ge> 800 \<and> h \<ge> 600
        then QUALITY_PREVIEW
      else if fileSize > 3 * 1024 * 1024 \<or> w > 2048 \<or> h > 2048 then QUALITY_FULL
      else QUALITY_PREVIEW)"

section \<open>TIFF parser (formats/tiff\_parser.cpp)\<close>

record TiffTag =
  tag :: u16
  type :: u16
  count :: u32
  valueOffset :: u32

record TiffIfd =
  tags :: "u16 \<rightharpoonup> TiffTag"
  nextIfdOffset :: u32

text \<open>
  \<open>PreviewInfo\<close> (formats/cr2\_parser.h) with its default member initialisers.
  \<open>ifdIndex\<close> and \<open>priority\<close> are C++ \<open>int\<close>.
\<close>

record PreviewInfo =
  offset :: u32
  size' :: u32
  width :: u32
  height :: u32
  isJpeg :: bool
  subfileType :: u32
  ifdIndex :: i32
  quality :: PreviewQuality
  priority :: i32
  orientation :: u16
  type' :: string

definition PreviewInfo_default :: PreviewInfo where
  "PreviewInfo_default =
     \<lparr>offset = 0, size' = 0, width = 0, height = 0, isJpeg = False, subfileType = 0,
      ifdIndex = - 1, quality = QUALITY_THUMBNAIL, priority = 0, orientation = 1,
      type' = []\<rparr>"

text \<open>
  The state of a \<open>TiffParser\<close> after a successful \<open>parseHeader\<close>. Every caller
  returns at once when \<open>parseHeader\<close> fails, so the model returns \<open>None\<close> for
  \<open>false\<close> and the state for \<open>true\<close>.
\<close>

record TiffParser =
  littleEndian :: bool
  firstIfdOffset :: u32

definition parseHeader :: "u8 list \<Rightarrow> nat \<Rightarrow> TiffParser option run" where
  "parseHeader data sz =
     (if sz < 8 then Inr None
      else andThen (detectEndianness data) (\<lambda>le.
           andThen (readUInt16 data 2 le) (\<lambda>magic.
             if magic \<noteq> 0x002A then Inr None
             else andThen (readUInt32 data 4 le) (\<lambda>first.
               Inr (Some \<lparr>littleEndian = le, firstIfdOffset = first\<rparr>)))))"

text \<open>
  \<open>parseTag\<close>: \<open>offset + 12 > size\<close> is computed on \<open>uint32_t\<close> and compared with
  the \<open>size_t\<close>; the pointer \<open>data + offset\<close> does not wrap.
\<close>

definition parseTag :: "bool \<Rightarrow> u8 list \<Rightarrow> nat \<Rightarrow> u32 \<Rightarrow> TiffTag run" where
  "parseTag le data sz off =
     (if unat (off + 12) > sz
      then Inr \<lparr>tag = 0, type = 0, count = 0, valueOffset = 0\<rparr>
      else andThen (readUInt16 data (unat off) le) (\<lambda>t.
           andThen (readUInt16 data (unat off + 2) le) (\<lambda>ty.
           andThen (readUInt32 data (unat off + 4) le) (\<lambda>c.
           andThen (readUInt32 data (unat off + 8) le) (\<lambda>v.
             Inr \<lparr>tag = t, type = ty, count = c, valueOffset = v\<rparr>)))))"

text \<open>
  \<open>parseIfd\<close>: the loop over the directory entries,
  \<open>for (uint16_t i = 0; i < numEntries; i++)\<close>, as a recursion over the indices.
\<close>

fun parseIfd_entries ::
  "bool \<Rightarrow> u8 list \<Rightarrow> nat \<Rightarrow> u32 \<Rightarrow> (u16 \<rightharpoonup> TiffTag) \<Rightarrow> nat list \<Rightarrow> (u16 \<rightharpoonup> TiffTag) run"
where
  "parseIfd_entries le data sz off m [] = Inr m"
| "parseIfd_entries le data sz off m (i # is) =
     andThen (parseTag le data sz (off + 2 + of_nat i * 12)) (\<lambda>t.
       parseIfd_entries le data sz off (if tag t \<noteq> 0 then m(tag t \<mapsto> t) else m) is)"

definition parseIfd :: "bool \<Rightarrow> u8 list \<Rightarrow> nat \<Rightarrow> u32 \<Rightarrow> TiffIfd option run" where
  "parseIfd le data sz off =
     (if unat (off + 2) > sz then Inr None
      else andThen (readUInt16 data (unat off) le) (\<lambda>numEntries.
        if unat (off + 2 + ucast numEntries * 12 + 4) > sz then Inr None
        else andThen (parseIfd_entries le data sz off Map.empty [0..<unat numEntries]) (\<lambda>m.
             andThen (readUInt32 data (unat (off + 2 + ucast numEntries * 12)) le) (\<lambda>next.
               Inr (Some \<lparr>tags = m, nextIfdOffset = next\<rparr>)))))"

definition TIFF_TYPE_BYTE :: u16 where "TIFF_TYPE_BYTE = 1"
definition TIFF_TYPE_ASCII :: u16 where "TIFF_TYPE_ASCII = 2"
definition TIFF_TYPE_SHORT :: u16 where "TIFF_TYPE_SHORT = 3"
definition TIFF_TYPE_LONG :: u16 where "TIFF_TYPE_LONG = 4"
definition TIFF_TYPE_RATIONAL :: u16 where "TIFF_TYPE_RATIONAL = 5"

definition getTypeSize :: "u16 \<Rightarrow> u32" where
  "getTypeSize ty =
     (if ty = TIFF_TYPE_BYTE then 1
      else if ty = TIFF_TYPE_ASCII then 1
      else if ty = TIFF_TYPE_SHORT then 2
      else if ty = TIFF_TYPE_LONG then 4
      else if ty = TIFF_TYPE_RATIONAL then 8
      else 0)"

text \<open>
  A value that fits in four bytes is read through a pointer to the \<open>valueOffset\<close> field
  of the tag, that is from the bytes of that \<open>uint32_t\<close> in the memory of the host.
  The hosts of the application are little endian.
\<close>

definition host_bytes :: "u32 \<Rightarrow> u8 list" where
  "host_bytes v = [ucast v, ucast (drop_bit 8 v), ucast (drop_bit 16 v), ucast (drop_bit 24 v)]"

definition getTagValue32 :: "bool \<Rightarrow> TiffTag \<Rightarrow> u8 list \<Rightarrow> nat \<Rightarrow> u32 run" where
  "getTagValue32 le t data sz =
     (let typeSize = getTypeSize (type t) in
      if typeSize = 0 then Inr 0
      else let totalSize = typeSize * count t in
        if totalSize \<le> 4 then
          (if type t = TIFF_TYPE_SHORT
             then andThen (readUInt16 (host_bytes (valueOffset t)) 0 le) (\<lambda>v. Inr (ucast v))
           else if type t = TIFF_TYPE_LONG then Inr (valueOffset t)
           else if type t = TIFF_TYPE_BYTE then Inr (valueOffset t AND 0xFF)
           else Inr 0)
        else
          (if unat (valueOffset t + typeSize) > sz then Inr 0
           else if type t = TIFF_TYPE_SHORT
             then andThen (readUInt16 data (unat (valueOffset t)) le) (\<lambda>v. Inr (ucast v))
           else if type t = TIFF_TYPE_LONG
             then readUInt32 data (unat (valueOffset t)) le
           else Inr 0))"

text \<open>
  \<open>getTagValues32\<close>: the element \<open>i\<close> is read at \<open>valuePtr + i * 2\<close> or
  \<open>valuePtr + i * 4\<close>, the product computed on \<open>uint32_t\<close>.
\<close>

definition getTagValues32_elem :: "bool \<Rightarrow> u16 \<Rightarrow> u8 list \<Rightarrow> nat \<Rightarrow> nat \<Rightarrow> u32 run" where
  "getTagValues32_elem le ty buf base i =
     (if ty = TIFF_TYPE_SHORT
        then andThen (readUInt16 buf (base + unat (of_nat i * 2 :: u32)) le) (\<lambda>v. Inr (ucast v))
      else if ty = TIFF_TYPE_LONG
        then readUInt32 buf (base + unat (of_nat i * 4 :: u32)) le
      else if ty = TIFF_TYPE_BYTE
        then andThen (rd buf (base + i)) (\<lambda>v. Inr (ucast v))
      else Inr 0)"

definition getTagValues32 :: "bool \<Rightarrow> TiffTag \<Rightarrow> u8 list \<Rightarrow> nat \<Rightarrow> u32 list run" where
  "getTagValues32 le t data sz =
     (let typeSize = getTypeSize (type t) in
      if typeSize = 0 then Inr []
      else let totalSize = typeSize * count t in
        if totalSize \<le> 4 then
          run_all (map (getTagValues32_elem le (type t) (host_bytes (valueOffset t)) 0)
                       [0..<unat (count t)])
        else if unat (valueOffset t + totalSize) > sz then Inr []
        else
          run_all (map (getTagValues32_elem le (type t) data (unat (valueOffset t)))
                       [0..<unat (count t)]))"

definition TIFF_TAG_IMAGE_WIDTH :: u16 where "TIFF_TAG_IMAGE_WIDTH = 0x0100"
definition TIFF_TAG_IMAGE_HEIGHT :: u16 where "TIFF_TAG_IMAGE_HEIGHT = 0x0101"
definition TIFF_TAG_STRIP_OFFSETS :: u16 where "TIFF_TAG_STRIP_OFFSETS = 0x0111"
definition TIFF_TAG_STRIP_BYTE_COUNTS :: u16 where "TIFF_TAG_STRIP_BYTE_COUNTS = 0x0117"
definition TIFF_TAG_ORIENTATION :: u16 where "TIFF_TAG_ORIENTATION = 0x0112"
definition TIFF_TAG_SUB_IFDS :: u16 where "TIFF_TAG_SUB_IFDS = 0x014A"
definition TIFF_TAG_NEW_SUBFILE_TYPE :: u16 where "TIFF_TAG_NEW_SUBFILE_TYPE = 0x00FE"
definition TIFF_TAG_COMPRESSION :: u16 where "TIFF_TAG_COMPRESSION = 0x0103"
definition TIFF_TAG_JPEG_INTERCHANGE_FORMAT :: u16 where
  "TIFF_TAG_JPEG_INTERCHANGE_FORMAT = 0x0201"
definition TIFF_TAG_JPEG_INTERCHANGE_FORMAT_LENGTH :: u16 where
  "TIFF_TAG_JPEG_INTERCHANGE_FORMAT_LENGTH = 0x0202"

text \<open>
  \<open>extractPreviewFromIfd\<close>, one step for each block of the source. A tag that is
  absent leaves the field as it is.
\<close>

definition tagValue32_or ::
  "bool \<Rightarrow> TiffIfd \<Rightarrow> u16 \<Rightarrow> u8 list \<Rightarrow> nat \<Rightarrow> u32 \<Rightarrow> u32 run" where
  "tagValue32_or le ifd k data sz dflt =
     (case tags ifd k of None \<Rightarrow> Inr dflt | Some t \<Rightarrow> getTagValue32 le t data sz)"

definition extractPreviewFromIfd ::
  "bool \<Rightarrow> u8 list \<Rightarrow> nat \<Rightarrow> TiffIfd \<Rightarrow> i32 \<Rightarrow> PreviewInfo run" where
  "extractPreviewFromIfd le data sz ifd idx =
     andThen
       (case (tags ifd TIFF_TAG_STRIP_OFFSETS, tags ifd TIFF_TAG_STRIP_BYTE_COUNTS) of
          (Some so, Some sc) \<Rightarrow>
            andThen (getTagValues32 le so data sz) (\<lambda>offsets.
            andThen (getTagValues32 le sc data sz) (\<lambda>byteCounts.
              if offsets \<noteq> [] \<and> byteCounts \<noteq> [] \<and> length offsets = length byteCounts
              then Inr (PreviewInfo_default\<lparr>ifdIndex := idx, offset := hd offsets,
                                           size' := hd byteCounts\<rparr>)
              else Inr (PreviewInfo_default\<lparr>ifdIndex := idx\<rparr>)))
        | _ \<Rightarrow> Inr (PreviewInfo_default\<lparr>ifdIndex := idx\<rparr>))
     (\<lambda>p1.
     andThen
       (case (tags ifd TIFF_TAG_JPEG_INTERCHANGE_FORMAT,
              tags ifd TIFF_TAG_JPEG_INTERCHANGE_FORMAT_LENGTH) of
          (Some jo, Some jl) \<Rightarrow>
            andThen (getTagValue32 le jo data sz) (\<lambda>v1.
            andThen (getTagValue32 le jl data sz) (\<lambda>v2.
              Inr (p1\<lparr>offset := v1, size' := v2\<rparr>)))
        | _ \<Rightarrow> Inr p1)
     (\<lambda>p2.
     andThen (tagValue32_or le ifd TIFF_TAG_IMAGE_WIDTH data sz (width p2)) (\<lambda>w.
     andThen (tagValue32_or le ifd TIFF_TAG_IMAGE_HEIGHT data sz (height p2)) (\<lambda>h.
     andThen
       (case tags ifd TIFF_TAG_COMPRESSION of
          None \<Rightarrow> Inr (isJpeg p2)
        | Some t \<Rightarrow> andThen (getTagValue32 le t data sz) (\<lambda>c. Inr (c = 6 \<or> c = 7)))
     (\<lambda>j.
     andThen (tagValue32_or le ifd TIFF_TAG_NEW_SUBFILE_TYPE data sz (subfileType p2)) (\<lambda>st.
       Inr (p2\<lparr>width := w, height := h, isJpeg := j, subfileType := st\<rparr>)))))))"

text \<open>
  \<open>findPreviews\<close>. The inner loop visits the SubIFD offsets in order; SubIFD \<open>i\<close>
  gets the index \<open>-1 - i\<close>.
\<close>

fun findPreviews_subIfds ::
  "bool \<Rightarrow> u8 list \<Rightarrow> nat \<Rightarrow> nat \<Rightarrow> u32 list \<Rightarrow> PreviewInfo list \<Rightarrow> PreviewInfo list run"
where
  "findPreviews_subIfds le data sz i [] previews = Inr previews"
| "findPreviews_subIfds le data sz i (so # sos) previews =
     andThen (parseIfd le data sz so) (\<lambda>r.
       case r of
         None \<Rightarrow> findPreviews_subIfds le data sz (i + 1) sos previews
       | Some subIfd \<Rightarrow>
           andThen (extractPreviewFromIfd le data sz subIfd (- 1 - of_nat i)) (\<lambda>subPreview.
             findPreviews_subIfds le data sz (i + 1) sos
               (if offset subPreview \<noteq> 0 \<and> size' subPreview > 0
                then previews @ [subPreview] else previews)))"

text \<open>
  The outer loop, \<open>while (currentOffset != 0 && currentOffset < size)\<close>, has no bound
  in the source: one unit of fuel for each IFD visited.
\<close>

fun findPreviews_loop ::
  "nat \<Rightarrow> bool \<Rightarrow> u8 list \<Rightarrow> nat \<Rightarrow> u32 \<Rightarrow> i32 \<Rightarrow> PreviewInfo list \<Rightarrow> PreviewInfo list run"
where
  "findPreviews_loop fuel le data sz currentOffset idx previews =
     (if currentOffset \<noteq> 0 \<and> unat currentOffset < sz then
        (case fuel of
           0 \<Rightarrow> Inl OutOfFuel
         | Suc fuel' \<Rightarrow>
             andThen (parseIfd le data sz currentOffset) (\<lambda>r.
               case r of
                 None \<Rightarrow> Inr previews
               | Some ifd \<Rightarrow>
                   andThen (extractPreviewFromIfd le data sz ifd idx) (\<lambda>preview.
                   andThen
                     (case tags ifd TIFF_TAG_SUB_IFDS of
                        None \<Rightarrow>
                          Inr (if offset preview \<noteq> 0 \<and> size' preview > 0
                               then previews @ [preview] else previews)
                      | Some t \<Rightarrow>
                          andThen (getTagValues32 le t data sz) (\<lambda>subIfdOffsets.
                            findPreviews_subIfds le data sz 0 subIfdOffsets
                              (if offset preview \<noteq> 0 \<and> size' preview > 0
                               then previews @ [preview] else previews)))
                   (\<lambda>previews'.
                     findPreviews_loop fuel' le data sz (nextIfdOffset ifd) (idx + 1)
                       previews'))))
      else Inr previews)"

declare findPreviews_loop.simps [simp del]

definition findPreviews :: "nat \<Rightarrow> u8 list \<Rightarrow> nat \<Rightarrow> PreviewInfo list run" where
  "findPreviews fuel data sz =
     andThen (parseHeader data sz) (\<lambda>h.
       case h of
         None \<Rightarrow> Inr []
       | Some p \<Rightarrow>
           findPreviews_loop fuel (littleEndian p) data sz (firstIfdOffset p) 0 [])"

text \<open>\<open>extractOrientation\<close>: the Orientation tag of IFD0 if it is in 1..8, else 1.\<close>

definition extractOrientation :: "u8 list \<Rightarrow> nat \<Rightarrow> u16 run" where
  "extractOrientation data sz =
     andThen (parseHeader data sz) (\<lambda>h.
       case h of
         None \<Rightarrow> Inr 1
       | Some p \<Rightarrow>
           andThen (parseIfd (littleEndian p) data sz (firstIfdOffset p)) (\<lambda>r.
             case r of
               None \<Rightarrow> Inr 1
             | Some ifd0 \<Rightarrow>
                 (case tags ifd0 TIFF_TAG_ORIENTATION of
                    None \<Rightarrow> Inr 1
                  | Some t \<Rightarrow>
                      andThen (getTagValue32 (littleEndian p) t data sz) (\<lambda>v.
                        let orientation = (ucast v :: u16) in
                        Inr (if orientation \<ge> 1 \<and> orientation \<le> 8 then orientation else 1)))))"

section \<open>Canon CR2 (formats/cr2\_parser.cpp)\<close>

text \<open>\<open>std::to_string\<close> of an \<open>int\<close>: decimal digits, with a sign if negative.\<close>

fun string_of_nat :: "nat \<Rightarrow> string" where
  "string_of_nat n =
     (if n < 10 then [''0123456789'' ! n]
      else string_of_nat (n div 10) @ [''0123456789'' ! (n mod 10)])"

declare string_of_nat.simps [simp del]

definition to_string :: "i32 \<Rightarrow> string" where
  "to_string i =
     (if sint i < 0 then CHR ''-'' # string_of_nat (nat (- sint i))
      else string_of_nat (nat (sint i)))"

definition Cr2_canParse :: "u8 list \<Rightarrow> nat \<Rightarrow> bool run" where
  "Cr2_canParse data sz =
     (if sz < 10 then Inr False
      else andThen (detectEndianness data) (\<lambda>le.
           andThen (readUInt16 data 2 le) (\<lambda>magic.
             if magic \<noteq> 0x002A then Inr False
             else andThen (readUInt16 data 8 le) (\<lambda>cr2Magic.
               Inr (cr2Magic = 0x5243)))))"

text \<open>
  The classification of one validated candidate. The name of a SubIFD preview comes from
  \<open>static int subIfdCounter\<close>, a counter that lives as long as the process: the model
  takes its value and returns the new one.
\<close>

definition Cr2_classify :: "i32 \<Rightarrow> PreviewInfo \<Rightarrow> PreviewInfo \<times> i32" where
  "Cr2_classify subIfdCounter preview =
     (if ifdIndex preview = 0 then
        (preview\<lparr>quality := QUALITY_PREVIEW, type' := ''CR2_IFD0'',
                 priority := (if size' preview \<ge> 200 * 1024 \<and> size' preview \<le> 3 * 1024 * 1024
                              then 10 else 5)\<rparr>,
         subIfdCounter)
      else if ifdIndex preview = 1 then
        (preview\<lparr>quality := QUALITY_THUMBNAIL, type' := ''CR2_IFD1'', priority := 1\<rparr>,
         subIfdCounter)
      else if ifdIndex preview = - 1 then
        (preview\<lparr>quality := classifyPreview (width preview) (height preview)
                               (unat (size' preview)),
                 type' := ''CR2_SubIFD'' @ to_string subIfdCounter, priority := 3\<rparr>,
         subIfdCounter + 1)
      else
        (preview\<lparr>quality := classifyPreview (width preview) (height preview)
                               (unat (size' preview)),
                 type' := ''CR2_IFD'' @ to_string (ifdIndex preview), priority := 3\<rparr>,
         subIfdCounter))"

fun Cr2_extractPreviews_loop ::
  "u8 list \<Rightarrow> nat \<Rightarrow> PreviewInfo list \<Rightarrow> PreviewInfo list \<Rightarrow> i32
     \<Rightarrow> (PreviewInfo list \<times> i32) run"
where
  "Cr2_extractPreviews_loop data sz [] previews c = Inr (previews, c)"
| "Cr2_extractPreviews_loop data sz (preview # rest) previews c =
     (if offset preview > 0 \<and> size' preview > 0
         \<and> unat (offset preview + size' preview) \<le> sz
      then
        andThen (isValidJpeg data (unat (offset preview)) (unat (size' preview))) (\<lambda>valid.
          if valid then
            (case Cr2_classify c preview of
               (cr2Preview, c') \<Rightarrow>
                 Cr2_extractPreviews_loop data sz rest (previews @ [cr2Preview]) c')
          else Cr2_extractPreviews_loop data sz rest previews c)
      else Cr2_extractPreviews_loop data sz rest previews c)"

definition Cr2_extractPreviews ::
  "nat \<Rightarrow> i32 \<Rightarrow> u8 list \<Rightarrow> nat \<Rightarrow> (PreviewInfo list \<times> i32) run" where
  "Cr2_extractPreviews fuel subIfdCounter data sz =
     andThen (Cr2_canParse data sz) (\<lambda>ok.
       if \<not> ok then Inr ([], subIfdCounter)
       else andThen (findPreviews fuel data sz) (\<lambda>tiffPreviews.
         Cr2_extractPreviews_loop data sz tiffPreviews [] subIfdCounter))"

text \<open>
  \<open>selectBestPreview\<close> of CR2: the highest priority; among equal priorities a
  candidate inside 200 KiB..3 MiB replaces one outside it or a smaller one.
\<close>

fun Cr2_selectBest_loop :: "PreviewInfo list \<Rightarrow> PreviewInfo \<Rightarrow> i32 \<Rightarrow> PreviewInfo" where
  "Cr2_selectBest_loop [] bestPreview highestPriority = bestPreview"
| "Cr2_selectBest_loop (preview # rest) bestPreview highestPriority =
     (if highestPriority <s priority preview
        then Cr2_selectBest_loop rest preview (priority preview)
      else if priority preview = highestPriority then
        (let currentInRange =
               (size' bestPreview \<ge> 200 * 1024 \<and> size' bestPreview \<le> 3 * 1024 * 1024);
             candidateInRange =
               (size' preview \<ge> 200 * 1024 \<and> size' preview \<le> 3 * 1024 * 1024)
         in if candidateInRange \<and> (\<not> currentInRange \<or> size' preview > size' bestPreview)
            then Cr2_selectBest_loop rest preview highestPriority
            else Cr2_selectBest_loop rest bestPreview highestPriority)
      else Cr2_selectBest_loop rest bestPreview highestPriority)"

definition Cr2_selectBestPreview :: "PreviewInfo list \<Rightarrow> PreviewInfo" where
  "Cr2_selectBestPreview previews =
     (if previews = [] then PreviewInfo_default
      else Cr2_selectBest_loop previews PreviewInfo_default (- 1))"

section \<open>Nikon NEF (formats/nef\_parser.cpp)\<close>

definition NIKON_TAG_JPEG_FROM_RAW_START :: u16 where
  "NIKON_TAG_JPEG_FROM_RAW_START = 0x0201"
definition NIKON_TAG_JPEG_FROM_RAW_LENGTH :: u16 where
  "NIKON_TAG_JPEG_FROM_RAW_LENGTH = 0x0202"

text \<open>
  \<open>canParse\<close>: a TIFF whose IFD0 has an ASCII Make tag of at least five characters
  that starts with \<open>NIKON\<close>. The source picks the place of the string with
  \<open>count <= 4 ? &valueOffset : valueOffset\<close>; under \<open>count >= 5\<close> that is always
  \<open>valueOffset\<close>.
\<close>

definition Nef_canParse :: "u8 list \<Rightarrow> nat \<Rightarrow> bool run" where
  "Nef_canParse data sz =
     (if sz < 8 then Inr False
      else andThen (detectEndianness data) (\<lambda>le.
           andThen (readUInt16 data 2 le) (\<lambda>magic.
             if magic \<noteq> 0x002A then Inr False
             else andThen (parseHeader data sz) (\<lambda>h.
               case h of
                 None \<Rightarrow> Inr False
               | Some p \<Rightarrow>
                   andThen (readUInt32 data 4 le) (\<lambda>first.
                     if unat first \<ge> sz then Inr False
                     else andThen (parseIfd (littleEndian p) data sz first) (\<lambda>r.
                       case r of
                         None \<Rightarrow> Inr False
                       | Some ifd \<Rightarrow>
                           (case tags ifd 0x010F of
                              None \<Rightarrow> Inr False
                            | Some makeTag \<Rightarrow>
                                if type makeTag = 2 \<and> count makeTag \<ge> 5
                                   \<and> unat (valueOffset makeTag) + 5 \<le> sz
                                then memcmp_eq data (unat (valueOffset makeTag)) (ascii ''NIKON'')
                                else Inr False)))))))"

definition Nef_classify :: "i32 \<Rightarrow> u16 \<Rightarrow> PreviewInfo \<Rightarrow> PreviewInfo \<times> i32" where
  "Nef_classify subIfdCounter orient nefPreview =
     (if ifdIndex nefPreview = - 1 then
        (let q = classifyPreview (width nefPreview) (height nefPreview)
                   (unat (size' nefPreview))
         in (nefPreview\<lparr>quality := q,
                type' := ''NEF_SubIFD'' @ to_string subIfdCounter,
                priority := (if size' nefPreview \<ge> 200 * 1024
                                \<and> size' nefPreview \<le> 3 * 1024 * 1024 then 10
                             else if q = QUALITY_PREVIEW then 8 else 5),
                orientation := orient\<rparr>,
             subIfdCounter + 1))
      else if ifdIndex nefPreview = 1 then
        (nefPreview\<lparr>quality := QUALITY_THUMBNAIL, type' := ''NEF_IFD1'', priority := 2,
                    orientation := orient\<rparr>,
         subIfdCounter)
      else if ifdIndex nefPreview = 0 then
        (nefPreview\<lparr>quality := classifyPreview (width nefPreview) (height nefPreview)
                                  (unat (size' nefPreview)),
                    type' := ''NEF_IFD0'', priority := 7, orientation := orient\<rparr>,
         subIfdCounter)
      else
        (nefPreview\<lparr>quality := classifyPreview (width nefPreview) (height nefPreview)
                                  (unat (size' nefPreview)),
                    type' := ''NEF_IFD'' @ to_string (ifdIndex nefPreview), priority := 3,
                    orientation := orient\<rparr>,
         subIfdCounter))"

fun Nef_extractPreviews_loop ::
  "u8 list \<Rightarrow> nat \<Rightarrow> u16 \<Rightarrow> PreviewInfo list \<Rightarrow> PreviewInfo list \<Rightarrow> i32
     \<Rightarrow> (PreviewInfo list \<times> i32) run"
where
  "Nef_extractPreviews_loop data sz orient [] previews c = Inr (previews, c)"
| "Nef_extractPreviews_loop data sz orient (tiffPreview # rest) previews c =
     (if offset tiffPreview > 0 \<and> size' tiffPreview > 0
         \<and> unat (offset tiffPreview + size' tiffPreview) \<le> sz
      then
        andThen (isValidJpeg data (unat (offset tiffPreview)) (unat (size' tiffPreview)))
          (\<lambda>valid.
            if valid then
              (case Nef_classify c orient tiffPreview of
                 (nefPreview, c') \<Rightarrow>
                   Nef_extractPreviews_loop data sz orient rest (previews @ [nefPreview]) c')
            else Nef_extractPreviews_loop data sz orient rest previews c)
      else Nef_extractPreviews_loop data sz orient rest previews c)"

text \<open>
  The second pass, \<open>extractNikonSpecificPreviews\<close>. A candidate is appended only if no
  candidate of the list has its offset and size (the loop that sets \<open>duplicate\<close>).
\<close>

definition is_duplicate :: "PreviewInfo list \<Rightarrow> PreviewInfo \<Rightarrow> bool" where
  "is_duplicate previews p =
     list_ex (\<lambda>existing. offset existing = offset p \<and> size' existing = size' p) previews"

definition push_unique :: "PreviewInfo list \<Rightarrow> PreviewInfo \<Rightarrow> PreviewInfo list" where
  "push_unique previews p = (if is_duplicate previews p then previews else previews @ [p])"

text \<open>The candidate \<open>nikonPreview\<close> that the second pass builds for SubIFD \<open>i\<close>.\<close>

definition Nef_nikonPreview :: "u32 \<Rightarrow> u32 \<Rightarrow> nat \<Rightarrow> u16 \<Rightarrow> PreviewInfo" where
  "Nef_nikonPreview jpegOffset jpegLength i orient =
     PreviewInfo_default
       \<lparr>offset := jpegOffset, size' := jpegLength, isJpeg := True,
        ifdIndex := - 1 - of_nat i,
        quality := classifyPreview 0 0 (unat jpegLength),
        orientation := orient,
        priority := (if jpegLength \<ge> 200 * 1024 \<and> jpegLength \<le> 3 * 1024 * 1024
                     then 12 else 7)\<rparr>"

fun Nef_nikon_subIfds ::
  "bool \<Rightarrow> u8 list \<Rightarrow> nat \<Rightarrow> u16 \<Rightarrow> nat \<Rightarrow> u32 list \<Rightarrow> PreviewInfo list
     \<Rightarrow> PreviewInfo list run"
where
  "Nef_nikon_subIfds le data sz orient i [] previews = Inr previews"
| "Nef_nikon_subIfds le data sz orient i (so # sos) previews =
     andThen (parseIfd le data sz so) (\<lambda>r.
       case r of
         None \<Rightarrow> Nef_nikon_subIfds le data sz orient (i + 1) sos previews
       | Some subIfd \<Rightarrow>
           (case (tags subIfd NIKON_TAG_JPEG_FROM_RAW_START,
                  tags subIfd NIKON_TAG_JPEG_FROM_RAW_LENGTH) of
              (Some js, Some jl) \<Rightarrow>
                andThen (getTagValue32 le js data sz) (\<lambda>jpegOffset.
                andThen (getTagValue32 le jl data sz) (\<lambda>jpegLength.
                  if jpegOffset > 0 \<and> jpegLength > 0 \<and> unat (jpegOffset + jpegLength) \<le> sz
                  then
                    andThen (isValidJpeg data (unat jpegOffset) (unat jpegLength)) (\<lambda>valid.
                      if valid then
                        Nef_nikon_subIfds le data sz orient (i + 1) sos
                          (push_unique previews
                             (Nef_nikonPreview jpegOffset jpegLength i orient))
                      else Nef_nikon_subIfds le data sz orient (i + 1) sos previews)
                  else Nef_nikon_subIfds le data sz orient (i + 1) sos previews))
            | _ \<Rightarrow> Nef_nikon_subIfds le data sz orient (i + 1) sos previews))"

fun Nef_nikon_loop ::
  "nat \<Rightarrow> bool \<Rightarrow> u8 list \<Rightarrow> nat \<Rightarrow> u16 \<Rightarrow> u32 \<Rightarrow> PreviewInfo list \<Rightarrow> PreviewInfo list run"
where
  "Nef_nikon_loop fuel le data sz orient currentOffset previews =
     (if currentOffset \<noteq> 0 \<and> unat currentOffset < sz then
        (case fuel of
           0 \<Rightarrow> Inl OutOfFuel
         | Suc fuel' \<Rightarrow>
             andThen (parseIfd le data sz currentOffset) (\<lambda>r.
               case r of
                 None \<Rightarrow> Inr previews
               | Some ifd \<Rightarrow>
                   andThen
                     (case tags ifd 0x014A of
                        None \<Rightarrow> Inr previews
                      | Some t \<Rightarrow>
                          andThen (getTagValues32 le t data sz) (\<lambda>subIfdOffsets.
                            Nef_nikon_subIfds le data sz orient 0 subIfdOffsets previews))
                   (\<lambda>previews'.
                     Nef_nikon_loop fuel' le data sz orient (nextIfdOffset ifd) previews')))
      else Inr previews)"

declare Nef_nikon_loop.simps [simp del]

definition extractNikonSpecificPreviews ::
  "nat \<Rightarrow> u8 list \<Rightarrow> nat \<Rightarrow> PreviewInfo list \<Rightarrow> u16 \<Rightarrow> PreviewInfo list run" where
  "extractNikonSpecificPreviews fuel data sz previews orient =
     andThen (parseHeader data sz) (\<lambda>h.
       case h of
         None \<Rightarrow> Inr previews
       | Some p \<Rightarrow>
           andThen (detectEndianness data) (\<lambda>le.
           andThen (readUInt32 data 4 le) (\<lambda>first.
             Nef_nikon_loop fuel (littleEndian p) data sz orient first previews)))"

definition Nef_extractPreviews ::
  "nat \<Rightarrow> i32 \<Rightarrow> u8 list \<Rightarrow> nat \<Rightarrow> (PreviewInfo list \<times> i32) run" where
  "Nef_extractPreviews fuel subIfdCounter data sz =
     andThen (Nef_canParse data sz) (\<lambda>ok.
       if \<not> ok then Inr ([], subIfdCounter)
       else andThen (findPreviews fuel data sz) (\<lambda>tiffPreviews.
            andThen (extractOrientation data sz) (\<lambda>orient.
            andThen (Nef_extractPreviews_loop data sz orient tiffPreviews [] subIfdCounter)
              (\<lambda>(previews, c').
                andThen (extractNikonSpecificPreviews fuel data sz previews orient)
                  (\<lambda>previews'. Inr (previews', c'))))))"

definition Nef_selectBestPreview :: "PreviewInfo list \<Rightarrow> PreviewInfo" where
  "Nef_selectBestPreview previews =
     (if previews = [] then PreviewInfo_default
      else Cr2_selectBest_loop previews PreviewInfo_default (- 1))"

text \<open>
  \<open>extractCameraModel\<close>: the Model tag (0x0110) of IFD0 without its last byte and
  without trailing NUL and space characters, or \<open>UNKNOWN\<close>. For a count of at most 4
  the source takes the address of the \<open>valueOffset\<close> field of its local tag as the
  offset into the file; \<open>tagAddr\<close> is that address.
\<close>

definition char_of_byte :: "u8 \<Rightarrow> char" where
  "char_of_byte b = char_of (unat b)"

fun strip_trailing :: "u8 list \<Rightarrow> u8 list" where
  "strip_trailing bs =
     (if bs \<noteq> [] \<and> (last bs = 0 \<or> last bs = 0x20) then strip_trailing (butlast bs) else bs)"

declare strip_trailing.simps [simp del]

definition extractCameraModel :: "nat \<Rightarrow> u8 list \<Rightarrow> nat \<Rightarrow> string run" where
  "extractCameraModel tagAddr data sz =
     (if sz < 8 then Inr ''UNKNOWN''
      else andThen (parseHeader data sz) (\<lambda>h.
        case h of
          None \<Rightarrow> Inr ''UNKNOWN''
        | Some p \<Rightarrow>
            andThen (detectEndianness data) (\<lambda>le.
            andThen (readUInt32 data 4 le) (\<lambda>first.
              if unat first \<ge> sz then Inr ''UNKNOWN''
              else andThen (parseIfd (littleEndian p) data sz first) (\<lambda>r.
                case r of
                  None \<Rightarrow> Inr ''UNKNOWN''
                | Some ifd \<Rightarrow>
                    (case tags ifd 0x0110 of
                       None \<Rightarrow> Inr ''UNKNOWN''
                     | Some modelTag \<Rightarrow>
                         if type modelTag = 2 \<and> count modelTag > 0 then
                           (let off = (if count modelTag \<le> 4 then tagAddr
                                       else unat (valueOffset modelTag))
                            in if (off + unat (count modelTag)) mod 2 ^ 64 \<le> sz then
                                 andThen (bytes_at data off (unat (count modelTag) - 1)) (\<lambda>bs.
                                   Inr (map char_of_byte (strip_trailing bs)))
                               else Inr ''UNKNOWN'')
                         else Inr ''UNKNOWN''))))))"

section \<open>Sony ARW (formats/arw\_parser.cpp)\<close>

definition SONY_TAG_SR2_PRIVATE :: u16 where "SONY_TAG_SR2_PRIVATE = 0x7200"
definition SONY_TAG_SR2_SUB_IFD :: u16 where "SONY_TAG_SR2_SUB_IFD = 0x7201"

text \<open>
  \<open>canParse\<close>: a TIFF whose IFD0 has a Make tag starting with \<open>SONY\<close> or the tag
  SR2Private. For a Make tag of exactly four characters the source compares the file at
  the address of the \<open>valueOffset\<close> field of its local tag (\<open>tagAddr\<close>).
\<close>

definition Arw_canParse :: "nat \<Rightarrow> u8 list \<Rightarrow> nat \<Rightarrow> bool run" where
  "Arw_canParse tagAddr data sz =
     (if sz < 8 then Inr False
      else andThen (detectEndianness data) (\<lambda>le.
           andThen (readUInt16 data 2 le) (\<lambda>magic.
             if magic \<noteq> 0x002A then Inr False
             else andThen (parseHeader data sz) (\<lambda>h.
               case h of
                 None \<Rightarrow> Inr False
               | Some p \<Rightarrow>
                   andThen (readUInt32 data 4 le) (\<lambda>first.
                     if unat first \<ge> sz then Inr False
                     else andThen (parseIfd (littleEndian p) data sz first) (\<lambda>r.
                       case r of
                         None \<Rightarrow> Inr False
                       | Some ifd \<Rightarrow>
                           andThen
                             (case tags ifd 0x010F of
                                None \<Rightarrow> Inr False
                              | Some makeTag \<Rightarrow>
                                  if type makeTag = 2 \<and> count makeTag \<ge> 4 then
                                    (let off = (if count makeTag \<le> 4 then tagAddr
                                                else unat (valueOffset makeTag))
                                     in if (off + 4) mod 2 ^ 64 \<le> sz
                                        then memcmp_eq data off (ascii ''SONY'')
                                        else Inr False)
                                  else Inr False)
                             (\<lambda>sony.
                               if sony then Inr True
                               else Inr (tags ifd SONY_TAG_SR2_PRIVATE \<noteq> None))))))))"

text \<open>\<open>classifyArwPreview\<close>, with the static counter of the SubIFD names.\<close>

definition classifyArwPreview :: "i32 \<Rightarrow> PreviewInfo \<Rightarrow> PreviewInfo \<Rightarrow> PreviewInfo \<times> i32" where
  "classifyArwPreview subIfdCounter preview tiffPreview =
     (let q = classifyPreview (width tiffPreview) (height tiffPreview)
                (unat (size' tiffPreview))
      in
      if subfileType tiffPreview = 1 then
        (preview\<lparr>quality := q, type' := ''ARW_Preview'',
                 priority := (if size' preview \<ge> 200 * 1024
                                 \<and> size' preview \<le> 3 * 1024 * 1024 then 10
                              else if q = QUALITY_PREVIEW then 8 else 5)\<rparr>,
         subIfdCounter)
      else if ifdIndex tiffPreview = 1 then
        (preview\<lparr>quality := QUALITY_THUMBNAIL, type' := ''ARW_IFD1'', priority := 2\<rparr>,
         subIfdCounter)
      else if ifdIndex tiffPreview = - 1 then
        (preview\<lparr>quality := q, type' := ''ARW_SubIFD'' @ to_string subIfdCounter,
                 priority := (if size' preview \<ge> 1024 * 1024 then 9 else 6)\<rparr>,
         subIfdCounter + 1)
      else if ifdIndex tiffPreview = 0 then
        (preview\<lparr>quality := q, type' := ''ARW_IFD0'', priority := 7\<rparr>, subIfdCounter)
      else
        (preview\<lparr>quality := q, type' := ''ARW_IFD'' @ to_string (ifdIndex tiffPreview),
                 priority := 4\<rparr>,
         subIfdCounter))"

fun Arw_extractPreviews_loop ::
  "u8 list \<Rightarrow> nat \<Rightarrow> u16 \<Rightarrow> PreviewInfo list \<Rightarrow> PreviewInfo list \<Rightarrow> i32
     \<Rightarrow> (PreviewInfo list \<times> i32) run"
where
  "Arw_extractPreviews_loop data sz orient [] previews c = Inr (previews, c)"
| "Arw_extractPreviews_loop data sz orient (tiffPreview # rest) previews c =
     (if offset tiffPreview > 0 \<and> size' tiffPreview > 0
         \<and> unat (offset tiffPreview + size' tiffPreview) \<le> sz
      then
        andThen (isValidJpeg data (unat (offset tiffPreview)) (unat (size' tiffPreview)))
          (\<lambda>valid.
            if valid then
              (case classifyArwPreview c tiffPreview tiffPreview of
                 (arwPreview, c') \<Rightarrow>
                   Arw_extractPreviews_loop data sz orient rest
                     (previews @ [arwPreview\<lparr>orientation := orient\<rparr>]) c')
            else Arw_extractPreviews_loop data sz orient rest previews c)
      else Arw_extractPreviews_loop data sz orient rest previews c)"

text \<open>
  The candidates \<open>sr2Preview\<close> that the two SR2 passes build; both passes append
  one only if no candidate of the list has its offset and size.
\<close>

definition Arw_sr2PrivatePreview :: "u32 \<Rightarrow> u32 \<Rightarrow> u16 \<Rightarrow> PreviewInfo" where
  "Arw_sr2PrivatePreview jpegStart jpegSize orient =
     PreviewInfo_default
       \<lparr>offset := jpegStart, size' := jpegSize, isJpeg := True, ifdIndex := - 20,
        quality := classifyPreview 0 0 (unat jpegSize),
        type' := ''ARW_SR2Private'', orientation := orient,
        priority := (if jpegSize \<ge> 200 * 1024 \<and> jpegSize \<le> 3 * 1024 * 1024
                     then 12 else 8)\<rparr>"

definition Arw_sr2SubIfdPreview :: "u32 \<Rightarrow> u32 \<Rightarrow> u16 \<Rightarrow> PreviewInfo" where
  "Arw_sr2SubIfdPreview jpegOffset jpegSize orient =
     PreviewInfo_default
       \<lparr>offset := jpegOffset, size' := jpegSize, isJpeg := True, ifdIndex := - 10,
        quality := classifyPreview 0 0 (unat jpegSize),
        type' := ''ARW_SR2SubIFD'', orientation := orient,
        priority := (if jpegSize \<ge> 200 * 1024 \<and> jpegSize \<le> 3 * 1024 * 1024
                     then 11 else 7)\<rparr>"

text \<open>
  \<open>parseSr2Private\<close>: the loop \<open>for (uint32_t i = 0; i < length - 1; i++)\<close> over the
  SR2Private region. \<open>jpegStart = offset + i\<close> is a sum of two \<open>uint32_t\<close>.
\<close>

function parseSr2Private_loop ::
  "u8 list \<Rightarrow> nat \<Rightarrow> u32 \<Rightarrow> u32 \<Rightarrow> u16 \<Rightarrow> u32 \<Rightarrow> PreviewInfo list \<Rightarrow> PreviewInfo list run"
where
  "parseSr2Private_loop data sz off len orient i previews =
     (if i < len - 1 then
        andThen (rd data (unat off + unat i)) (\<lambda>a.
          if a = 0xFF then
            andThen (rd data (unat off + unat i + 1)) (\<lambda>b.
              if b = 0xD8 then
                (let jpegStart = unat (off + i) in
                 andThen (findJpegEnd data 0 sz jpegStart) (\<lambda>jpegEnd.
                   if jpegEnd \<noteq> SIZE_MAX \<and> jpegEnd > jpegStart then
                     (let jpegSize = (of_nat (jpegEnd - jpegStart) :: u32) in
                      andThen (isValidJpeg data jpegStart (unat jpegSize)) (\<lambda>valid.
                        if valid then
                          parseSr2Private_loop data sz off len orient (i + 1)
                            (push_unique previews
                               (Arw_sr2PrivatePreview (of_nat jpegStart) jpegSize orient))
                        else parseSr2Private_loop data sz off len orient (i + 1) previews))
                   else parseSr2Private_loop data sz off len orient (i + 1) previews))
              else parseSr2Private_loop data sz off len orient (i + 1) previews)
          else parseSr2Private_loop data sz off len orient (i + 1) previews)
      else Inr previews)"
  by pat_completeness auto
termination
  by (relation "measure (\<lambda>(data, sz, off, len, orient, i, previews). unat (len - 1) - unat i)")
     (simp_all add: unat_diff_succ_less)

declare parseSr2Private_loop.simps [simp del]

definition parseSr2Private ::
  "u8 list \<Rightarrow> nat \<Rightarrow> u32 \<Rightarrow> u32 \<Rightarrow> PreviewInfo list \<Rightarrow> u16 \<Rightarrow> PreviewInfo list run" where
  "parseSr2Private data sz off len previews orient =
     (if unat (off + len) > sz then Inr previews
      else parseSr2Private_loop data sz off len orient 0 previews)"

text \<open>
  \<open>extractSr2PrivatePreviews\<close>: the loop over the offsets of the tag SR2SubIFD. A
  SubIFD candidate is taken from the first StripOffsets and StripByteCounts values.
\<close>

fun Arw_sr2SubIfds ::
  "bool \<Rightarrow> u8 list \<Rightarrow> nat \<Rightarrow> u16 \<Rightarrow> u32 list \<Rightarrow> PreviewInfo list \<Rightarrow> PreviewInfo list run"
where
  "Arw_sr2SubIfds le data sz orient [] previews = Inr previews"
| "Arw_sr2SubIfds le data sz orient (subOffset # rest) previews =
     (if subOffset > 0 \<and> unat subOffset < sz then
        andThen (parseIfd le data sz subOffset) (\<lambda>r.
          case r of
            None \<Rightarrow> Arw_sr2SubIfds le data sz orient rest previews
          | Some subIfd \<Rightarrow>
              (case (tags subIfd 0x0111, tags subIfd 0x0117) of
                 (Some so, Some sc) \<Rightarrow>
                   andThen (getTagValues32 le so data sz) (\<lambda>offsets.
                   andThen (getTagValues32 le sc data sz) (\<lambda>byteCounts.
                     if offsets \<noteq> [] \<and> byteCounts \<noteq> [] then
                       (let jpegOffset = hd offsets; jpegSize = hd byteCounts in
                        if unat (jpegOffset + jpegSize) \<le> sz then
                          andThen (isValidJpeg data (unat jpegOffset) (unat jpegSize)) (\<lambda>valid.
                            if valid then
                              Arw_sr2SubIfds le data sz orient rest
                                (push_unique previews
                                   (Arw_sr2SubIfdPreview jpegOffset jpegSize orient))
                            else Arw_sr2SubIfds le data sz orient rest previews)
                        else Arw_sr2SubIfds le data sz orient rest previews)
                     else Arw_sr2SubIfds le data sz orient rest previews))
               | _ \<Rightarrow> Arw_sr2SubIfds le data sz orient rest previews))
      else Arw_sr2SubIfds le data sz orient rest previews)"

text \<open>The walk over the IFD chain; it has no bound in the source and takes fuel.\<close>

fun Arw_sr2_loop ::
  "nat \<Rightarrow> bool \<Rightarrow> u8 list \<Rightarrow> nat \<Rightarrow> u16 \<Rightarrow> u32 \<Rightarrow> PreviewInfo list \<Rightarrow> PreviewInfo list run"
where
  "Arw_sr2_loop fuel le data sz orient currentOffset previews =
     (if currentOffset \<noteq> 0 \<and> unat currentOffset < sz then
        (case fuel of
           0 \<Rightarrow> Inl OutOfFuel
         | Suc fuel' \<Rightarrow>
             andThen (parseIfd le data sz currentOffset) (\<lambda>r.
               case r of
                 None \<Rightarrow> Inr previews
               | Some ifd \<Rightarrow>
                   andThen
                     (case tags ifd SONY_TAG_SR2_PRIVATE of
                        None \<Rightarrow> Inr previews
                      | Some t \<Rightarrow>
                          andThen (getTagValue32 le t data sz) (\<lambda>sr2Offset.
                            let sr2Length = count t in
                            if sr2Offset > 0 \<and> sr2Length > 0
                               \<and> unat (sr2Offset + sr2Length) \<le> sz
                            then parseSr2Private data sz sr2Offset sr2Length previews orient
                            else Inr previews))
                   (\<lambda>previews1.
                   andThen
                     (case tags ifd SONY_TAG_SR2_SUB_IFD of
                        None \<Rightarrow> Inr previews1
                      | Some t \<Rightarrow>
                          andThen (getTagValues32 le t data sz) (\<lambda>subIfdOffsets.
                            Arw_sr2SubIfds le data sz orient subIfdOffsets previews1))
                   (\<lambda>previews2.
                     Arw_sr2_loop fuel' le data sz orient (nextIfdOffset ifd) previews2))))
      else Inr previews)"

declare Arw_sr2_loop.simps [simp del]

definition extractSr2PrivatePreviews ::
  "nat \<Rightarrow> u8 list \<Rightarrow> nat \<Rightarrow> PreviewInfo list \<Rightarrow> u16 \<Rightarrow> PreviewInfo list run" where
  "extractSr2PrivatePreviews fuel data sz previews orient =
     andThen (parseHeader data sz) (\<lambda>h.
       case h of
         None \<Rightarrow> Inr previews
       | Some p \<Rightarrow>
           andThen (detectEndianness data) (\<lambda>le.
           andThen (readUInt32 data 4 le) (\<lambda>first.
             Arw_sr2_loop fuel (littleEndian p) data sz orient first previews)))"

text \<open>
  \<open>extractArwOrientation\<close>: IFD0 first, then IFD1 and the SubIFDs if their value is
  not 1; the walk stops after ten IFDs (\<open>ifdIndex < 10\<close>). \<open>Some v\<close> is
  \<open>return v\<close> inside a loop.
\<close>

fun Arw_orientation_subIfds :: "bool \<Rightarrow> u8 list \<Rightarrow> nat \<Rightarrow> u32 list \<Rightarrow> u16 option run" where
  "Arw_orientation_subIfds le data sz [] = Inr None"
| "Arw_orientation_subIfds le data sz (subOffset # rest) =
     (if subOffset > 0 \<and> unat subOffset < sz then
        andThen (parseIfd le data sz subOffset) (\<lambda>r.
          case r of
            None \<Rightarrow> Arw_orientation_subIfds le data sz rest
          | Some subIfd \<Rightarrow>
              (case tags subIfd 0x0112 of
                 None \<Rightarrow> Arw_orientation_subIfds le data sz rest
               | Some t \<Rightarrow>
                   andThen (getTagValue32 le t data sz) (\<lambda>v.
                     let subOrientation = (ucast v :: u16) in
                     if subOrientation \<ge> 1 \<and> subOrientation \<le> 8 \<and> subOrientation \<noteq> 1
                     then Inr (Some subOrientation)
                     else Arw_orientation_subIfds le data sz rest)))
      else Arw_orientation_subIfds le data sz rest)"

function Arw_orientation_loop :: "bool \<Rightarrow> u8 list \<Rightarrow> nat \<Rightarrow> u32 \<Rightarrow> nat \<Rightarrow> u16 run" where
  "Arw_orientation_loop le data sz currentOffset idx =
     (if currentOffset \<noteq> 0 \<and> unat currentOffset < sz \<and> idx < 10 then
        andThen (parseIfd le data sz currentOffset) (\<lambda>r.
          case r of
            None \<Rightarrow> Inr 1
          | Some ifd \<Rightarrow>
              andThen
                (case tags ifd 0x0112 of
                   None \<Rightarrow> Inr None
                 | Some t \<Rightarrow>
                     andThen (getTagValue32 le t data sz) (\<lambda>v.
                       let orient = (ucast v :: u16) in
                       if orient \<ge> 1 \<and> orient \<le> 8 then
                         (if idx = 0 then Inr (Some orient)
                          else if idx = 1 \<and> orient \<noteq> 1 then Inr (Some orient)
                          else Inr None)
                       else Inr None))
              (\<lambda>found.
                case found of
                  Some v \<Rightarrow> Inr v
                | None \<Rightarrow>
                    andThen
                      (case tags ifd 0x014A of
                         None \<Rightarrow> Inr None
                       | Some t \<Rightarrow>
                           andThen (getTagValues32 le t data sz) (\<lambda>subIfdOffsets.
                             Arw_orientation_subIfds le data sz subIfdOffsets))
                    (\<lambda>found'.
                      case found' of
                        Some v \<Rightarrow> Inr v
                      | None \<Rightarrow>
                          Arw_orientation_loop le data sz (nextIfdOffset ifd) (idx + 1))))
      else Inr 1)"
  by pat_completeness auto
termination
  by (relation "measure (\<lambda>(le, data, sz, currentOffset, idx). 10 - idx)") auto

declare Arw_orientation_loop.simps [simp del]

definition extractArwOrientation :: "u8 list \<Rightarrow> nat \<Rightarrow> u16 run" where
  "extractArwOrientation data sz =
     (if sz < 8 then Inr 1
      else andThen (parseHeader data sz) (\<lambda>h.
        case h of
          None \<Rightarrow> Inr 1
        | Some p \<Rightarrow>
            andThen (detectEndianness data) (\<lambda>le.
            andThen (readUInt32 data 4 le) (\<lambda>first.
              if unat first \<ge> sz then Inr 1
              else Arw_orientation_loop (littleEndian p) data sz first 0))))"

definition Arw_extractPreviews ::
  "nat \<Rightarrow> i32 \<Rightarrow> nat \<Rightarrow> u8 list \<Rightarrow> nat \<Rightarrow> (PreviewInfo list \<times> i32) run" where
  "Arw_extractPreviews fuel subIfdCounter tagAddr data sz =
     andThen (Arw_canParse tagAddr data sz) (\<lambda>ok.
       if \<not> ok then Inr ([], subIfdCounter)
       else andThen (findPreviews fuel data sz) (\<lambda>tiffPreviews.
            andThen (extractArwOrientation data sz) (\<lambda>orient.
            andThen (Arw_extractPreviews_loop data sz orient tiffPreviews [] subIfdCounter)
              (\<lambda>(previews, c').
                andThen (extractSr2PrivatePreviews fuel data sz previews orient)
                  (\<lambda>previews'. Inr (previews', c'))))))"

text \<open>
  \<open>selectBestPreview\<close> of ARW: as for CR2, and between two candidates outside
  200 KiB..3 MiB the one nearer to 1 MiB.
\<close>

definition size_diff :: "u32 \<Rightarrow> nat" where
  "size_diff s = (if unat s > 1024 * 1024 then unat s - 1024 * 1024 else 1024 * 1024 - unat s)"

fun Arw_selectBest_loop :: "PreviewInfo list \<Rightarrow> PreviewInfo \<Rightarrow> i32 \<Rightarrow> PreviewInfo" where
  "Arw_selectBest_loop [] bestPreview highestPriority = bestPreview"
| "Arw_selectBest_loop (preview # rest) bestPreview highestPriority =
     (if highestPriority <s priority preview
        then Arw_selectBest_loop rest preview (priority preview)
      else if priority preview = highestPriority then
        (let currentInRange =
               (size' bestPreview \<ge> 200 * 1024 \<and> size' bestPreview \<le> 3 * 1024 * 1024);
             candidateInRange =
               (size' preview \<ge> 200 * 1024 \<and> size' preview \<le> 3 * 1024 * 1024)
         in if candidateInRange \<and> (\<not> currentInRange \<or> size' preview > size' bestPreview)
            then Arw_selectBest_loop rest preview highestPriority
            else if \<not> currentInRange \<and> \<not> candidateInRange
                    \<and> size_diff (size' preview) < size_diff (size' bestPreview)
            then Arw_selectBest_loop rest preview highestPriority
            else Arw_selectBest_loop rest bestPreview highestPriority)
      else Arw_selectBest_loop rest bestPreview highestPriority)"

definition Arw_selectBestPreview :: "PreviewInfo list \<Rightarrow> PreviewInfo" where
  "Arw_selectBestPreview previews =
     (if previews = [] then PreviewInfo_default
      else Arw_selectBest_loop previews PreviewInfo_default (- 1))"

section \<open>Canon CR3 (formats/cr3\_parser.cpp)\<close>

definition BOX_TYPE_FTYP :: u32 where "BOX_TYPE_FTYP = 0x66747970"
definition BOX_TYPE_UUID :: u32 where "BOX_TYPE_UUID = 0x75756964"
definition BOX_TYPE_MDAT :: u32 where "BOX_TYPE_MDAT = 0x6D646174"
definition PRVW_SIGNATURE :: u32 where "PRVW_SIGNATURE = 0x50525657"

definition CR3_PREVIEW_UUID :: "u8 list" where
  "CR3_PREVIEW_UUID =
     [0xea, 0xf4, 0x2b, 0x5e, 0x1c, 0x98, 0x4b, 0x88,
      0xb9, 0xfb, 0xb7, 0xdc, 0x40, 0x6e, 0x4d, 0x16]"

record Box =
  bsize :: u32
  btype :: u32

definition Cr3_canParse :: "u8 list \<Rightarrow> nat \<Rightarrow> bool run" where
  "Cr3_canParse data sz =
     (if sz < 20 then Inr False
      else andThen (readUInt32 data 0 False) (\<lambda>boxSize.
           andThen (readUInt32 data 4 False) (\<lambda>boxType.
             if boxType \<noteq> BOX_TYPE_FTYP then Inr False
             else andThen (readUInt32 data 8 False) (\<lambda>majorBrand.
               Inr (majorBrand = 0x63723320 \<or> majorBrand = 0x63727820)))))"

text \<open>
  \<open>parseBox\<close>: a size of 1 announces a 64-bit size, cut to the rest of the file and
  then to 32 bits; a size of 0 means the rest of the file.
\<close>

definition parseBox :: "u8 list \<Rightarrow> nat \<Rightarrow> nat \<Rightarrow> Box run" where
  "parseBox data sz off =
     (if off + 8 > sz then Inr \<lparr>bsize = 0, btype = 0\<rparr>
      else andThen (readUInt32 data off False) (\<lambda>s.
           andThen (readUInt32 data (off + 4) False) (\<lambda>t.
             if s = 1 \<and> off + 16 \<le> sz then
               andThen (readUInt32 data (off + 8) False) (\<lambda>hi.
               andThen (readUInt32 data (off + 12) False) (\<lambda>lo.
                 let size64 = unat hi * 2 ^ 32 + unat lo in
                 Inr \<lparr>bsize = of_nat (min size64 (sz - off)), btype = t\<rparr>))
             else if s = 0 then Inr \<lparr>bsize = of_nat (sz - off), btype = t\<rparr>
             else Inr \<lparr>bsize = s, btype = t\<rparr>)))"

definition extractPreviewFromUuid :: "u8 list \<Rightarrow> nat \<Rightarrow> nat \<Rightarrow> u32 \<Rightarrow> PreviewInfo run" where
  "extractPreviewFromUuid data sz uuidDataOffset uuidDataSize =
     (if uuidDataOffset + 16 > sz \<or> uuidDataSize < 16 then Inr PreviewInfo_default
      else let prvwBoxOffset = uuidDataOffset + 8 in
        if prvwBoxOffset + 8 > sz then Inr PreviewInfo_default
        else
          andThen (readUInt32 data prvwBoxOffset False) (\<lambda>prvwBoxSize.
          andThen (readUInt32 data (prvwBoxOffset + 4) False) (\<lambda>prvwSig.
            if prvwSig = PRVW_SIGNATURE \<and> prvwBoxSize > 20 then
              (let jpegSearchOffset = prvwBoxOffset + 8 + 16 in
               if jpegSearchOffset < sz then
                 andThen (findJpegStart data jpegSearchOffset (sz - jpegSearchOffset)) (\<lambda>js.
                   if js \<noteq> SIZE_MAX then
                     (let jpegStart = js + jpegSearchOffset;
                          maxJpegSize = size_sub (unat prvwBoxSize) (jpegStart - prvwBoxOffset)
                      in
                      andThen (findJpegEnd data 0 (min sz (prvwBoxOffset + unat prvwBoxSize))
                                 jpegStart) (\<lambda>jpegEnd.
                        if jpegEnd \<noteq> SIZE_MAX \<and> jpegEnd > jpegStart
                           \<and> jpegEnd - jpegStart \<le> maxJpegSize then
                          (let sz32 = (of_nat (jpegEnd - jpegStart) :: u32);
                               preview = PreviewInfo_default
                                 \<lparr>offset := of_nat jpegStart, size' := sz32, isJpeg := True,
                                  quality := classifyPreview 0 0 (unat sz32), priority := 8\<rparr>
                           in andThen (isValidJpeg data (unat (offset preview))
                                         (unat (size' preview))) (\<lambda>valid.
                                Inr (if valid then preview else PreviewInfo_default)))
                        else Inr PreviewInfo_default))
                   else Inr PreviewInfo_default)
               else Inr PreviewInfo_default)
            else Inr PreviewInfo_default)))"

text \<open>
  \<open>extractThumbnailPreview\<close>: the first \<open>THMB\<close> in the file decides. The source fills
  the fields of \<open>preview\<close> before it validates the JPEG and returns \<open>preview\<close> after
  the loop too, so the candidate is returned whether or not the validation succeeds.
\<close>

definition Cr3_thmb_found :: "u8 list \<Rightarrow> nat \<Rightarrow> nat \<Rightarrow> PreviewInfo run" where
  "Cr3_thmb_found data sz i =
     (if i + 20 < sz then
        (let dataOffset = i + 16 in
         andThen (findJpegStart data dataOffset (sz - dataOffset)) (\<lambda>js.
           if js \<noteq> SIZE_MAX then
             (let jpegStart = js + dataOffset in
              andThen (findJpegEnd data 0 sz jpegStart) (\<lambda>jpegEnd.
                if jpegEnd \<noteq> SIZE_MAX \<and> jpegEnd > jpegStart then
                  (let preview = PreviewInfo_default
                         \<lparr>offset := of_nat jpegStart, size' := of_nat (jpegEnd - jpegStart),
                          width := 160, height := 120, isJpeg := True,
                          quality := QUALITY_THUMBNAIL, type' := ''CR3_THMB'', priority := 1\<rparr>
                   in andThen (isValidJpeg data (unat (offset preview)) (unat (size' preview)))
                        (\<lambda>valid. Inr preview))
                else Inr PreviewInfo_default))
           else Inr PreviewInfo_default))
      else Inr PreviewInfo_default)"

function Cr3_thmb_loop :: "u8 list \<Rightarrow> nat \<Rightarrow> nat \<Rightarrow> nat \<Rightarrow> PreviewInfo run" where
  "Cr3_thmb_loop data sz limit i =
     (if i < limit then
        andThen (readUInt32 data i False) (\<lambda>v.
          if v = 0x54484D42 then Cr3_thmb_found data sz i
          else Cr3_thmb_loop data sz limit (i + 1))
      else Inr PreviewInfo_default)"
  by pat_completeness auto
termination
  by (relation "measure (\<lambda>(data, sz, limit, i). limit - i)") auto

declare Cr3_thmb_loop.simps [simp del]

definition extractThumbnailPreview :: "u8 list \<Rightarrow> nat \<Rightarrow> PreviewInfo run" where
  "extractThumbnailPreview data sz = Cr3_thmb_loop data sz (size_sub sz 4) 0"

text \<open>
  \<open>extractMediumPreview\<close>: the walk over the top-level boxes,
  \<open>while (offset < size - 8)\<close>, looking for the preview \<open>uuid\<close> box.
\<close>

lemma box_size_advances:
  fixes b :: u32
  assumes "\<not> b < 8" and "off < limit"
  shows "limit - (off + unat b) < limit - off"
proof -
  have "b \<noteq> 0" using assms(1) by auto
  then have "0 < unat b" by (simp add: unat_gt_0)
  with assms(2) show ?thesis by simp
qed

function Cr3_medium_loop :: "u8 list \<Rightarrow> nat \<Rightarrow> nat \<Rightarrow> PreviewInfo run" where
  "Cr3_medium_loop data sz off =
     (if off < size_sub sz 8 then
        andThen (parseBox data sz off) (\<lambda>box.
          if bsize box = 0 then Inr PreviewInfo_default
          else
            andThen
              (if btype box = BOX_TYPE_UUID \<and> bsize box \<ge> 32 \<and> off + 24 \<le> sz then
                 andThen (memcmp_eq data (off + 8) CR3_PREVIEW_UUID) (\<lambda>same.
                   if same then
                     andThen (extractPreviewFromUuid data sz (off + 24) (bsize box - 24))
                       (\<lambda>preview.
                         if offset preview > 0 \<and> size' preview > 0
                         then Inr (Some (preview\<lparr>quality := QUALITY_PREVIEW,
                                                  type' := ''CR3_PRVW'', priority := 5\<rparr>))
                         else Inr None)
                   else Inr None)
               else Inr None)
            (\<lambda>found.
              case found of
                Some preview \<Rightarrow> Inr preview
              | None \<Rightarrow>
                  if bsize box < 8 then Inr PreviewInfo_default
                  else Cr3_medium_loop data sz (off + unat (bsize box))))
      else Inr PreviewInfo_default)"
  by pat_completeness auto
termination
  by (relation "measure (\<lambda>(data, sz, off). size_sub sz 8 - off)")
     (simp_all add: box_size_advances)

declare Cr3_medium_loop.simps [simp del]

definition extractMediumPreview :: "u8 list \<Rightarrow> nat \<Rightarrow> PreviewInfo run" where
  "extractMediumPreview data sz = Cr3_medium_loop data sz 0"

text \<open>
  \<open>extractFullResolutionPreview\<close>: the first \<open>mdat\<close> box decides. As for the
  thumbnail, a JPEG of more than 1 MiB is returned whether or not it validates.
\<close>

definition Cr3_mdat_found :: "u8 list \<Rightarrow> nat \<Rightarrow> nat \<Rightarrow> Box \<Rightarrow> PreviewInfo run" where
  "Cr3_mdat_found data sz off box =
     (let mdatDataOffset = off + 8;
          searchLimit = min sz (off + unat (bsize box))
      in
      andThen (findJpegStart data mdatDataOffset (size_sub searchLimit mdatDataOffset)) (\<lambda>js.
        if js \<noteq> SIZE_MAX then
          (let jpegStart = js + mdatDataOffset in
           andThen (findJpegEnd data 0 searchLimit jpegStart) (\<lambda>jpegEnd.
             if jpegEnd \<noteq> SIZE_MAX \<and> jpegEnd > jpegStart then
               (let jpegSize = (of_nat (jpegEnd - jpegStart) :: u32) in
                if jpegSize > 1024 * 1024 then
                  (let preview = PreviewInfo_default
                         \<lparr>offset := of_nat jpegStart, size' := jpegSize,
                          width := 5472, height := 3648, isJpeg := True,
                          quality := QUALITY_FULL, type' := ''CR3_MDAT'', priority := 10\<rparr>
                   in andThen (isValidJpeg data (unat (offset preview)) (unat (size' preview)))
                        (\<lambda>valid. Inr preview))
                else Inr PreviewInfo_default)
             else Inr PreviewInfo_default))
        else Inr PreviewInfo_default))"

function Cr3_full_loop :: "u8 list \<Rightarrow> nat \<Rightarrow> nat \<Rightarrow> PreviewInfo run" where
  "Cr3_full_loop data sz off =
     (if off < size_sub sz 8 then
        andThen (parseBox data sz off) (\<lambda>box.
          if bsize box = 0 then Inr PreviewInfo_default
          else if btype box = BOX_TYPE_MDAT then Cr3_mdat_found data sz off box
          else if bsize box < 8 then Inr PreviewInfo_default
          else Cr3_full_loop data sz (off + unat (bsize box)))
      else Inr PreviewInfo_default)"
  by pat_completeness auto
termination
  by (relation "measure (\<lambda>(data, sz, off). size_sub sz 8 - off)")
     (simp_all add: box_size_advances)

declare Cr3_full_loop.simps [simp del]

definition extractFullResolutionPreview :: "u8 list \<Rightarrow> nat \<Rightarrow> PreviewInfo run" where
  "extractFullResolutionPreview data sz = Cr3_full_loop data sz 0"

text \<open>
  \<open>extractOrientation\<close> of CR3: the little-endian 16-bit value 0x140 bytes after the
  first \<open>CMT1\<close>, if it is in 1..8.
\<close>

function Cr3_orientation_loop :: "u8 list \<Rightarrow> nat \<Rightarrow> nat \<Rightarrow> nat \<Rightarrow> u16 run" where
  "Cr3_orientation_loop data sz limit i =
     (if i < limit then
        andThen (readUInt32 data i False) (\<lambda>v.
          if v = 0x434D5431 then
            (let orientationOffset = i + 0x140 in
             if orientationOffset + 2 \<le> sz then
               andThen (readUInt16 data orientationOffset True) (\<lambda>orient.
                 Inr (if orient \<ge> 1 \<and> orient \<le> 8 then orient else 1))
             else Inr 1)
          else Cr3_orientation_loop data sz limit (i + 1))
      else Inr 1)"
  by pat_completeness auto
termination
  by (relation "measure (\<lambda>(data, sz, limit, i). limit - i)") auto

declare Cr3_orientation_loop.simps [simp del]

definition Cr3_extractOrientation :: "u8 list \<Rightarrow> nat \<Rightarrow> u16 run" where
  "Cr3_extractOrientation data sz = Cr3_orientation_loop data sz (size_sub sz 4) 0"

definition Cr3_extractPreviews :: "u8 list \<Rightarrow> nat \<Rightarrow> PreviewInfo list run" where
  "Cr3_extractPreviews data sz =
     andThen (Cr3_canParse data sz) (\<lambda>ok.
       if \<not> ok then Inr []
       else
         andThen (Cr3_extractOrientation data sz) (\<lambda>orient.
         andThen (extractThumbnailPreview data sz) (\<lambda>thumbnail.
         andThen (extractMediumPreview data sz) (\<lambda>mediumPreview.
         andThen (extractFullResolutionPreview data sz) (\<lambda>fullPreview.
           Inr ((if offset thumbnail > 0 \<and> size' thumbnail > 0
                 then [thumbnail\<lparr>orientation := orient\<rparr>] else [])
                @ (if offset mediumPreview > 0 \<and> size' mediumPreview > 0
                   then [mediumPreview\<lparr>orientation := orient\<rparr>] else [])
                @ (if offset fullPreview > 0 \<and> size' fullPreview > 0
                   then [fullPreview\<lparr>orientation := orient\<rparr>] else [])))))))"

fun Cr3_selectBest_loop :: "PreviewInfo list \<Rightarrow> PreviewInfo \<Rightarrow> PreviewInfo" where
  "Cr3_selectBest_loop [] bestPreview = bestPreview"
| "Cr3_selectBest_loop (preview # rest) bestPreview =
     (if size' preview \<ge> 200 * 1024 \<and> size' preview \<le> 3 * 1024 * 1024
         \<and> (size' bestPreview = 0 \<or> size' preview > size' bestPreview)
      then Cr3_selectBest_loop rest preview
      else Cr3_selectBest_loop rest bestPreview)"

definition Cr3_selectBestPreview :: "PreviewInfo list \<Rightarrow> PreviewInfo" where
  "Cr3_selectBestPreview previews =
     (if previews = [] then PreviewInfo_default
      else let bestPreview = Cr3_selectBest_loop previews PreviewInfo_default in
        if size' bestPreview = 0 then hd previews else bestPreview)"

section \<open>Adobe DNG, Olympus ORF, Panasonic RW2, Fujifilm RAF\<close>

text \<open>
  The probe that DNG, ORF and RW2 share with NEF: an ASCII tag of IFD0 with at least
  \<open>n\<close> characters that starts with the \<open>n\<close> characters \<open>s\<close>. The sources require
  \<open>count >= n\<close> with \<open>n\<close> at least 5, so the string is always read at
  \<open>valueOffset\<close>.
\<close>

definition ascii_tag_starts :: "TiffIfd \<Rightarrow> u16 \<Rightarrow> string \<Rightarrow> u8 list \<Rightarrow> nat \<Rightarrow> bool run" where
  "ascii_tag_starts ifd k s data sz =
     (case tags ifd k of
        None \<Rightarrow> Inr False
      | Some t \<Rightarrow>
          if type t = 2 \<and> unat (count t) \<ge> length s
             \<and> unat (valueOffset t) + length s \<le> sz
          then memcmp_eq data (unat (valueOffset t)) (ascii s)
          else Inr False)"

text \<open>
  \<open>DngParser::canParse\<close>: a TIFF whose IFD0 has the tag DNGVersion (0xC612) or a
  Software tag (0x0131) starting with \<open>Adobe\<close>.
\<close>

definition Dng_canParse :: "u8 list \<Rightarrow> nat \<Rightarrow> bool run" where
  "Dng_canParse data sz =
     (if sz < 8 then Inr False
      else andThen (detectEndianness data) (\<lambda>le.
           andThen (readUInt16 data 2 le) (\<lambda>magic.
             if magic \<noteq> 0x002A then Inr False
             else andThen (parseHeader data sz) (\<lambda>h.
               case h of
                 None \<Rightarrow> Inr False
               | Some p \<Rightarrow>
                   andThen (readUInt32 data 4 le) (\<lambda>first.
                     if unat first \<ge> sz then Inr False
                     else andThen (parseIfd (littleEndian p) data sz first) (\<lambda>r.
                       case r of
                         None \<Rightarrow> Inr False
                       | Some ifd \<Rightarrow>
                           if tags ifd 0xC612 \<noteq> None then Inr True
                           else ascii_tag_starts ifd 0x0131 ''Adobe'' data sz))))))"

definition Dng_classify :: "u16 \<Rightarrow> PreviewInfo \<Rightarrow> PreviewInfo" where
  "Dng_classify orient tiffPreview =
     (let q = classifyPreview (width tiffPreview) (height tiffPreview)
                (unat (size' tiffPreview))
      in
      if subfileType tiffPreview = 1 then
        tiffPreview\<lparr>quality := q,
                    priority := (if size' tiffPreview \<ge> 200 * 1024
                                    \<and> size' tiffPreview \<le> 3 * 1024 * 1024
                                 then 10 else 8),
                    orientation := orient\<rparr>
      else if ifdIndex tiffPreview = - 1 then
        tiffPreview\<lparr>quality := q, priority := 9, orientation := orient\<rparr>
      else if ifdIndex tiffPreview = 0 then
        tiffPreview\<lparr>quality := QUALITY_THUMBNAIL, priority := 2, orientation := orient\<rparr>
      else
        tiffPreview\<lparr>quality := q, priority := 5, orientation := orient\<rparr>)"

text \<open>
  The loop over the TIFF candidates that DNG, ORF and RW2 share: a candidate with a
  non-zero offset and size, inside the file and a valid JPEG, is classified and kept.
\<close>

fun tiff_candidates_loop ::
  "(PreviewInfo \<Rightarrow> PreviewInfo) \<Rightarrow> u8 list \<Rightarrow> nat \<Rightarrow> PreviewInfo list \<Rightarrow> PreviewInfo list
     \<Rightarrow> PreviewInfo list run"
where
  "tiff_candidates_loop classify data sz [] previews = Inr previews"
| "tiff_candidates_loop classify data sz (tiffPreview # rest) previews =
     (if offset tiffPreview > 0 \<and> size' tiffPreview > 0
         \<and> unat (offset tiffPreview + size' tiffPreview) \<le> sz
      then
        andThen (isValidJpeg data (unat (offset tiffPreview)) (unat (size' tiffPreview)))
          (\<lambda>valid.
            if valid
            then tiff_candidates_loop classify data sz rest (previews @ [classify tiffPreview])
            else tiff_candidates_loop classify data sz rest previews)
      else tiff_candidates_loop classify data sz rest previews)"

definition Dng_extractPreviews :: "nat \<Rightarrow> u8 list \<Rightarrow> nat \<Rightarrow> PreviewInfo list run" where
  "Dng_extractPreviews fuel data sz =
     andThen (Dng_canParse data sz) (\<lambda>ok.
       if \<not> ok then Inr []
       else andThen (findPreviews fuel data sz) (\<lambda>tiffPreviews.
            andThen (extractOrientation data sz) (\<lambda>orient.
              tiff_candidates_loop (Dng_classify orient) data sz tiffPreviews [])))"

text \<open>
  \<open>selectBestPreview\<close> of DNG, ORF and RW2: the highest priority, and the larger size
  among equal priorities.
\<close>

fun Dng_selectBest_loop :: "PreviewInfo list \<Rightarrow> PreviewInfo \<Rightarrow> i32 \<Rightarrow> PreviewInfo" where
  "Dng_selectBest_loop [] bestPreview highestPriority = bestPreview"
| "Dng_selectBest_loop (preview # rest) bestPreview highestPriority =
     (if highestPriority <s priority preview
         \<or> (priority preview = highestPriority \<and> size' preview > size' bestPreview)
      then Dng_selectBest_loop rest preview (priority preview)
      else Dng_selectBest_loop rest bestPreview highestPriority)"

definition Dng_selectBestPreview :: "PreviewInfo list \<Rightarrow> PreviewInfo" where
  "Dng_selectBestPreview previews =
     (if previews = [] then PreviewInfo_default
      else Dng_selectBest_loop previews PreviewInfo_default (- 1))"

text \<open>
  \<open>OrfParser::canParse\<close>: the header \<open>MMOR\<close> or \<open>IIRO\<close>, or a TIFF whose IFD0 Make
  starts with \<open>OLYMPUS\<close>.
\<close>

definition Orf_canParse :: "u8 list \<Rightarrow> nat \<Rightarrow> bool run" where
  "Orf_canParse data sz =
     (if sz < 8 then Inr False
      else andThen (readUInt32 data 0 False) (\<lambda>header.
        if header = 0x4D4D4F52 \<or> header = 0x4949524F then Inr True
        else andThen (detectEndianness data) (\<lambda>le.
             andThen (readUInt16 data 2 le) (\<lambda>magic.
               if magic = 0x002A then
                 andThen (parseHeader data sz) (\<lambda>h.
                   case h of
                     None \<Rightarrow> Inr False
                   | Some p \<Rightarrow>
                       andThen (readUInt32 data 4 le) (\<lambda>first.
                         if unat first < sz then
                           andThen (parseIfd (littleEndian p) data sz first) (\<lambda>r.
                             case r of
                               None \<Rightarrow> Inr False
                             | Some ifd \<Rightarrow> ascii_tag_starts ifd 0x010F ''OLYMPUS'' data sz)
                         else Inr False))
               else Inr False))))"

definition Orf_classify :: "PreviewInfo \<Rightarrow> PreviewInfo" where
  "Orf_classify tiffPreview =
     tiffPreview\<lparr>quality := classifyPreview (width tiffPreview) (height tiffPreview)
                              (unat (size' tiffPreview)),
                 priority := (if size' tiffPreview \<ge> 200 * 1024
                                 \<and> size' tiffPreview \<le> 3 * 1024 * 1024
                              then 10 else 6)\<rparr>"

definition Orf_extractPreviews :: "nat \<Rightarrow> u8 list \<Rightarrow> nat \<Rightarrow> PreviewInfo list run" where
  "Orf_extractPreviews fuel data sz =
     andThen (Orf_canParse data sz) (\<lambda>ok.
       if \<not> ok then Inr []
       else andThen (findPreviews fuel data sz) (\<lambda>tiffPreviews.
              tiff_candidates_loop Orf_classify data sz tiffPreviews []))"

definition Orf_selectBestPreview :: "PreviewInfo list \<Rightarrow> PreviewInfo" where
  "Orf_selectBestPreview previews = Dng_selectBestPreview previews"

text \<open>
  \<open>Rw2Parser::canParse\<close>: the header \<open>49 49 55 00 08 00 00 00\<close>, or a TIFF whose IFD0
  Make starts with \<open>Panasonic\<close>.
\<close>

definition RW2_MAGIC :: "u8 list" where
  "RW2_MAGIC = [0x49, 0x49, 0x55, 0x00, 0x08, 0x00, 0x00, 0x00]"

definition Rw2_canParse :: "u8 list \<Rightarrow> nat \<Rightarrow> bool run" where
  "Rw2_canParse data sz =
     (if sz < 8 then Inr False
      else andThen (memcmp_eq data 0 RW2_MAGIC) (\<lambda>same.
        if same then Inr True
        else andThen (detectEndianness data) (\<lambda>le.
             andThen (readUInt16 data 2 le) (\<lambda>magic.
               if magic = 0x002A then
                 andThen (parseHeader data sz) (\<lambda>h.
                   case h of
                     None \<Rightarrow> Inr False
                   | Some p \<Rightarrow>
                       andThen (readUInt32 data 4 le) (\<lambda>first.
                         if unat first < sz then
                           andThen (parseIfd (littleEndian p) data sz first) (\<lambda>r.
                             case r of
                               None \<Rightarrow> Inr False
                             | Some ifd \<Rightarrow> ascii_tag_starts ifd 0x010F ''Panasonic'' data sz)
                         else Inr False))
               else Inr False))))"

definition Rw2_classify :: "PreviewInfo \<Rightarrow> PreviewInfo" where
  "Rw2_classify tiffPreview =
     (let q = classifyPreview (width tiffPreview) (height tiffPreview)
                (unat (size' tiffPreview))
      in tiffPreview\<lparr>quality := q,
                     priority := (if size' tiffPreview \<ge> 200 * 1024
                                     \<and> size' tiffPreview \<le> 3 * 1024 * 1024 then 10
                                  else if q = QUALITY_PREVIEW then 8 else 5)\<rparr>)"

definition Rw2_extractPreviews :: "nat \<Rightarrow> u8 list \<Rightarrow> nat \<Rightarrow> PreviewInfo list run" where
  "Rw2_extractPreviews fuel data sz =
     andThen (Rw2_canParse data sz) (\<lambda>ok.
       if \<not> ok then Inr []
       else andThen (findPreviews fuel data sz) (\<lambda>tiffPreviews.
              tiff_candidates_loop Rw2_classify data sz tiffPreviews []))"

definition Rw2_selectBestPreview :: "PreviewInfo list \<Rightarrow> PreviewInfo" where
  "Rw2_selectBestPreview previews = Dng_selectBestPreview previews"

text \<open>
  \<open>RafParser\<close>: the magic \<open>FUJIFILMCCD-RAW\<close>, then the JPEG offset and length as
  big-endian 32-bit values at offsets 84 and 88. The sum \<open>jpegOffset + jpegLength\<close> is
  computed on \<open>uint32_t\<close>.
\<close>

definition RAF_MAGIC :: "u8 list" where
  "RAF_MAGIC = ascii ''FUJIFILMCCD-RAW''"

definition Raf_canParse :: "u8 list \<Rightarrow> nat \<Rightarrow> bool run" where
  "Raf_canParse data sz =
     (if sz < 16 then Inr False else memcmp_eq data 0 RAF_MAGIC)"

definition Raf_extractPreviews :: "u8 list \<Rightarrow> nat \<Rightarrow> PreviewInfo list run" where
  "Raf_extractPreviews data sz =
     andThen (Raf_canParse data sz) (\<lambda>ok.
       if \<not> ok then Inr []
       else if sz < 100 then Inr []
       else if sz \<ge> 88 then
         andThen (readUInt32 data 84 False) (\<lambda>jpegOffset.
         andThen (readUInt32 data 88 False) (\<lambda>jpegLength.
           if jpegOffset > 0 \<and> jpegLength > 0 \<and> unat (jpegOffset + jpegLength) \<le> sz then
             andThen (isValidJpeg data (unat jpegOffset) (unat jpegLength)) (\<lambda>valid.
               if valid then
                 Inr [PreviewInfo_default
                        \<lparr>offset := jpegOffset, size' := jpegLength, isJpeg := True,
                         quality := classifyPreview 0 0 (unat jpegLength),
                         priority := (if jpegLength \<ge> 200 * 1024
                                         \<and> jpegLength \<le> 3 * 1024 * 1024
                                      then 10 else 7)\<rparr>]
               else Inr [])
           else Inr []))
       else Inr [])"

definition Raf_selectBestPreview :: "PreviewInfo list \<Rightarrow> PreviewInfo" where
  "Raf_selectBestPreview previews = (if previews = [] then PreviewInfo_default else hd previews)"

section \<open>Top-level extractor (raw\_extractor.cpp)\<close>

datatype RawFormat = UNKNOWN | CR2 | CR3 | NEF | ARW | DNG | RAF | ORF | PEF | RW2

record ExtractionOptions =
  targetMinSize :: nat
  targetMaxSize :: nat
  preferredQuality :: PreviewQuality
  useCache :: bool
  timeoutMs :: u32
  maxMemoryMb :: nat
  includeMetadata :: bool
  strictValidation :: bool

definition ExtractionOptions_default :: ExtractionOptions where
  "ExtractionOptions_default =
     \<lparr>targetMinSize = 200 * 1024, targetMaxSize = 3 * 1024 * 1024,
      preferredQuality = QUALITY_PREVIEW, useCache = False, timeoutMs = 5000,
      maxMemoryMb = 100, includeMetadata = False, strictValidation = True\<rparr>"

datatype ErrorCode =
  SUCCESS | FILE_NOT_FOUND | FILE_ACCESS_DENIED | INVALID_FORMAT | CORRUPTED_FILE
  | TIMEOUT_EXCEEDED | MEMORY_LIMIT_EXCEEDED | NO_PREVIEWS_FOUND | VALIDATION_FAILED
  | UNKNOWN_ERROR

record ErrorInfo =
  code :: ErrorCode
  message :: string
  context' :: string

record ExtractionResult =
  success :: bool
  errorInfo :: ErrorInfo
  error :: string
  format :: RawFormat
  preview :: PreviewInfo
  jpegData :: "u8 list"

definition ExtractionResult_default :: ExtractionResult where
  "ExtractionResult_default =
     \<lparr>success = False, errorInfo = \<lparr>code = SUCCESS, message = [], context' = []\<rparr>,
      error = [], format = UNKNOWN, preview = PreviewInfo_default, jpegData = []\<rparr>"

definition setError :: "ExtractionResult \<Rightarrow> ErrorCode \<Rightarrow> string \<Rightarrow> string \<Rightarrow> ExtractionResult" where
  "setError r c msg ctx =
     r\<lparr>errorInfo := \<lparr>code = c, message = msg, context' = ctx\<rparr>, error := msg,
       success := False\<rparr>"

text \<open>
  What the extractor takes from its surroundings: the clock behind
  \<open>TimeoutManager::isExpired\<close> (the answer of the \<open>k\<close>-th call of one extraction),
  the process counters behind \<open>checkMemoryUsage\<close>, and the address \<open>tagAddr\<close> of the
  local tag in \<open>ArwParser::canParse\<close> and \<open>NefParser::extractCameraModel\<close>.
\<close>

record Env =
  isExpired :: "nat \<Rightarrow> bool"
  checkMemoryUsage :: "nat \<Rightarrow> ExtractionOptions \<Rightarrow> bool"
  tagAddr :: nat

text \<open>The function-static SubIFD counters of the three parsers that have one.\<close>

record Counters =
  cr2Counter :: i32
  nefCounter :: i32
  arwCounter :: i32

definition Counters_initial :: Counters where
  "Counters_initial = \<lparr>cr2Counter = 0, nefCounter = 0, arwCounter = 0\<rparr>"

text \<open>
  \<open>d[off] == b0 && d[off + 1] == b1 && ...\<close>: the bytes are read in order until one
  differs.
\<close>

fun match_bytes :: "u8 list \<Rightarrow> nat \<Rightarrow> u8 list \<Rightarrow> bool run" where
  "match_bytes data off [] = Inr True"
| "match_bytes data off (b # bs) =
     andThen (rd data off) (\<lambda>x. if x = b then match_bytes data (off + 1) bs else Inr False)"

definition tiff_magic :: "u8 list \<Rightarrow> bool run" where
  "tiff_magic data =
     andThen (match_bytes data 0 [0x49, 0x49, 0x2A, 0x00]) (\<lambda>little.
       if little then Inr True else match_bytes data 0 [0x4D, 0x4D, 0x00, 0x2A])"

definition validateFile :: "u8 list option \<Rightarrow> nat \<Rightarrow> ErrorCode run" where
  "validateFile buf sz =
     (case buf of
        None \<Rightarrow> Inr INVALID_FORMAT
      | Some data \<Rightarrow>
          if sz < 16 then Inr CORRUPTED_FILE
          else
            andThen (tiff_magic data) (\<lambda>tiff.
            andThen (if sz \<ge> 20
                     then andThen (readUInt32 data 4 False) (\<lambda>boxType. Inr (boxType = 0x66747970))
                     else Inr False) (\<lambda>ftyp.
              Inr (if tiff \<or> ftyp then SUCCESS else INVALID_FORMAT))))"

text \<open>
  \<open>detectFormatFast\<close>: signature checks only. In a TIFF of more than 100 bytes the
  first of \<open>Canon\<close>, \<open>NIKON\<close>, \<open>SONY\<close> found at the smallest offset below
  \<open>min(100, size - 5)\<close> decides; any other TIFF is taken for a DNG.
\<close>

fun detectFormatFast_scan :: "u8 list \<Rightarrow> nat list \<Rightarrow> RawFormat run" where
  "detectFormatFast_scan data [] = Inr DNG"
| "detectFormatFast_scan data (i # is) =
     andThen (memcmp_eq data i (ascii ''Canon'')) (\<lambda>canon.
       if canon then Inr CR2
       else andThen (memcmp_eq data i (ascii ''NIKON'')) (\<lambda>nikon.
         if nikon then Inr NEF
         else andThen (memcmp_eq data i (ascii ''SONY'')) (\<lambda>sony.
           if sony then Inr ARW
           else detectFormatFast_scan data is)))"

definition detectFormatFast :: "u8 list \<Rightarrow> nat \<Rightarrow> RawFormat run" where
  "detectFormatFast data sz =
     (if sz < 16 then Inr UNKNOWN
      else
        andThen (tiff_magic data) (\<lambda>tiff.
          if tiff then
            (if sz > 100 then detectFormatFast_scan data [0..<min 100 (sz - 5)]
             else Inr DNG)
          else
            andThen
              (if sz \<ge> 20 then
                 andThen (readUInt32 data 0 False) (\<lambda>boxSize.
                 andThen (readUInt32 data 4 False) (\<lambda>boxType.
                   if boxType = 0x66747970 then
                     andThen (readUInt32 data 8 False) (\<lambda>brand.
                       Inr (brand = 0x63723320 \<or> brand = 0x63727820))
                   else Inr False))
               else Inr False)
            (\<lambda>cr3.
              if cr3 then Inr CR3
              else andThen (memcmp_eq data 0 (ascii ''FUJIFILMCCD-RAW'')) (\<lambda>raf.
                Inr (if raf then RAF else UNKNOWN)))))"

text \<open>\<open>detectFormat\<close>: the first parser, in this order, whose \<open>canParse\<close> accepts.\<close>

definition detectFormat :: "Env \<Rightarrow> u8 list \<Rightarrow> nat \<Rightarrow> RawFormat run" where
  "detectFormat env data sz =
     andThen (Cr2_canParse data sz) (\<lambda>c. if c then Inr CR2 else
     andThen (Cr3_canParse data sz) (\<lambda>c. if c then Inr CR3 else
     andThen (Nef_canParse data sz) (\<lambda>c. if c then Inr NEF else
     andThen (Arw_canParse (tagAddr env) data sz) (\<lambda>c. if c then Inr ARW else
     andThen (Dng_canParse data sz) (\<lambda>c. if c then Inr DNG else
     andThen (Raf_canParse data sz) (\<lambda>c. if c then Inr RAF else
     andThen (Orf_canParse data sz) (\<lambda>c. if c then Inr ORF else
     andThen (Rw2_canParse data sz) (\<lambda>c. if c then Inr RW2 else
       Inr UNKNOWN))))))))"

definition getAllPreviews ::
  "nat \<Rightarrow> Env \<Rightarrow> Counters \<Rightarrow> u8 list \<Rightarrow> nat \<Rightarrow> RawFormat \<Rightarrow> (PreviewInfo list \<times> Counters) run"
where
  "getAllPreviews fuel env cs data sz fmt =
     (case fmt of
        CR2 \<Rightarrow> andThen (Cr2_extractPreviews fuel (cr2Counter cs) data sz)
                 (\<lambda>(ps, c). Inr (ps, cs\<lparr>cr2Counter := c\<rparr>))
      | CR3 \<Rightarrow> andThen (Cr3_extractPreviews data sz) (\<lambda>ps. Inr (ps, cs))
      | NEF \<Rightarrow> andThen (Nef_extractPreviews fuel (nefCounter cs) data sz)
                 (\<lambda>(ps, c). Inr (ps, cs\<lparr>nefCounter := c\<rparr>))
      | ARW \<Rightarrow> andThen (Arw_extractPreviews fuel (arwCounter cs) (tagAddr env) data sz)
                 (\<lambda>(ps, c). Inr (ps, cs\<lparr>arwCounter := c\<rparr>))
      | DNG \<Rightarrow> andThen (Dng_extractPreviews fuel data sz) (\<lambda>ps. Inr (ps, cs))
      | RAF \<Rightarrow> andThen (Raf_extractPreviews data sz) (\<lambda>ps. Inr (ps, cs))
      | ORF \<Rightarrow> andThen (Orf_extractPreviews fuel data sz) (\<lambda>ps. Inr (ps, cs))
      | RW2 \<Rightarrow> andThen (Rw2_extractPreviews fuel data sz) (\<lambda>ps. Inr (ps, cs))
      | _ \<Rightarrow> Inr ([], cs))"

text \<open>
  \<open>std::sort\<close> with a comparison \<open>before\<close>, as an insertion sort. The C++ sort is
  not stable: where the comparison does not order two elements, their order in the
  result is left to the library (an insertion sort up to 16 elements, an introsort
  beyond). Here such elements keep their order, so \<open>sort_by\<close> gives the result of the
  source only for lists whose elements the comparison orders strictly, or of at most 16
  elements; nothing below is stated for a list with two elements of the same rank.
\<close>

fun insert_by :: "('a \<Rightarrow> 'a \<Rightarrow> bool) \<Rightarrow> 'a \<Rightarrow> 'a list \<Rightarrow> 'a list" where
  "insert_by before x [] = [x]"
| "insert_by before x (y # ys) =
     (if before y x \<or> \<not> before x y then y # insert_by before x ys else x # y # ys)"

definition sort_by :: "('a \<Rightarrow> 'a \<Rightarrow> bool) \<Rightarrow> 'a list \<Rightarrow> 'a list" where
  "sort_by before xs = foldl (\<lambda>acc x. insert_by before x acc) [] xs"

definition selectBestPreview ::
  "PreviewInfo list \<Rightarrow> ExtractionOptions \<Rightarrow> RawFormat \<Rightarrow> PreviewInfo" where
  "selectBestPreview previews options fmt =
     (if previews = [] then PreviewInfo_default
      else
        let formatBest =
              (case fmt of
                 CR2 \<Rightarrow> Cr2_selectBestPreview previews
               | CR3 \<Rightarrow> Cr3_selectBestPreview previews
               | NEF \<Rightarrow> Nef_selectBestPreview previews
               | ARW \<Rightarrow> Arw_selectBestPreview previews
               | DNG \<Rightarrow> Dng_selectBestPreview previews
               | RAF \<Rightarrow> Raf_selectBestPreview previews
               | ORF \<Rightarrow> Orf_selectBestPreview previews
               | RW2 \<Rightarrow> Rw2_selectBestPreview previews
               | _ \<Rightarrow> PreviewInfo_default)
        in
        if unat (size' formatBest) \<ge> targetMinSize options
           \<and> unat (size' formatBest) \<le> targetMaxSize options
        then formatBest
        else
          let inRange = filter (\<lambda>p. \<not> (unat (size' p) < targetMinSize options
                                        \<or> unat (size' p) > targetMaxSize options)) previews;
              candidates = (if inRange = [] then previews else inRange);
              sorted = sort_by (\<lambda>a b.
                         let aQualityMatch = (quality a = preferredQuality options);
                             bQualityMatch = (quality b = preferredQuality options)
                         in if aQualityMatch \<noteq> bQualityMatch then aQualityMatch
                            else size' a > size' b) candidates
          in (if sorted = [] then PreviewInfo_default else hd sorted))"

definition validatePreview ::
  "Env \<Rightarrow> u8 list \<Rightarrow> nat \<Rightarrow> PreviewInfo \<Rightarrow> ExtractionOptions \<Rightarrow> bool run" where
  "validatePreview env data sz p options =
     (if unat (offset p + size' p) > sz then Inr False
      else if \<not> checkMemoryUsage env (unat (size' p)) options then Inr False
      else if strictValidation options
        then isValidJpeg data (unat (offset p)) (unat (size' p))
      else if size' p \<ge> 2 then match_bytes data (unat (offset p)) [0xFF, 0xD8]
      else Inr False)"

definition extractJpegData :: "u8 list \<Rightarrow> nat \<Rightarrow> PreviewInfo \<Rightarrow> u8 list run" where
  "extractJpegData data sz p =
     (if unat (offset p + size' p) > sz then Inr []
      else bytes_at data (unat (offset p)) (unat (size' p)))"

text \<open>
  \<open>extractPreviewFromBuffer\<close>. \<open>initialized_\<close> is set by the only constructor and
  never cleared, so the first check of the source never fires.
\<close>

definition extractPreviewFromBuffer ::
  "nat \<Rightarrow> Env \<Rightarrow> Counters \<Rightarrow> u8 list option \<Rightarrow> nat \<Rightarrow> ExtractionOptions
     \<Rightarrow> (ExtractionResult \<times> Counters) run"
where
  "extractPreviewFromBuffer fuel env cs buf sz options =
     (let result = ExtractionResult_default in
      case buf of
        None \<Rightarrow> Inr (setError result INVALID_FORMAT ''Invalid data buffer'' [], cs)
      | Some data \<Rightarrow>
        if sz < 16 then Inr (setError result INVALID_FORMAT ''Invalid data buffer'' [], cs)
        else if sz > 200 * 1024 * 1024 \<and> \<not> checkMemoryUsage env sz options then
          Inr (setError result MEMORY_LIMIT_EXCEEDED ''File size exceeds memory limit'' [], cs)
        else
          andThen (validateFile buf sz) (\<lambda>validationResult.
            if validationResult \<noteq> SUCCESS then
              Inr (setError result validationResult
                     (if validationResult = INVALID_FORMAT then ''Invalid file format''
                      else ''Corrupted file'') [], cs)
            else if isExpired env 0 then
              Inr (setError result TIMEOUT_EXCEEDED
                     ''Operation timed out during validation'' [], cs)
            else
              andThen (detectFormatFast data sz) (\<lambda>fast.
              andThen (if fast = UNKNOWN then detectFormat env data sz else Inr fast) (\<lambda>fmt.
                let result = result\<lparr>format := fmt\<rparr> in
                if fmt = UNKNOWN then
                  Inr (setError result INVALID_FORMAT
                         ''Unsupported or unrecognized RAW format'' [], cs)
                else if isExpired env 1 then
                  Inr (setError result TIMEOUT_EXCEEDED
                         ''Operation timed out during format detection'' [], cs)
                else
                  andThen (getAllPreviews fuel env cs data sz fmt) (\<lambda>(previews, cs').
                    if previews = [] then
                      Inr (setError result NO_PREVIEWS_FOUND
                             ''No previews found in RAW file'' [], cs')
                    else if isExpired env 2 then
                      Inr (setError result TIMEOUT_EXCEEDED
                             ''Operation timed out during preview extraction'' [], cs')
                    else
                      let result = result\<lparr>preview := selectBestPreview previews options fmt\<rparr>
                      in
                      if offset (preview result) = 0 \<or> size' (preview result) = 0 then
                        Inr (setError result NO_PREVIEWS_FOUND
                               ''No suitable preview found matching criteria'' [], cs')
                      else
                        andThen (validatePreview env data sz (preview result) options) (\<lambda>ok.
                          if \<not> ok then
                            Inr (setError result VALIDATION_FAILED
                                   ''Selected preview failed validation'' [], cs')
                          else if isExpired env 3 then
                            Inr (setError result TIMEOUT_EXCEEDED
                                   ''Operation timed out during validation'' [], cs')
                          else
                            andThen (extractJpegData data sz (preview result)) (\<lambda>jpeg.
                              let result = result\<lparr>jpegData := jpeg\<rparr> in
                              if jpeg = [] then
                                Inr (setError result UNKNOWN_ERROR
                                       ''Failed to extract JPEG data'' [], cs')
                              else Inr (result\<lparr>success := True\<rparr>, cs'))))))))"

section \<open>Medium and full selection (main.cpp)\<close>

record PreviewMapping =
  fullPreviewIndex :: i32
  mediumPreviewIndex :: i32
  useSmartSelection :: bool

text \<open>
  \<open>nikonModelMappings\<close> is a \<open>std::map\<close> keyed by \<open>std::string\<close>: whatever the order
  of its initialiser, a loop over it visits the entries in ascending order of the keys,
  compared byte by byte. The initialiser, in the order of the source:
\<close>

definition nikonModelMappings_init :: "(string \<times> PreviewMapping) list" where
  "nikonModelMappings_init =
     [(''Z 9'', \<lparr>fullPreviewIndex = - 1, mediumPreviewIndex = - 2, useSmartSelection = True\<rparr>),
      (''Z 8'', \<lparr>fullPreviewIndex = - 1, mediumPreviewIndex = - 2, useSmartSelection = True\<rparr>),
      (''Z 7II'', \<lparr>fullPreviewIndex = - 1, mediumPreviewIndex = - 2, useSmartSelection = True\<rparr>),
      (''Z 6III'', \<lparr>fullPreviewIndex = - 1, mediumPreviewIndex = - 2, useSmartSelection = True\<rparr>),
      (''Z 6II'', \<lparr>fullPreviewIndex = - 1, mediumPreviewIndex = - 2, useSmartSelection = True\<rparr>),
      (''Z 6'', \<lparr>fullPreviewIndex = 0, mediumPreviewIndex = 1, useSmartSelection = False\<rparr>),
      (''Z 5'', \<lparr>fullPreviewIndex = - 1, mediumPreviewIndex = - 2, useSmartSelection = True\<rparr>),
      (''Z fc'', \<lparr>fullPreviewIndex = - 1, mediumPreviewIndex = - 2, useSmartSelection = True\<rparr>),
      (''Z 30'', \<lparr>fullPreviewIndex = - 1, mediumPreviewIndex = - 2, useSmartSelection = True\<rparr>),
      (''D850'', \<lparr>fullPreviewIndex = - 1, mediumPreviewIndex = - 2, useSmartSelection = True\<rparr>),
      (''D780'', \<lparr>fullPreviewIndex = - 1, mediumPreviewIndex = - 2, useSmartSelection = True\<rparr>),
      (''D6'', \<lparr>fullPreviewIndex = - 1, mediumPreviewIndex = - 2, useSmartSelection = True\<rparr>),
      (''D750'', \<lparr>fullPreviewIndex = 0, mediumPreviewIndex = 1, useSmartSelection = False\<rparr>),
      (''D810'', \<lparr>fullPreviewIndex = 0, mediumPreviewIndex = 1, useSmartSelection = False\<rparr>),
      (''D610'', \<lparr>fullPreviewIndex = 0, mediumPreviewIndex = 1, useSmartSelection = False\<rparr>),
      (''D7500'', \<lparr>fullPreviewIndex = 0, mediumPreviewIndex = 1, useSmartSelection = False\<rparr>),
      (''D7200'', \<lparr>fullPreviewIndex = 0, mediumPreviewIndex = 1, useSmartSelection = False\<rparr>),
      (''D5600'', \<lparr>fullPreviewIndex = 0, mediumPreviewIndex = 1, useSmartSelection = False\<rparr>),
      (''D3500'', \<lparr>fullPreviewIndex = 0, mediumPreviewIndex = 1, useSmartSelection = False\<rparr>)]"

text \<open>\<open>std::less<std::string>\<close>: lexicographic on the byte values.\<close>

fun string_less :: "string \<Rightarrow> string \<Rightarrow> bool" where
  "string_less [] [] = False"
| "string_less [] (y # ys) = True"
| "string_less (x # xs) [] = False"
| "string_less (x # xs) (y # ys) =
     ((of_char x :: nat) < of_char y \<or> (x = y \<and> string_less xs ys))"

text \<open>
  Building the map: each entry goes to its place in the order of the keys; an entry
  whose key is already there is dropped, as by the constructor of \<open>std::map\<close>.
\<close>

fun map_insert :: "string \<times> 'v \<Rightarrow> (string \<times> 'v) list \<Rightarrow> (string \<times> 'v) list" where
  "map_insert e [] = [e]"
| "map_insert e (x # xs) =
     (if string_less (fst e) (fst x) then e # x # xs
      else if fst e = fst x then x # xs
      else x # map_insert e xs)"

definition nikonModelMappings :: "(string \<times> PreviewMapping) list" where
  "nikonModelMappings = foldl (\<lambda>m e. map_insert e m) [] nikonModelMappings_init"

text \<open>\<open>model.find(key) != std::string::npos\<close>: \<open>key\<close> occurs in \<open>model\<close>.\<close>

fun starts_with :: "string \<Rightarrow> string \<Rightarrow> bool" where
  "starts_with s [] = True"
| "starts_with [] (k # ks) = False"
| "starts_with (c # cs) (k # ks) = (c = k \<and> starts_with cs ks)"

fun string_contains :: "string \<Rightarrow> string \<Rightarrow> bool" where
  "string_contains [] key = (key = [])"
| "string_contains (c # cs) key = (starts_with (c # cs) key \<or> string_contains cs key)"

fun getNefMapping_loop :: "(string \<times> PreviewMapping) list \<Rightarrow> string \<Rightarrow> PreviewMapping" where
  "getNefMapping_loop [] model =
     \<lparr>fullPreviewIndex = - 1, mediumPreviewIndex = - 2, useSmartSelection = True\<rparr>"
| "getNefMapping_loop (entry # rest) model =
     (if string_contains model (fst entry) then snd entry
      else getNefMapping_loop rest model)"

definition getNefMapping :: "string \<Rightarrow> PreviewMapping" where
  "getNefMapping model = getNefMapping_loop nikonModelMappings model"

definition formatMappings :: "RawFormat \<Rightarrow> PreviewMapping option" where
  "formatMappings fmt =
     (case fmt of
        ARW \<Rightarrow> Some \<lparr>fullPreviewIndex = 2, mediumPreviewIndex = 0, useSmartSelection = False\<rparr>
      | CR2 \<Rightarrow> Some \<lparr>fullPreviewIndex = 0, mediumPreviewIndex = 1, useSmartSelection = False\<rparr>
      | CR3 \<Rightarrow> Some \<lparr>fullPreviewIndex = 2, mediumPreviewIndex = 1, useSmartSelection = False\<rparr>
      | DNG \<Rightarrow> Some \<lparr>fullPreviewIndex = 0, mediumPreviewIndex = 1, useSmartSelection = False\<rparr>
      | RAF \<Rightarrow> Some \<lparr>fullPreviewIndex = 0, mediumPreviewIndex = 1, useSmartSelection = False\<rparr>
      | ORF \<Rightarrow> Some \<lparr>fullPreviewIndex = 0, mediumPreviewIndex = 1, useSmartSelection = False\<rparr>
      | RW2 \<Rightarrow> Some \<lparr>fullPreviewIndex = 0, mediumPreviewIndex = 1, useSmartSelection = False\<rparr>
      | _ \<Rightarrow> None)"

text \<open>
  \<open>getLargestPreview\<close>: \<open>std::max_element\<close>, the first of the largest.
  \<open>getSecondLargestPreview\<close>: the second element after sorting by descending size.
\<close>

fun max_element_size :: "PreviewInfo \<Rightarrow> PreviewInfo list \<Rightarrow> PreviewInfo" where
  "max_element_size best [] = best"
| "max_element_size best (p # ps) =
     (if size' best < size' p then max_element_size p ps else max_element_size best ps)"

definition getLargestPreview :: "PreviewInfo list \<Rightarrow> PreviewInfo" where
  "getLargestPreview previews =
     (case previews of [] \<Rightarrow> PreviewInfo_default | p # ps \<Rightarrow> max_element_size p ps)"

definition getSecondLargestPreview :: "PreviewInfo list \<Rightarrow> PreviewInfo" where
  "getSecondLargestPreview previews =
     (if length previews \<le> 1
      then (if previews = [] then PreviewInfo_default else hd previews)
      else sort_by (\<lambda>a b. size' a > size' b) previews ! 1)"

text \<open>
  The selection of \<open>ExtractMediumPreview\<close> and of \<open>ExtractFullPreview\<close> from a
  non-empty candidate list. \<open>idx < static_cast<int>(allPreviews.size())\<close> compares two
  \<open>int\<close>.
\<close>

definition at_index :: "PreviewInfo list \<Rightarrow> i32 \<Rightarrow> PreviewInfo" where
  "at_index allPreviews idx = allPreviews ! nat (sint idx)"

definition selectMediumPreview :: "RawFormat \<Rightarrow> string \<Rightarrow> PreviewInfo list \<Rightarrow> PreviewInfo" where
  "selectMediumPreview fmt model allPreviews =
     (let fallback = (if length allPreviews > 1 then allPreviews ! 1 else allPreviews ! 0) in
      if fmt = NEF then
        (let mapping = getNefMapping model in
         if useSmartSelection mapping \<or> mediumPreviewIndex mapping = - 2
           then getSecondLargestPreview allPreviews
         else if mediumPreviewIndex mapping <s of_nat (length allPreviews)
           then at_index allPreviews (mediumPreviewIndex mapping)
         else fallback)
      else
        (case formatMappings fmt of
           Some mapping \<Rightarrow>
             if mediumPreviewIndex mapping <s of_nat (length allPreviews)
             then at_index allPreviews (mediumPreviewIndex mapping)
             else fallback
         | None \<Rightarrow> fallback))"

definition selectFullPreview :: "RawFormat \<Rightarrow> string \<Rightarrow> PreviewInfo list \<Rightarrow> PreviewInfo" where
  "selectFullPreview fmt model allPreviews =
     (if fmt = NEF then
        (let mapping = getNefMapping model in
         if useSmartSelection mapping \<or> fullPreviewIndex mapping = - 1
           then getLargestPreview allPreviews
         else if fullPreviewIndex mapping <s of_nat (length allPreviews)
           then at_index allPreviews (fullPreviewIndex mapping)
         else allPreviews ! 0)
      else
        (case formatMappings fmt of
           Some mapping \<Rightarrow>
             if fullPreviewIndex mapping <s of_nat (length allPreviews)
             then at_index allPreviews (fullPreviewIndex mapping)
             else allPreviews ! 0
         | None \<Rightarrow> allPreviews ! 0))"

text \<open>
  \<open>ExtractMediumPreview\<close> and \<open>ExtractFullPreview\<close> once the file is mapped: format
  detection, enumeration, selection, the bounds check and the copy of the JPEG bytes.
  \<open>medium\<close> tells which of the two runs.
\<close>

definition extractIndexedPreview ::
  "bool \<Rightarrow> nat \<Rightarrow> Env \<Rightarrow> Counters \<Rightarrow> u8 list \<Rightarrow> (ExtractionResult \<times> Counters) run" where
  "extractIndexedPreview medium fuel env cs data =
     (let sz = length data in
      andThen (detectFormat env data sz) (\<lambda>fmt.
      andThen (getAllPreviews fuel env cs data sz fmt) (\<lambda>(allPreviews, cs').
        if allPreviews = [] then
          Inr (setError ExtractionResult_default NO_PREVIEWS_FOUND
                 ''No previews found in RAW file'' [], cs')
        else
          andThen (if fmt = NEF then extractCameraModel (tagAddr env) data sz else Inr [])
            (\<lambda>model.
              let selectedPreview =
                    (if medium then selectMediumPreview fmt model allPreviews
                     else selectFullPreview fmt model allPreviews)
              in
              if unat (offset selectedPreview + size' selectedPreview) > sz then
                Inr (setError ExtractionResult_default CORRUPTED_FILE
                       ''Preview extends beyond file bounds'' [], cs')
              else
                andThen (bytes_at data (unat (offset selectedPreview))
                           (unat (size' selectedPreview))) (\<lambda>jpeg.
                  Inr (ExtractionResult_default
                         \<lparr>success := True, format := fmt, preview := selectedPreview,
                          jpegData := jpeg\<rparr>, cs'))))))"

definition ExtractMediumPreview ::
  "nat \<Rightarrow> Env \<Rightarrow> Counters \<Rightarrow> u8 list \<Rightarrow> (ExtractionResult \<times> Counters) run" where
  "ExtractMediumPreview = extractIndexedPreview True"

definition ExtractFullPreview ::
  "nat \<Rightarrow> Env \<Rightarrow> Counters \<Rightarrow> u8 list \<Rightarrow> (ExtractionResult \<times> Counters) run" where
  "ExtractFullPreview = extractIndexedPreview False"

section \<open>Fixtures\<close>

text \<open>
  A TIFF of 14 bytes whose only IFD, at offset 8, has no entry and names itself as the
  next IFD.
\<close>

definition cyclic_tiff :: "u8 list" where
  "cyclic_tiff =
     [0x49, 0x49, 0x2A, 0x00, 0x08, 0x00, 0x00, 0x00,
      0x00, 0x00,
      0x08, 0x00, 0x00, 0x00]"

text \<open>
  A CR2 of 93 bytes. IFD0 (offset 16) has StripOffsets 88, StripByteCounts 5 and one
  SubIFD (offset 58) with the same StripOffsets and StripByteCounts; the five bytes at
  offset 88 are the JPEG \<open>FF D8 00 FF D9\<close>.
\<close>

definition cr2_shared_strip :: "u8 list" where
  "cr2_shared_strip =
     [0x49, 0x49, 0x2A, 0x00, 0x10, 0x00, 0x00, 0x00,
      0x43, 0x52, 0x02, 0x00, 0x00, 0x00, 0x00, 0x00,
      0x03, 0x00,
      0x11, 0x01, 0x04, 0x00, 0x01, 0x00, 0x00, 0x00, 0x58, 0x00, 0x00, 0x00,
      0x17, 0x01, 0x04, 0x00, 0x01, 0x00, 0x00, 0x00, 0x05, 0x00, 0x00, 0x00,
      0x4A, 0x01, 0x04, 0x00, 0x01, 0x00, 0x00, 0x00, 0x3A, 0x00, 0x00, 0x00,
      0x00, 0x00, 0x00, 0x00,
      0x02, 0x00,
      0x11, 0x01, 0x04, 0x00, 0x01, 0x00, 0x00, 0x00, 0x58, 0x00, 0x00, 0x00,
      0x17, 0x01, 0x04, 0x00, 0x01, 0x00, 0x00, 0x00, 0x05, 0x00, 0x00, 0x00,
      0x00, 0x00, 0x00, 0x00,
      0xFF, 0xD8, 0x00, 0xFF, 0xD9]"

text \<open>
  A NEF of 79 bytes. IFD0 (offset 8) has the Make \<open>NIKON\<close> (at offset 38) and one
  SubIFD (offset 44) with JpgFromRawStart 74 and JpgFromRawLength 5; the five bytes at
  offset 74 are the JPEG \<open>FF D8 00 FF D9\<close>.
\<close>

definition nef_subifd :: "u8 list" where
  "nef_subifd =
     [0x49, 0x49, 0x2A, 0x00, 0x08, 0x00, 0x00, 0x00,
      0x02, 0x00,
      0x0F, 0x01, 0x02, 0x00, 0x06, 0x00, 0x00, 0x00, 0x26, 0x00, 0x00, 0x00,
      0x4A, 0x01, 0x04, 0x00, 0x01, 0x00, 0x00, 0x00, 0x2C, 0x00, 0x00, 0x00,
      0x00, 0x00, 0x00, 0x00,
      0x4E, 0x49, 0x4B, 0x4F, 0x4E, 0x00,
      0x02, 0x00,
      0x01, 0x02, 0x04, 0x00, 0x01, 0x00, 0x00, 0x00, 0x4A, 0x00, 0x00, 0x00,
      0x02, 0x02, 0x04, 0x00, 0x01, 0x00, 0x00, 0x00, 0x05, 0x00, 0x00, 0x00,
      0x00, 0x00, 0x00, 0x00,
      0xFF, 0xD8, 0x00, 0xFF, 0xD9]"

text \<open>A tag of type LONG with one value, which is held in the entry itself.\<close>

definition long_tag :: "u16 \<Rightarrow> u32 \<Rightarrow> TiffTag" where
  "long_tag t v = \<lparr>tag = t, type = 4, count = 1, valueOffset = v\<rparr>"

text \<open>The two IFDs of \<open>nef_subifd\<close>, as \<open>parseIfd\<close> reads them.\<close>

definition nef_ifd0 :: TiffIfd where
  "nef_ifd0 =
     \<lparr>tags = [0x010F \<mapsto> \<lparr>tag = 0x010F, type = 2, count = 6, valueOffset = 38\<rparr>,
              0x014A \<mapsto> long_tag 0x014A 44],
      nextIfdOffset = 0\<rparr>"

definition nef_sub :: TiffIfd where
  "nef_sub =
     \<lparr>tags = [0x0201 \<mapsto> long_tag 0x0201 74, 0x0202 \<mapsto> long_tag 0x0202 5],
      nextIfdOffset = 0\<rparr>"

text \<open>
  An ARW of 70 bytes that starts with the JPEG marker \<open>FF D8\<close> (a byte order mark that is
  neither \<open>II\<close> nor \<open>MM\<close> is read as little-endian) and ends with \<open>FF D9\<close>. IFD0
  (offset 8) has an SR2Private tag of value 0 and an SR2SubIFD tag that names the IFD at
  offset 38, whose StripOffsets is 0 and whose StripByteCounts is 70.
\<close>

definition arw_offset_zero :: "u8 list" where
  "arw_offset_zero =
     [0xFF, 0xD8, 0x2A, 0x00, 0x08, 0x00, 0x00, 0x00,
      0x02, 0x00,
      0x00, 0x72, 0x01, 0x00, 0x01, 0x00, 0x00, 0x00, 0x00, 0x00, 0x00, 0x00,
      0x01, 0x72, 0x04, 0x00, 0x01, 0x00, 0x00, 0x00, 0x26, 0x00, 0x00, 0x00,
      0x00, 0x00, 0x00, 0x00,
      0x02, 0x00,
      0x11, 0x01, 0x04, 0x00, 0x01, 0x00, 0x00, 0x00, 0x00, 0x00, 0x00, 0x00,
      0x17, 0x01, 0x04, 0x00, 0x01, 0x00, 0x00, 0x00, 0x46, 0x00, 0x00, 0x00,
      0x00, 0x00, 0x00, 0x00,
      0xFF, 0xD9]"

definition arw_ifd0 :: TiffIfd where
  "arw_ifd0 =
     \<lparr>tags = [0x7200 \<mapsto> \<lparr>tag = 0x7200, type = 1, count = 1, valueOffset = 0\<rparr>,
              0x7201 \<mapsto> long_tag 0x7201 38],
      nextIfdOffset = 0\<rparr>"

definition arw_sub :: TiffIfd where
  "arw_sub =
     \<lparr>tags = [0x0111 \<mapsto> long_tag 0x0111 0, 0x0117 \<mapsto> long_tag 0x0117 70],
      nextIfdOffset = 0\<rparr>"

text \<open>
  Three RAF buffers. \<open>raf_fixture\<close> (1536 bytes) has the big-endian offset 1024 at byte
  84 and the length 512 at byte 88, and a JPEG in the 512 bytes from offset 1024.
  \<open>raf_short\<close> (96 bytes) has offset 16 and length 5, and the JPEG \<open>FF D8 00 FF D9\<close> at
  offset 16. \<open>raf_wrapping\<close> (100 bytes) has offset \<open>0xFFFFFFFC\<close> and length 5, whose
  sum is 1 in 32 bits.
\<close>

definition raf_fixture :: "u8 list" where
  "raf_fixture =
     ascii ''FUJIFILMCCD-RAW'' @ [0x00] @ replicate 68 0x00
     @ [0x00, 0x00, 0x04, 0x00] @ [0x00, 0x00, 0x02, 0x00] @ replicate 932 0x00
     @ [0xFF, 0xD8] @ replicate 508 0x00 @ [0xFF, 0xD9]"

definition raf_short :: "u8 list" where
  "raf_short =
     ascii ''FUJIFILMCCD-RAW'' @ [0x00] @ [0xFF, 0xD8, 0x00, 0xFF, 0xD9] @ replicate 63 0x00
     @ [0x00, 0x00, 0x00, 0x10] @ [0x00, 0x00, 0x00, 0x05] @ replicate 4 0x00"

definition raf_wrapping :: "u8 list" where
  "raf_wrapping =
     ascii ''FUJIFILMCCD-RAW'' @ [0x00] @ replicate 68 0x00
     @ [0xFF, 0xFF, 0xFF, 0xFC] @ [0x00, 0x00, 0x00, 0x05] @ replicate 8 0x00"

text \<open>
  A CR3 of 30 bytes: an \<open>ftyp\<close> box of 20 bytes, an \<open>mdat\<close> box of 8 bytes (a header
  with no payload) and two more bytes.
\<close>

definition cr3_empty_mdat :: "u8 list" where
  "cr3_empty_mdat =
     [0x00, 0x00, 0x00, 0x14, 0x66, 0x74, 0x79, 0x70, 0x63, 0x72, 0x33, 0x20,
      0x00, 0x00, 0x00, 0x00, 0x00, 0x00, 0x00, 0x00,
      0x00, 0x00, 0x00, 0x08, 0x6D, 0x64, 0x61, 0x74,
      0x00, 0x00]"

text \<open>
  A little-endian TIFF of 16 bytes whose IFD0 (offset 8) declares 100 entries, more than
  the buffer holds.
\<close>

definition truncated_tiff :: "u8 list" where
  "truncated_tiff =
     [0x49, 0x49, 0x2A, 0x00, 0x08, 0x00, 0x00, 0x00,
      0x64, 0x00, 0x00, 0x00, 0x00, 0x00, 0x00, 0x00]"

text \<open>
  A DNG of 38 bytes. IFD0 (offset 8) has a DNGVersion tag and a SubIFDs tag whose one
  value, \<open>0xFFFFFFFE\<close>, names an IFD far beyond the buffer.
\<close>

definition dng_far_subifd :: "u8 list" where
  "dng_far_subifd =
     [0x49, 0x49, 0x2A, 0x00, 0x08, 0x00, 0x00, 0x00,
      0x02, 0x00,
      0x4A, 0x01, 0x04, 0x00, 0x01, 0x00, 0x00, 0x00, 0xFE, 0xFF, 0xFF, 0xFF,
      0x12, 0xC6, 0x01, 0x00, 0x04, 0x00, 0x00, 0x00, 0x01, 0x04, 0x00, 0x00,
      0x00, 0x00, 0x00, 0x00]"

definition dng_ifd0 :: TiffIfd where
  "dng_ifd0 =
     \<lparr>tags = [0x014A \<mapsto> long_tag 0x014A 0xFFFFFFFE,
              0xC612 \<mapsto> \<lparr>tag = 0xC612, type = 1, count = 4, valueOffset = 0x0401\<rparr>],
      nextIfdOffset = 0\<rparr>"

text \<open>
  Three candidates as a NEF enumeration could list them: 2 MiB, 8 MiB and 5 KiB, in
  this order.
\<close>

definition sized :: "u32 \<Rightarrow> u32 \<Rightarrow> PreviewInfo" where
  "sized off n = PreviewInfo_default\<lparr>offset := off, size' := n\<rparr>"

definition three_previews :: "PreviewInfo list" where
  "three_previews = [sized 4096 2097152, sized 3145728 8388608, sized 12582912 5120]"

text \<open>An environment where no deadline expires and every memory check passes.\<close>

definition env_idle :: Env where
  "env_idle = \<lparr>isExpired = (\<lambda>k. False), checkMemoryUsage = (\<lambda>m options. True),
                tagAddr = 0x7FFC00000000\<rparr>"

section \<open>Reasoning about runs\<close>

text \<open>\<open>returns m P\<close>: if the run \<open>m\<close> returns a value, the value satisfies \<open>P\<close>.\<close>

definition returns :: "'a run \<Rightarrow> ('a \<Rightarrow> bool) \<Rightarrow> bool" where
  "returns m P = (case m of Inl e \<Rightarrow> True | Inr x \<Rightarrow> P x)"

text \<open>
  The pair that the duplicate check compares, and the relation between the list that a
  second pass receives and the list that it returns: the first list, followed by
  candidates whose pairs differ from each other and from every pair of the first list.
\<close>

definition key :: "PreviewInfo \<Rightarrow> u32 \<times> u32" where
  "key p = (offset p, size' p)"

definition appended_fresh :: "PreviewInfo list \<Rightarrow> PreviewInfo list \<Rightarrow> bool" where
  "appended_fresh previews out =
     (take (length previews) out = previews
      \<and> distinct (map key (drop (length previews) out))
      \<and> list_all (\<lambda>p. \<not> is_duplicate previews p) (drop (length previews) out))"

text \<open>The error code of a result is not \<open>CORRUPTED_FILE\<close>.\<close>

definition not_corrupted :: "ExtractionResult \<times> Counters \<Rightarrow> bool" where
  "not_corrupted rc = (code (errorInfo (fst rc)) \<noteq> CORRUPTED_FILE)"

section \<open>Properties\<close>

subsection \<open>Rules for runs\<close>

lemma returns_Inr: "P x \<Longrightarrow> returns (Inr x) P"
  by (simp add: returns_def)

lemma returns_Inl: "returns (Inl e) P"
  by (simp add: returns_def)

lemma returns_andThen: "(\<And>x. returns (f x) P) \<Longrightarrow> returns (andThen m f) P"
  by (cases m) (simp_all add: returns_def)

lemma returns_if: "returns a P \<Longrightarrow> returns b P \<Longrightarrow> returns (if c then a else b) P"
  by simp

lemma returns_case_option:
  "returns a P \<Longrightarrow> (\<And>x. returns (f x) P)
     \<Longrightarrow> returns (case opt of None \<Rightarrow> a | Some x \<Rightarrow> f x) P"
  by (cases opt) simp_all

lemma returns_Let: "returns (f x) P \<Longrightarrow> returns (let y = x in f y) P"
  by simp

lemma returns_andThen_strong:
  "(\<And>x. m = Inr x \<Longrightarrow> returns (f x) P) \<Longrightarrow> returns (andThen m f) P"
  by (cases m) (simp_all add: returns_def)

lemma returns_case_prod:
  "(\<And>a b. returns (f a b) P) \<Longrightarrow> returns (case x of (a, b) \<Rightarrow> f a b) P"
  by (cases x) simp

lemmas returns_intros =
  returns_andThen returns_if returns_case_option returns_Let returns_Inl

subsection \<open>Evaluating the fixtures\<close>

lemmas tiff_consts =
  TIFF_TYPE_BYTE_def TIFF_TYPE_ASCII_def TIFF_TYPE_SHORT_def TIFF_TYPE_LONG_def
  TIFF_TYPE_RATIONAL_def TIFF_TAG_IMAGE_WIDTH_def TIFF_TAG_IMAGE_HEIGHT_def
  TIFF_TAG_STRIP_OFFSETS_def TIFF_TAG_STRIP_BYTE_COUNTS_def TIFF_TAG_ORIENTATION_def
  TIFF_TAG_SUB_IFDS_def TIFF_TAG_NEW_SUBFILE_TYPE_def TIFF_TAG_COMPRESSION_def
  TIFF_TAG_JPEG_INTERCHANGE_FORMAT_def TIFF_TAG_JPEG_INTERCHANGE_FORMAT_LENGTH_def
  NIKON_TAG_JPEG_FROM_RAW_START_def NIKON_TAG_JPEG_FROM_RAW_LENGTH_def
  SONY_TAG_SR2_PRIVATE_def SONY_TAG_SR2_SUB_IFD_def

lemmas rd_simps = readUInt16_def readUInt32_def rd_def

lemma readUInt32_host_bytes: "readUInt32 (host_bytes v) 0 True = Inr v"
proof -
  have "(ucast (ucast v :: u8) :: u32) OR push_bit 8 (ucast (ucast (drop_bit 8 v) :: u8))
        OR push_bit 16 (ucast (ucast (drop_bit 16 v) :: u8))
        OR push_bit 24 (ucast (ucast (drop_bit 24 v) :: u8)) = v"
  proof (rule bit_word_eqI)
    fix n assume "n < LENGTH(32)"
    then show "bit ((ucast (ucast v :: u8) :: u32)
                    OR push_bit 8 (ucast (ucast (drop_bit 8 v) :: u8))
                    OR push_bit 16 (ucast (ucast (drop_bit 16 v) :: u8))
                    OR push_bit 24 (ucast (ucast (drop_bit 24 v) :: u8))) n = bit v n"
      by (cases "n < 8"; cases "n < 16"; cases "n < 24") (auto simp: bit_simps)
  qed
  then show ?thesis
    by (simp add: readUInt32_def host_bytes_def rd_def)
qed

lemma getTagValues32_long: "getTagValues32 True (long_tag t v) data sz = Inr [v]"
  by (simp add: getTagValues32_def long_tag_def getTypeSize_def tiff_consts
      getTagValues32_elem_def readUInt32_host_bytes upt_conv_Cons)

lemma getTagValue32_long: "getTagValue32 True (long_tag t v) data sz = Inr v"
  by (simp add: getTagValue32_def long_tag_def getTypeSize_def tiff_consts)

lemma to_string_0: "to_string 0 = ''0''"
  by (simp add: to_string_def string_of_nat.simps)

lemma to_string_1: "to_string 1 = ''1''"
  by (simp add: to_string_def string_of_nat.simps)

paragraph \<open>The cyclic TIFF\<close>

lemma cyclic_length: "length cyclic_tiff = 14"
  by (simp add: cyclic_tiff_def)

lemma cyclic_header:
  "parseHeader cyclic_tiff 14 = Inr (Some \<lparr>littleEndian = True, firstIfdOffset = 8\<rparr>)"
  by (simp add: parseHeader_def detectEndianness_def rd_simps cyclic_tiff_def)

lemma cyclic_ifd:
  "parseIfd True cyclic_tiff 14 8 = Inr (Some \<lparr>tags = Map.empty, nextIfdOffset = 8\<rparr>)"
  by (simp add: parseIfd_def rd_simps cyclic_tiff_def)

lemma cyclic_preview:
  "extractPreviewFromIfd True cyclic_tiff 14 \<lparr>tags = Map.empty, nextIfdOffset = 8\<rparr> k
     = Inr (PreviewInfo_default\<lparr>ifdIndex := k\<rparr>)"
  by (simp add: extractPreviewFromIfd_def tagValue32_or_def)

lemma cyclic_loop: "findPreviews_loop fuel True cyclic_tiff 14 8 k ps = Inl OutOfFuel"
proof (induction fuel arbitrary: k ps)
  case 0
  show ?case by (simp add: findPreviews_loop.simps)
next
  case (Suc fuel)
  show ?case
    by (subst findPreviews_loop.simps)
       (simp add: cyclic_ifd cyclic_preview Suc PreviewInfo_default_def)
qed

paragraph \<open>The CR2 with a shared strip\<close>

lemma cr2_length: "length cr2_shared_strip = 93"
  by (simp add: cr2_shared_strip_def)

lemma cr2_header:
  "parseHeader cr2_shared_strip 93 = Inr (Some \<lparr>littleEndian = True, firstIfdOffset = 16\<rparr>)"
  by (simp add: parseHeader_def detectEndianness_def rd_simps cr2_shared_strip_def)

lemma cr2_ifd0:
  "parseIfd True cr2_shared_strip 93 16 =
     Inr (Some \<lparr>tags = [0x111 \<mapsto> long_tag 0x111 88, 0x117 \<mapsto> long_tag 0x117 5,
                         0x14A \<mapsto> long_tag 0x14A 58],
                 nextIfdOffset = 0\<rparr>)"
  by (simp add: parseIfd_def parseTag_def rd_simps cr2_shared_strip_def long_tag_def
      upt_conv_Cons)

lemma cr2_subifd:
  "parseIfd True cr2_shared_strip 93 58 =
     Inr (Some \<lparr>tags = [0x111 \<mapsto> long_tag 0x111 88, 0x117 \<mapsto> long_tag 0x117 5],
                 nextIfdOffset = 0\<rparr>)"
  by (simp add: parseIfd_def parseTag_def rd_simps cr2_shared_strip_def long_tag_def
      upt_conv_Cons)

lemma cr2_preview0:
  "extractPreviewFromIfd True cr2_shared_strip 93
     \<lparr>tags = [0x111 \<mapsto> long_tag 0x111 88, 0x117 \<mapsto> long_tag 0x117 5,
              0x14A \<mapsto> long_tag 0x14A 58],
      nextIfdOffset = 0\<rparr> k
   = Inr (PreviewInfo_default\<lparr>ifdIndex := k, offset := 88, size' := 5\<rparr>)"
  by (simp add: extractPreviewFromIfd_def tagValue32_or_def tiff_consts getTagValues32_long)

lemma cr2_preview1:
  "extractPreviewFromIfd True cr2_shared_strip 93
     \<lparr>tags = [0x111 \<mapsto> long_tag 0x111 88, 0x117 \<mapsto> long_tag 0x117 5],
      nextIfdOffset = 0\<rparr> k
   = Inr (PreviewInfo_default\<lparr>ifdIndex := k, offset := 88, size' := 5\<rparr>)"
  by (simp add: extractPreviewFromIfd_def tagValue32_or_def tiff_consts getTagValues32_long)

lemma cr2_findPreviews:
  "findPreviews (Suc fuel) cr2_shared_strip 93 =
     Inr [PreviewInfo_default\<lparr>ifdIndex := 0, offset := 88, size' := 5\<rparr>,
          PreviewInfo_default\<lparr>ifdIndex := - 1, offset := 88, size' := 5\<rparr>]"
  by (simp add: findPreviews_def cr2_header findPreviews_loop.simps cr2_ifd0 cr2_subifd
      cr2_preview0 cr2_preview1 getTagValues32_long tiff_consts PreviewInfo_default_def)

lemma cr2_jpeg: "isValidJpeg cr2_shared_strip 88 5 = Inr True"
  by (simp add: isValidJpeg_def isValidJpeg_loop.simps rd_def cr2_shared_strip_def)

lemma cr2_canParse: "Cr2_canParse cr2_shared_strip 93 = Inr True"
  by (simp add: Cr2_canParse_def detectEndianness_def rd_simps cr2_shared_strip_def)

lemma cr2_extract:
  "Cr2_extractPreviews (Suc fuel) c cr2_shared_strip 93 =
     Inr ([PreviewInfo_default\<lparr>offset := 88, size' := 5, ifdIndex := 0,
                               quality := QUALITY_PREVIEW, priority := 5,
                               type' := ''CR2_IFD0''\<rparr>,
           PreviewInfo_default\<lparr>offset := 88, size' := 5, priority := 3,
                               type' := ''CR2_SubIFD'' @ to_string c\<rparr>],
          c + 1)"
  by (simp add: Cr2_extractPreviews_def cr2_canParse cr2_findPreviews cr2_jpeg
      Cr2_classify_def PreviewInfo_default_def classifyPreview_def)

paragraph \<open>The NEF with one SubIFD\<close>

lemma nef_length: "length nef_subifd = 79"
  by (simp add: nef_subifd_def)

lemma nef_endian: "detectEndianness nef_subifd = Inr True"
  by (simp add: detectEndianness_def rd_def nef_subifd_def)

lemma nef_magic: "readUInt16 nef_subifd 2 True = Inr 0x2A"
  by (simp add: rd_simps nef_subifd_def)

lemma nef_first: "readUInt32 nef_subifd 4 True = Inr 8"
  by (simp add: rd_simps nef_subifd_def)

lemma nef_header:
  "parseHeader nef_subifd 79 = Inr (Some \<lparr>littleEndian = True, firstIfdOffset = 8\<rparr>)"
  by (simp add: parseHeader_def nef_endian nef_magic nef_first)

lemma nef_parse_ifd0: "parseIfd True nef_subifd 79 8 = Inr (Some nef_ifd0)"
  by (simp add: parseIfd_def parseTag_def rd_simps nef_subifd_def long_tag_def upt_conv_Cons
      nef_ifd0_def)

lemma nef_parse_sub: "parseIfd True nef_subifd 79 44 = Inr (Some nef_sub)"
  by (simp add: parseIfd_def parseTag_def rd_simps nef_subifd_def long_tag_def upt_conv_Cons
      nef_sub_def)

lemma nef_ifd0_tags:
  "tags nef_ifd0 0x014A = Some (long_tag 0x014A 44)"
  "nextIfdOffset nef_ifd0 = 0"
  "tags nef_ifd0 0x010F = Some \<lparr>tag = 0x010F, type = 2, count = 6, valueOffset = 38\<rparr>"
  "tags nef_ifd0 0x0112 = None"
  by (simp_all add: nef_ifd0_def)

lemma nef_sub_tags:
  "tags nef_sub 0x0201 = Some (long_tag 0x0201 74)"
  "tags nef_sub 0x0202 = Some (long_tag 0x0202 5)"
  by (simp_all add: nef_sub_def)

lemma nef_preview0:
  "extractPreviewFromIfd True nef_subifd 79 nef_ifd0 k = Inr (PreviewInfo_default\<lparr>ifdIndex := k\<rparr>)"
  by (simp add: extractPreviewFromIfd_def tagValue32_or_def tiff_consts nef_ifd0_def)

lemma nef_preview1:
  "extractPreviewFromIfd True nef_subifd 79 nef_sub k
     = Inr (PreviewInfo_default\<lparr>ifdIndex := k, offset := 74, size' := 5\<rparr>)"
  by (simp add: extractPreviewFromIfd_def tagValue32_or_def tiff_consts nef_sub_def
      getTagValue32_long)

lemma nef_findPreviews:
  "findPreviews (Suc fuel) nef_subifd 79 =
     Inr [PreviewInfo_default\<lparr>ifdIndex := - 1, offset := 74, size' := 5\<rparr>]"
  by (simp add: findPreviews_def nef_header findPreviews_loop.simps nef_parse_ifd0
      nef_parse_sub nef_preview0 nef_preview1 nef_ifd0_tags getTagValues32_long tiff_consts
      PreviewInfo_default_def)

lemma nef_jpeg: "isValidJpeg nef_subifd 74 5 = Inr True"
  by (simp add: isValidJpeg_def isValidJpeg_loop.simps rd_def nef_subifd_def)

lemma nef_make: "memcmp_eq nef_subifd 38 (ascii ''NIKON'') = Inr True"
  by (simp add: memcmp_eq_def bytes_at_def ascii_def nef_subifd_def)

lemma nef_canParse: "Nef_canParse nef_subifd 79 = Inr True"
  by (simp add: Nef_canParse_def nef_endian nef_header nef_parse_ifd0 nef_magic nef_first
      nef_ifd0_tags nef_make)

lemma nef_orientation: "extractOrientation nef_subifd 79 = Inr 1"
  by (simp add: extractOrientation_def nef_header nef_parse_ifd0 nef_ifd0_tags tiff_consts)

lemma nef_second_pass:
  "extractNikonSpecificPreviews (Suc fuel) nef_subifd 79 ps 1 =
     Inr (push_unique ps (Nef_nikonPreview 74 5 0 1))"
  by (simp add: extractNikonSpecificPreviews_def nef_header nef_endian nef_first
      Nef_nikon_loop.simps nef_parse_ifd0 nef_ifd0_tags getTagValues32_long nef_parse_sub
      nef_sub_tags tiff_consts getTagValue32_long nef_jpeg)

lemma nef_extract:
  "Nef_extractPreviews (Suc fuel) c nef_subifd 79 =
     Inr ([PreviewInfo_default\<lparr>offset := 74, size' := 5, priority := 5,
                               type' := ''NEF_SubIFD'' @ to_string c\<rparr>],
          c + 1)"
  by (simp add: Nef_extractPreviews_def nef_canParse nef_findPreviews nef_orientation nef_jpeg
      Nef_classify_def classifyPreview_def nef_second_pass push_unique_def is_duplicate_def
      Nef_nikonPreview_def PreviewInfo_default_def)

lemma arw_length: "length arw_offset_zero = 70"
  by (simp add: arw_offset_zero_def)

lemma arw_endian: "detectEndianness arw_offset_zero = Inr True"
  by (simp add: detectEndianness_def rd_def arw_offset_zero_def)

lemma arw_magic: "readUInt16 arw_offset_zero 2 True = Inr 0x2A"
  by (simp add: rd_simps arw_offset_zero_def)

lemma arw_first: "readUInt32 arw_offset_zero 4 True = Inr 8"
  by (simp add: rd_simps arw_offset_zero_def)

lemma arw_cr2_magic: "readUInt16 arw_offset_zero 8 True = Inr 2"
  by (simp add: rd_simps arw_offset_zero_def)

lemma arw_box:
  "readUInt32 arw_offset_zero 0 False = Inr 0xFFD82A00"
  "readUInt32 arw_offset_zero 4 False = Inr 0x08000000"
  by (simp_all add: rd_simps arw_offset_zero_def)

lemma arw_header:
  "parseHeader arw_offset_zero 70 = Inr (Some \<lparr>littleEndian = True, firstIfdOffset = 8\<rparr>)"
  by (simp add: parseHeader_def arw_endian arw_magic arw_first)

lemma arw_parse_ifd0: "parseIfd True arw_offset_zero 70 8 = Inr (Some arw_ifd0)"
  by (simp add: parseIfd_def parseTag_def rd_simps arw_offset_zero_def long_tag_def upt_conv_Cons
      arw_ifd0_def)

lemma arw_parse_sub: "parseIfd True arw_offset_zero 70 38 = Inr (Some arw_sub)"
  by (simp add: parseIfd_def parseTag_def rd_simps arw_offset_zero_def long_tag_def upt_conv_Cons
      arw_sub_def)

lemma arw_ifd0_tags:
  "tags arw_ifd0 0x7200 = Some \<lparr>tag = 0x7200, type = 1, count = 1, valueOffset = 0\<rparr>"
  "tags arw_ifd0 0x7201 = Some (long_tag 0x7201 38)"
  "tags arw_ifd0 0x010F = None"
  "tags arw_ifd0 0x0112 = None"
  "tags arw_ifd0 0x014A = None"
  "tags arw_ifd0 0xC612 = None"
  "tags arw_ifd0 0x0131 = None"
  "nextIfdOffset arw_ifd0 = 0"
  by (simp_all add: arw_ifd0_def)

lemma arw_sub_tags:
  "tags arw_sub 0x0111 = Some (long_tag 0x0111 0)"
  "tags arw_sub 0x0117 = Some (long_tag 0x0117 70)"
  by (simp_all add: arw_sub_def)

lemma arw_preview0:
  "extractPreviewFromIfd True arw_offset_zero 70 arw_ifd0 k
     = Inr (PreviewInfo_default\<lparr>ifdIndex := k\<rparr>)"
  by (simp add: extractPreviewFromIfd_def tagValue32_or_def tiff_consts arw_ifd0_def)

lemma arw_findPreviews: "findPreviews (Suc fuel) arw_offset_zero 70 = Inr []"
  by (simp add: findPreviews_def arw_header findPreviews_loop.simps arw_parse_ifd0
      arw_preview0 arw_ifd0_tags tiff_consts PreviewInfo_default_def)

lemma arw_jpeg: "isValidJpeg arw_offset_zero 0 70 = Inr True"
  by (simp add: isValidJpeg_def isValidJpeg_loop.simps rd_def arw_offset_zero_def)

lemma arw_canParse: "Arw_canParse a arw_offset_zero 70 = Inr True"
  by (simp add: Arw_canParse_def arw_endian arw_header arw_parse_ifd0 arw_magic arw_first
      arw_ifd0_tags tiff_consts)

lemma arw_orientation: "extractArwOrientation arw_offset_zero 70 = Inr 1"
  by (simp add: extractArwOrientation_def arw_header arw_endian arw_first
      Arw_orientation_loop.simps arw_parse_ifd0 arw_ifd0_tags)

lemma arw_sr2_tag:
  "getTagValue32 True \<lparr>tag = 0x7200, type = 1, count = 1, valueOffset = 0\<rparr> data sz = Inr 0"
  by (simp add: getTagValue32_def getTypeSize_def tiff_consts)

lemma arw_second_pass:
  "extractSr2PrivatePreviews (Suc fuel) arw_offset_zero 70 ps 1 =
     Inr (push_unique ps (Arw_sr2SubIfdPreview 0 70 1))"
  by (simp add: extractSr2PrivatePreviews_def arw_header arw_endian arw_first
      Arw_sr2_loop.simps arw_parse_ifd0 arw_ifd0_tags getTagValues32_long arw_parse_sub
      arw_sub_tags tiff_consts arw_sr2_tag arw_jpeg)

lemma arw_extract:
  "Arw_extractPreviews (Suc fuel) c a arw_offset_zero 70 =
     Inr ([PreviewInfo_default\<lparr>offset := 0, size' := 70, isJpeg := True, ifdIndex := - 10,
             type' := ''ARW_SR2SubIFD'', priority := 7\<rparr>], c)"
  by (simp add: Arw_extractPreviews_def arw_canParse arw_findPreviews arw_orientation
      arw_second_pass push_unique_def is_duplicate_def Arw_sr2SubIfdPreview_def
      classifyPreview_def PreviewInfo_default_def)

lemma arw_detect: "detectFormat env arw_offset_zero 70 = Inr ARW"
  by (simp add: detectFormat_def Cr2_canParse_def arw_endian arw_magic arw_cr2_magic
      Cr3_canParse_def arw_box BOX_TYPE_FTYP_def Nef_canParse_def arw_header arw_first
      arw_parse_ifd0 arw_ifd0_tags arw_canParse)

lemma arw_bytes: "bytes_at arw_offset_zero 0 70 = Inr arw_offset_zero"
  by (simp add: bytes_at_def arw_length)

lemma arw_full:
  "ExtractFullPreview 1 env Counters_initial arw_offset_zero =
     Inr (ExtractionResult_default
            \<lparr>success := True, format := ARW,
             preview := PreviewInfo_default
               \<lparr>offset := 0, size' := 70, isJpeg := True, ifdIndex := - 10,
                type' := ''ARW_SR2SubIFD'', priority := 7\<rparr>,
             jpegData := arw_offset_zero\<rparr>, Counters_initial)"
  by (simp add: ExtractFullPreview_def extractIndexedPreview_def arw_length arw_detect
      getAllPreviews_def arw_extract [of 0, simplified] selectFullPreview_def formatMappings_def
      PreviewInfo_default_def arw_bytes word_sless_alt)

lemma raf_length: "length raf_fixture = 1536"
  by (simp add: raf_fixture_def ascii_def)

lemma raf_magic: "take 15 raf_fixture = ascii ''FUJIFILMCCD-RAW''"
  by (simp add: raf_fixture_def ascii_def)

lemma raf_offset: "readUInt32 raf_fixture 84 False = Inr 1024"
  by (simp add: rd_simps raf_fixture_def ascii_def nth_append)

lemma raf_len: "readUInt32 raf_fixture 88 False = Inr 512"
  by (simp add: rd_simps raf_fixture_def ascii_def nth_append)

lemma raf_jpeg: "isValidJpeg raf_fixture 1024 512 = Inr True"
  by (simp add: isValidJpeg_def isValidJpeg_loop.simps rd_def raf_fixture_def ascii_def
      nth_append)

lemma raf_short_length: "length raf_short = 96"
  by (simp add: raf_short_def ascii_def)

lemma raf_short_magic: "memcmp_eq raf_short 0 RAF_MAGIC = Inr True"
  by (simp add: memcmp_eq_def bytes_at_def RAF_MAGIC_def raf_short_def ascii_def)

lemma raf_short_offset: "readUInt32 raf_short 84 False = Inr 16"
  by (simp add: rd_simps raf_short_def ascii_def nth_append)

lemma raf_short_len: "readUInt32 raf_short 88 False = Inr 5"
  by (simp add: rd_simps raf_short_def ascii_def nth_append)

lemma raf_short_jpeg: "isValidJpeg raf_short 16 5 = Inr True"
  by (simp add: isValidJpeg_def isValidJpeg_loop.simps rd_def raf_short_def ascii_def
      nth_append)

lemma raf_short_extract: "Raf_extractPreviews raf_short 96 = Inr []"
  by (simp add: Raf_extractPreviews_def Raf_canParse_def raf_short_magic)

lemma raf_wrapping_length: "length raf_wrapping = 100"
  by (simp add: raf_wrapping_def ascii_def)

lemma raf_wrapping_magic: "memcmp_eq raf_wrapping 0 RAF_MAGIC = Inr True"
  by (simp add: memcmp_eq_def bytes_at_def RAF_MAGIC_def raf_wrapping_def ascii_def)

lemma raf_wrapping_offset: "readUInt32 raf_wrapping 84 False = Inr 0xFFFFFFFC"
  by (simp add: rd_simps raf_wrapping_def ascii_def nth_append)

lemma raf_wrapping_len: "readUInt32 raf_wrapping 88 False = Inr 5"
  by (simp add: rd_simps raf_wrapping_def ascii_def nth_append)

lemma raf_wrapping_jpeg: "isValidJpeg raf_wrapping 4294967292 5 = Inl OutOfBounds"
  by (simp add: isValidJpeg_def rd_def raf_wrapping_length)

lemma raf_wrapping_extract: "Raf_extractPreviews raf_wrapping 100 = Inl OutOfBounds"
  by (simp add: Raf_extractPreviews_def Raf_canParse_def raf_wrapping_magic raf_wrapping_offset
      raf_wrapping_len raf_wrapping_jpeg)

lemma raf_wrapping_validate:
  "validatePreview env_idle raf_wrapping 100
     (PreviewInfo_default\<lparr>offset := 0xFFFFFFFC, size' := 5\<rparr>) ExtractionOptions_default
   = Inl OutOfBounds"
  by (simp add: validatePreview_def PreviewInfo_default_def env_idle_def
      ExtractionOptions_default_def raf_wrapping_jpeg)

lemma RAF_MAGIC_length: "length RAF_MAGIC = 15"
  by (simp add: RAF_MAGIC_def ascii_def)

lemma raf_tiff: "tiff_magic raf_fixture = Inr False"
  by (simp add: tiff_magic_def rd_def raf_fixture_def ascii_def)

lemma raf_box:
  "readUInt32 raf_fixture 4 False = Inr 0x46494C4D"
  "readUInt32 raf_fixture 0 False = Inr 0x46554A49"
  "readUInt16 raf_fixture 2 True = Inr 0x494A"
  "detectEndianness raf_fixture = Inr True"
  by (simp_all add: rd_simps raf_fixture_def ascii_def detectEndianness_def)

lemma raf_rejected:
  "extractPreviewFromBuffer fuel env cs (Some raf_fixture) (length raf_fixture) options =
     Inr (setError ExtractionResult_default INVALID_FORMAT ''Invalid file format'' [], cs)"
  by (simp add: extractPreviewFromBuffer_def raf_length validateFile_def raf_tiff raf_box)

lemma raf_canParse: "Raf_canParse raf_fixture 1536 = Inr True"
  using raf_magic
  by (simp add: Raf_canParse_def memcmp_eq_def bytes_at_def RAF_MAGIC_length raf_length)
    (simp add: RAF_MAGIC_def)

lemma raf_detect: "detectFormat env raf_fixture 1536 = Inr RAF"
  by (simp add: detectFormat_def Cr2_canParse_def raf_box Cr3_canParse_def BOX_TYPE_FTYP_def
      Nef_canParse_def Arw_canParse_def Dng_canParse_def raf_canParse)

lemma truncated_tiff_no_previews:
  "extractPreviewFromBuffer 1 env_idle Counters_initial (Some truncated_tiff)
     (length truncated_tiff) ExtractionOptions_default
   = Inr (setError (ExtractionResult_default\<lparr>format := DNG\<rparr>) NO_PREVIEWS_FOUND
            ''No previews found in RAW file'' [],
          Counters_initial)"
  by (simp add: extractPreviewFromBuffer_def env_idle_def validateFile_def tiff_magic_def
      detectFormatFast_def getAllPreviews_def Dng_extractPreviews_def Dng_canParse_def
      detectEndianness_def parseHeader_def parseIfd_def rd_simps truncated_tiff_def)

lemma findJpegStart_empty: "findJpegStart [] 0 0 = Inl OutOfBounds"
  by (simp add: findJpegStart_def size_sub_def findJpegStart_loop.simps rd_def)

lemma findJpegEnd_empty: "findJpegEnd [] 0 0 0 = Inl OutOfBounds"
  by (simp add: findJpegEnd_def size_sub_def findJpegEnd_loop.simps rd_def)

lemma cr3_length: "length cr3_empty_mdat = 30"
  by (simp add: cr3_empty_mdat_def)

lemma cr3_canParse: "Cr3_canParse cr3_empty_mdat 30 = Inr True"
  by (simp add: Cr3_canParse_def rd_simps cr3_empty_mdat_def BOX_TYPE_FTYP_def)

lemma cr3_orientation: "Cr3_extractOrientation cr3_empty_mdat 30 = Inr 1"
  by (simp add: Cr3_extractOrientation_def size_sub_def Cr3_orientation_loop.simps rd_simps
      cr3_empty_mdat_def)

lemma cr3_thumbnail: "extractThumbnailPreview cr3_empty_mdat 30 = Inr PreviewInfo_default"
  by (simp add: extractThumbnailPreview_def size_sub_def Cr3_thmb_loop.simps rd_simps
      cr3_empty_mdat_def)

lemma cr3_box0: "parseBox cr3_empty_mdat 30 0 = Inr \<lparr>bsize = 20, btype = BOX_TYPE_FTYP\<rparr>"
  by (simp add: parseBox_def rd_simps cr3_empty_mdat_def BOX_TYPE_FTYP_def)

lemma cr3_box20: "parseBox cr3_empty_mdat 30 20 = Inr \<lparr>bsize = 8, btype = BOX_TYPE_MDAT\<rparr>"
  by (simp add: parseBox_def rd_simps cr3_empty_mdat_def BOX_TYPE_MDAT_def)

lemma cr3_medium: "extractMediumPreview cr3_empty_mdat 30 = Inr PreviewInfo_default"
  by (simp add: extractMediumPreview_def size_sub_def Cr3_medium_loop.simps cr3_box0 cr3_box20
      BOX_TYPE_FTYP_def BOX_TYPE_MDAT_def BOX_TYPE_UUID_def)

lemma cr3_search: "findJpegStart cr3_empty_mdat 28 0 = Inl OutOfBounds"
  by (simp add: findJpegStart_def size_sub_def findJpegStart_loop.simps rd_def cr3_empty_mdat_def)

lemma cr3_full: "extractFullResolutionPreview cr3_empty_mdat 30 = Inl OutOfBounds"
  by (simp add: extractFullResolutionPreview_def size_sub_def Cr3_full_loop.simps cr3_box0
      cr3_box20 BOX_TYPE_FTYP_def BOX_TYPE_MDAT_def Cr3_mdat_found_def cr3_search)

lemma cr3_extract: "Cr3_extractPreviews cr3_empty_mdat 30 = Inl OutOfBounds"
  by (simp add: Cr3_extractPreviews_def cr3_canParse cr3_orientation cr3_thumbnail cr3_medium
      cr3_full)

lemma cr3_validate: "validateFile (Some cr3_empty_mdat) 30 = Inr SUCCESS"
  by (simp add: validateFile_def tiff_magic_def rd_simps cr3_empty_mdat_def)

lemma cr3_fast: "detectFormatFast cr3_empty_mdat 30 = Inr CR3"
  by (simp add: detectFormatFast_def tiff_magic_def rd_simps cr3_empty_mdat_def)

lemma cr3_buffer:
  "extractPreviewFromBuffer fuel env_idle cs (Some cr3_empty_mdat) 30 options = Inl OutOfBounds"
  by (simp add: extractPreviewFromBuffer_def cr3_validate cr3_fast env_idle_def
      getAllPreviews_def cr3_extract)

lemma dng_length: "length dng_far_subifd = 38"
  by (simp add: dng_far_subifd_def)

lemma dng_endian: "detectEndianness dng_far_subifd = Inr True"
  by (simp add: detectEndianness_def rd_def dng_far_subifd_def)

lemma dng_magic: "readUInt16 dng_far_subifd 2 True = Inr 0x2A"
  by (simp add: rd_simps dng_far_subifd_def)

lemma dng_first: "readUInt32 dng_far_subifd 4 True = Inr 8"
  by (simp add: rd_simps dng_far_subifd_def)

lemma dng_header:
  "parseHeader dng_far_subifd 38 = Inr (Some \<lparr>littleEndian = True, firstIfdOffset = 8\<rparr>)"
  by (simp add: parseHeader_def dng_endian dng_magic dng_first)

lemma dng_parse_ifd0: "parseIfd True dng_far_subifd 38 8 = Inr (Some dng_ifd0)"
  by (simp add: parseIfd_def parseTag_def rd_simps dng_far_subifd_def long_tag_def upt_conv_Cons
      dng_ifd0_def)

lemma dng_ifd0_tags:
  "tags dng_ifd0 0x014A = Some (long_tag 0x014A 0xFFFFFFFE)"
  "tags dng_ifd0 0xC612 = Some \<lparr>tag = 0xC612, type = 1, count = 4, valueOffset = 0x0401\<rparr>"
  "nextIfdOffset dng_ifd0 = 0"
  by (simp_all add: dng_ifd0_def)

lemma dng_preview0:
  "extractPreviewFromIfd True dng_far_subifd 38 dng_ifd0 k
     = Inr (PreviewInfo_default\<lparr>ifdIndex := k\<rparr>)"
  by (simp add: extractPreviewFromIfd_def tagValue32_or_def tiff_consts dng_ifd0_def)

lemma dng_parse_far: "parseIfd True dng_far_subifd 38 0xFFFFFFFE = Inl OutOfBounds"
  by (simp add: parseIfd_def readUInt16_def rd_def dng_length)

lemma dng_findPreviews: "findPreviews (Suc fuel) dng_far_subifd 38 = Inl OutOfBounds"
  by (simp add: findPreviews_def dng_header findPreviews_loop.simps dng_parse_ifd0
      dng_preview0 dng_ifd0_tags getTagValues32_long dng_parse_far tiff_consts
      PreviewInfo_default_def)

lemma dng_canParse: "Dng_canParse dng_far_subifd 38 = Inr True"
  by (simp add: Dng_canParse_def dng_endian dng_magic dng_header dng_first dng_parse_ifd0
      dng_ifd0_tags)

lemma dng_validate: "validateFile (Some dng_far_subifd) 38 = Inr SUCCESS"
  by (simp add: validateFile_def tiff_magic_def rd_simps dng_far_subifd_def)

lemma dng_fast: "detectFormatFast dng_far_subifd 38 = Inr DNG"
  by (simp add: detectFormatFast_def tiff_magic_def rd_simps dng_far_subifd_def)

lemma dng_buffer:
  "extractPreviewFromBuffer (Suc fuel) env_idle cs (Some dng_far_subifd) 38 options
     = Inl OutOfBounds"
  by (simp add: extractPreviewFromBuffer_def dng_validate dng_fast env_idle_def
      getAllPreviews_def Dng_extractPreviews_def dng_canParse dng_findPreviews)

subsection \<open>The second passes append only fresh candidates\<close>

lemma is_duplicate_iff: "is_duplicate ps p \<longleftrightarrow> key p \<in> key ` set ps"
proof -
  have "is_duplicate ps p \<longleftrightarrow> (\<exists>e\<in>set ps. key e = key p)"
    by (simp add: is_duplicate_def list_ex_iff key_def)
  also have "\<dots> \<longleftrightarrow> key p \<in> key ` set ps"
    by (metis imageE imageI)
  finally show ?thesis .
qed

lemma appended_fresh_iff:
  "appended_fresh ps out \<longleftrightarrow>
     (\<exists>added. out = ps @ added \<and> distinct (map key added)
        \<and> key ` set added \<inter> key ` set ps = {})"
proof
  assume a: "appended_fresh ps out"
  then have "out = ps @ drop (length ps) out"
    by (metis appended_fresh_def append_take_drop_id)
  moreover from a have "distinct (map key (drop (length ps) out))"
    by (simp add: appended_fresh_def)
  moreover from a have "key ` set (drop (length ps) out) \<inter> key ` set ps = {}"
    unfolding appended_fresh_def list_all_iff is_duplicate_iff by blast
  ultimately show "\<exists>added. out = ps @ added \<and> distinct (map key added)
      \<and> key ` set added \<inter> key ` set ps = {}"
    by blast
next
  assume "\<exists>added. out = ps @ added \<and> distinct (map key added)
      \<and> key ` set added \<inter> key ` set ps = {}"
  then obtain added where "out = ps @ added" "distinct (map key added)"
    "key ` set added \<inter> key ` set ps = {}"
    by blast
  then show "appended_fresh ps out"
    unfolding appended_fresh_def list_all_iff is_duplicate_iff by auto
qed

lemma appended_fresh_refl: "appended_fresh ps ps"
  by (simp add: appended_fresh_def)

lemma appended_fresh_trans:
  assumes "appended_fresh a b" and "appended_fresh b c"
  shows "appended_fresh a c"
proof -
  from assms(1) obtain x where
    x: "b = a @ x" "distinct (map key x)" "key ` set x \<inter> key ` set a = {}"
    unfolding appended_fresh_iff by blast
  from assms(2) obtain y where
    y: "c = b @ y" "distinct (map key y)" "key ` set y \<inter> key ` set b = {}"
    unfolding appended_fresh_iff by blast
  have "c = a @ (x @ y)" using x(1) y(1) by simp
  moreover have "distinct (map key (x @ y))" using x(2) y(2) y(3) x(1) by auto
  moreover have "key ` set (x @ y) \<inter> key ` set a = {}" using x(3) y(3) x(1) by auto
  ultimately show ?thesis unfolding appended_fresh_iff by blast
qed

lemma appended_fresh_push: "appended_fresh ps (push_unique ps p)"
  unfolding appended_fresh_iff push_unique_def is_duplicate_iff by auto

lemma returns_fresh_mono:
  "appended_fresh ps ps' \<Longrightarrow> returns m (appended_fresh ps') \<Longrightarrow> returns m (appended_fresh ps)"
  by (cases m) (auto simp: returns_def intro: appended_fresh_trans)

lemma returns_fresh_push:
  "returns m (appended_fresh (push_unique ps p)) \<Longrightarrow> returns m (appended_fresh ps)"
  by (rule returns_fresh_mono [OF appended_fresh_push])

lemma returns_fresh_andThen:
  assumes "returns m (appended_fresh ps)"
    and "\<And>ps'. returns (f ps') (appended_fresh ps')"
  shows "returns (andThen m f) (appended_fresh ps)"
proof (cases m)
  case (Inl e)
  then show ?thesis by (simp add: returns_Inl)
next
  case (Inr ps')
  with assms(1) have "appended_fresh ps ps'" by (simp add: returns_def)
  then show ?thesis using Inr assms(2) [of ps'] by (simp add: returns_fresh_mono)
qed

lemma Nef_nikon_subIfds_fresh:
  "returns (Nef_nikon_subIfds le data sz orient i sos ps) (appended_fresh ps)"
proof (induction sos arbitrary: i ps)
  case Nil
  show ?case by (simp add: returns_Inr appended_fresh_refl)
next
  case (Cons so sos)
  have IH_push: "returns (Nef_nikon_subIfds le data sz orient j sos (push_unique ps p))
                   (appended_fresh ps)" for j p
    by (rule returns_fresh_push) (rule Cons.IH)
  show ?case
    unfolding Nef_nikon_subIfds.simps prod.case
    by (intro returns_intros Cons.IH IH_push)
qed

lemma Nef_nikon_loop_fresh:
  "returns (Nef_nikon_loop fuel le data sz orient cur ps) (appended_fresh ps)"
proof (induction fuel arbitrary: cur ps)
  case 0
  show ?case
    by (subst Nef_nikon_loop.simps) (simp add: returns_Inl returns_Inr appended_fresh_refl)
next
  case (Suc fuel)
  have tail: "returns (andThen m (Nef_nikon_loop fuel le data sz orient nxt)) (appended_fresh ps)"
    if "returns m (appended_fresh ps)" for m nxt
    using that by (rule returns_fresh_andThen) (rule Suc.IH)
  show ?case
    apply (subst Nef_nikon_loop.simps)
    apply (simp only: nat.case)
    apply (intro tail returns_if returns_case_option returns_Inl returns_andThen
        Nef_nikon_subIfds_fresh returns_Inr appended_fresh_refl)
    done
qed

lemma extractNikonSpecificPreviews_fresh:
  "returns (extractNikonSpecificPreviews fuel data sz ps orient) (appended_fresh ps)"
  unfolding extractNikonSpecificPreviews_def
  by (intro returns_intros Nef_nikon_loop_fresh returns_Inr appended_fresh_refl)

lemma parseSr2Private_loop_fresh:
  "returns (parseSr2Private_loop data sz off len orient i ps) (appended_fresh ps)"
proof (induction "unat (len - 1) - unat i" arbitrary: i ps rule: less_induct)
  case less
  show ?case
  proof (cases "i < len - 1")
    case False
    then show ?thesis
      by (subst parseSr2Private_loop.simps) (simp add: returns_Inr appended_fresh_refl)
  next
    case True
    have IH: "returns (parseSr2Private_loop data sz off len orient (i + 1) ps')
                (appended_fresh ps')" for ps'
      by (rule less.hyps) (rule unat_diff_succ_less [OF True])
    have IH_push: "returns (parseSr2Private_loop data sz off len orient (i + 1)
                     (push_unique ps p)) (appended_fresh ps)" for p
      by (rule returns_fresh_push) (rule IH)
    show ?thesis
      apply (subst parseSr2Private_loop.simps)
      apply (intro returns_intros IH IH_push returns_Inr appended_fresh_refl)
      done
  qed
qed

lemma parseSr2Private_fresh:
  "returns (parseSr2Private data sz off len ps orient) (appended_fresh ps)"
  unfolding parseSr2Private_def
  by (intro returns_intros parseSr2Private_loop_fresh returns_Inr appended_fresh_refl)

lemma Arw_sr2SubIfds_fresh:
  "returns (Arw_sr2SubIfds le data sz orient sos ps) (appended_fresh ps)"
proof (induction sos arbitrary: ps)
  case Nil
  show ?case by (simp add: returns_Inr appended_fresh_refl)
next
  case (Cons so sos)
  have IH_push: "returns (Arw_sr2SubIfds le data sz orient sos (push_unique ps p))
                   (appended_fresh ps)" for p
    by (rule returns_fresh_push) (rule Cons.IH)
  show ?case
    unfolding Arw_sr2SubIfds.simps prod.case
    by (intro returns_intros Cons.IH IH_push)
qed

lemma Arw_sr2_loop_fresh:
  "returns (Arw_sr2_loop fuel le data sz orient cur ps) (appended_fresh ps)"
proof (induction fuel arbitrary: cur ps)
  case 0
  show ?case
    by (subst Arw_sr2_loop.simps) (simp add: returns_Inl returns_Inr appended_fresh_refl)
next
  case (Suc fuel)
  have tail: "returns
      (andThen (case tags ifd SONY_TAG_SR2_SUB_IFD of
                  None \<Rightarrow> Inr ps1
                | Some t \<Rightarrow>
                    andThen (getTagValues32 le t data sz) (\<lambda>subIfdOffsets.
                      Arw_sr2SubIfds le data sz orient subIfdOffsets ps1))
         (\<lambda>previews2. Arw_sr2_loop fuel le data sz orient (nextIfdOffset ifd) previews2))
      (appended_fresh ps1)" for ifd :: TiffIfd and ps1
    by (rule returns_fresh_andThen)
       (intro returns_intros Arw_sr2SubIfds_fresh returns_Inr appended_fresh_refl Suc.IH)+
  show ?case
    apply (subst Arw_sr2_loop.simps)
    apply (simp only: nat.case)
    apply (rule returns_if)
     apply (rule returns_andThen)
     apply (rule returns_case_option)
      apply (rule returns_Inr, rule appended_fresh_refl)
     apply (rule returns_fresh_andThen)
      apply (intro returns_intros parseSr2Private_fresh returns_Inr appended_fresh_refl)
     apply (rule tail)
    apply (rule returns_Inr, rule appended_fresh_refl)
    done
qed

lemma extractSr2PrivatePreviews_fresh:
  "returns (extractSr2PrivatePreviews fuel data sz ps orient) (appended_fresh ps)"
  unfolding extractSr2PrivatePreviews_def
  by (intro returns_intros Arw_sr2_loop_fresh returns_Inr appended_fresh_refl)

text \<open>
  The list that a second pass returns is the list that it received, followed by
  candidates whose (offset, size) pairs differ from each other and from the pair of
  every candidate received. On the NEF fixture the pass drops the candidate that the
  list already holds; on the ARW fixture it appends one to the empty list.
\<close>

lemma second_pass_appends_fresh:
  "(extractNikonSpecificPreviews fuel data sz previews orient = Inr out
      \<longrightarrow> appended_fresh previews out)
   \<and> (extractSr2PrivatePreviews fuel data sz previews orient = Inr out'
      \<longrightarrow> appended_fresh previews out')"
  using extractNikonSpecificPreviews_fresh [of fuel data sz previews orient]
    extractSr2PrivatePreviews_fresh [of fuel data sz previews orient]
  by (auto simp: returns_def)

lemma second_pass_appends_fresh_example:
  "extractNikonSpecificPreviews 1 nef_subifd 79 [sized 74 5] 1 = Inr [sized 74 5]
   \<and> appended_fresh [sized 74 5] [sized 74 5]
   \<and> extractSr2PrivatePreviews 1 arw_offset_zero 70 [] 1 = Inr [Arw_sr2SubIfdPreview 0 70 1]
   \<and> appended_fresh [] [Arw_sr2SubIfdPreview 0 70 1]"
  using second_pass_appends_fresh
    [of 1 nef_subifd 79 "[sized 74 5]" 1 "[sized 74 5]" "[]"]
    second_pass_appends_fresh
    [of 1 arw_offset_zero 70 "[]" 1 "[]" "[Arw_sr2SubIfdPreview 0 70 1]"]
  by (simp add: nef_second_pass [of 0, simplified] arw_second_pass [of 0, simplified]
      push_unique_def is_duplicate_def sized_def Nef_nikonPreview_def
      PreviewInfo_default_def)

subsection \<open>The error codes of \<open>extractPreviewFromBuffer\<close>\<close>

lemma validateFile_short: "sz < 16 \<Longrightarrow> validateFile (Some data) sz = Inr CORRUPTED_FILE"
  by (simp add: validateFile_def)

lemma validateFile_not_corrupted:
  "\<not> sz < 16 \<Longrightarrow> validateFile (Some data) sz \<noteq> Inr CORRUPTED_FILE"
  by (auto simp: validateFile_def andThen_eq_Inr split: if_splits)

lemma not_corrupted_setError:
  "c \<noteq> CORRUPTED_FILE \<Longrightarrow> returns (Inr (setError r c msg ctx, cs)) not_corrupted"
  by (simp add: returns_def not_corrupted_def setError_def)

lemma not_corrupted_success:
  "code (errorInfo r) \<noteq> CORRUPTED_FILE
     \<Longrightarrow> returns (Inr (r\<lparr>success := True\<rparr>, cs)) not_corrupted"
  by (simp add: returns_def not_corrupted_def)

lemma extractPreviewFromBuffer_not_corrupted:
  "returns (extractPreviewFromBuffer fuel env cs buf sz options) not_corrupted"
proof (cases buf)
  case None
  then show ?thesis by (simp add: extractPreviewFromBuffer_def not_corrupted_setError)
next
  case (Some data)
  show ?thesis
  proof (cases "sz < 16")
    case True
    then show ?thesis
      using Some by (simp add: extractPreviewFromBuffer_def not_corrupted_setError)
  next
    case False
    have v: "x \<noteq> CORRUPTED_FILE" if "validateFile (Some data) sz = Inr x" for x
      using validateFile_not_corrupted [OF False, of data] that by simp
    show ?thesis
      unfolding extractPreviewFromBuffer_def Some option.case
      apply (rule returns_Let)
      apply (simp only: False if_False)
      apply (rule returns_if)
       apply (rule not_corrupted_setError, simp)
      apply (rule returns_andThen_strong)
      apply (rule returns_if)
       apply (rule not_corrupted_setError, erule v)
      apply (intro returns_if returns_andThen returns_case_prod returns_Let
          not_corrupted_setError not_corrupted_success)
                 apply (simp_all add: ExtractionResult_default_def)
      done
  qed
qed

text \<open>
  No result of \<open>extractPreviewFromBuffer\<close> carries the code \<open>CORRUPTED_FILE\<close>: a buffer
  shorter than 16 bytes is refused as \<open>INVALID_FORMAT\<close> before \<open>validateFile\<close> runs,
  \<open>validateFile\<close> gives \<open>CORRUPTED_FILE\<close> for no longer buffer, and no later step sets
  this code. The TIFF whose IFD0 declares more entries than the buffer holds is
  answered with \<open>NO_PREVIEWS_FOUND\<close>.
\<close>

lemma extractPreviewFromBuffer_never_corrupted_file:
  "extractPreviewFromBuffer fuel env cs buf sz options = Inr (r, cs')
     \<Longrightarrow> code (errorInfo r) \<noteq> CORRUPTED_FILE"
  using extractPreviewFromBuffer_not_corrupted [of fuel env cs buf sz options]
  by (simp add: returns_def not_corrupted_def)

lemma extractPreviewFromBuffer_never_corrupted_file_example:
  "extractPreviewFromBuffer 1 env_idle Counters_initial (Some truncated_tiff)
     (length truncated_tiff) ExtractionOptions_default
   = Inr (setError (ExtractionResult_default\<lparr>format := DNG\<rparr>) NO_PREVIEWS_FOUND
            ''No previews found in RAW file'' [],
          Counters_initial)
   \<and> code (errorInfo (setError (ExtractionResult_default\<lparr>format := DNG\<rparr>) NO_PREVIEWS_FOUND
            ''No previews found in RAW file'' [])) \<noteq> CORRUPTED_FILE"
  using extractPreviewFromBuffer_never_corrupted_file
    [of 1 env_idle Counters_initial "Some truncated_tiff" "length truncated_tiff"
      ExtractionOptions_default
      "setError (ExtractionResult_default\<lparr>format := DNG\<rparr>) NO_PREVIEWS_FOUND
         ''No previews found in RAW file'' []"
      Counters_initial]
    truncated_tiff_no_previews
  by simp

subsection \<open>The candidate of a RAF\<close>

lemma unat_add_le_sum: "unat (a + b) \<le> unat a + unat b" for a b :: u32
  by (simp add: unat_word_ariths)

lemma Raf_extractPreviews_emits:
  assumes len: "100 \<le> length data"
    and magic: "take 15 data = ascii ''FUJIFILMCCD-RAW''"
    and off: "readUInt32 data 84 False = Inr jpegOffset"
    and ln: "readUInt32 data 88 False = Inr jpegLength"
    and inb: "unat jpegOffset + unat jpegLength \<le> length data"
    and valid: "isValidJpeg data (unat jpegOffset) (unat jpegLength) = Inr True"
  shows "Raf_extractPreviews data (length data) =
     Inr [\<lparr>offset = jpegOffset, size' = jpegLength, width = 0, height = 0, isJpeg = True,
           subfileType = 0, ifdIndex = - 1,
           quality = classifyPreview 0 0 (unat jpegLength),
           priority = (if jpegLength \<ge> 200 * 1024 \<and> jpegLength \<le> 3 * 1024 * 1024
                       then 10 else 7),
           orientation = 1, type' = []\<rparr>]"
proof -
  have can: "Raf_canParse data (length data) = Inr True"
    using len magic
    by (simp add: Raf_canParse_def memcmp_eq_def bytes_at_def RAF_MAGIC_length)
      (simp add: RAF_MAGIC_def)
  have "data ! 0 = (take 15 data) ! 0" by simp
  also have "\<dots> = 0x46" by (simp only: magic) (simp add: ascii_def)
  finally have d0: "data ! 0 = 0x46" .
  have l4: "\<not> unat jpegLength < 4"
    using valid by (auto simp: isValidJpeg_def split: if_splits)
  then have lpos: "jpegLength > 0"
    by (metis not_less_zero unat_gt_0 word_gt_0 zero_less_numeral linorder_neqE_nat)
  have opos: "jpegOffset > 0"
  proof (rule ccontr)
    assume "\<not> jpegOffset > 0"
    then have z: "jpegOffset = 0" by (simp add: word_gt_0)
    have "0 < length data" using len by linarith
    then have "rd data 0 = Inr 0x46" using d0 by (simp add: rd_def)
    with valid z l4 show False by (simp add: isValidJpeg_def)
  qed
  have wrap: "unat (jpegOffset + jpegLength) \<le> length data"
    using inb unat_add_le_sum [of jpegOffset jpegLength] by linarith
  show ?thesis
    using len
    by (simp add: Raf_extractPreviews_def can off ln opos lpos wrap valid
        PreviewInfo_default_def)
qed

lemma Raf_extractPreviews_below_100:
  "length data < 100 \<Longrightarrow> Raf_extractPreviews data (length data) = Inr []"
  by (simp add: Raf_extractPreviews_def Raf_canParse_def memcmp_eq_def bytes_at_def
      RAF_MAGIC_length)

lemma raf_extract:
  "Raf_extractPreviews raf_fixture 1536 =
     Inr [PreviewInfo_default\<lparr>offset := 1024, size' := 512, isJpeg := True, priority := 7\<rparr>]"
  using Raf_extractPreviews_emits [of raf_fixture 1024 512]
  by (simp add: raf_length raf_magic raf_offset raf_len raf_jpeg classifyPreview_def
      PreviewInfo_default_def)

lemma raf_bytes: "bytes_at raf_fixture 1024 512 = Inr (take 512 (drop 1024 raf_fixture))"
  by (simp add: bytes_at_def raf_length)

lemma raf_medium:
  "ExtractMediumPreview 1 env Counters_initial raf_fixture =
     Inr (ExtractionResult_default
            \<lparr>success := True, format := RAF,
             preview := PreviewInfo_default
               \<lparr>offset := 1024, size' := 512, isJpeg := True, priority := 7\<rparr>,
             jpegData := take 512 (drop 1024 raf_fixture)\<rparr>, Counters_initial)"
  by (simp add: ExtractMediumPreview_def extractIndexedPreview_def raf_length raf_detect
      getAllPreviews_def raf_extract selectMediumPreview_def formatMappings_def
      PreviewInfo_default_def raf_bytes word_sless_alt)

lemma raf_full:
  "ExtractFullPreview 1 env Counters_initial raf_fixture =
     Inr (ExtractionResult_default
            \<lparr>success := True, format := RAF,
             preview := PreviewInfo_default
               \<lparr>offset := 1024, size' := 512, isJpeg := True, priority := 7\<rparr>,
             jpegData := take 512 (drop 1024 raf_fixture)\<rparr>, Counters_initial)"
  by (simp add: ExtractFullPreview_def extractIndexedPreview_def raf_length raf_detect
      getAllPreviews_def raf_extract selectFullPreview_def formatMappings_def
      PreviewInfo_default_def raf_bytes word_sless_alt at_index_def)

subsection \<open>Selection for the Nikon Z 9\<close>

lemma getNefMapping_Z9:
  "getNefMapping ''NIKON Z 9'' =
     \<lparr>fullPreviewIndex = - 1, mediumPreviewIndex = - 2, useSmartSelection = True\<rparr>"
  by (simp add: getNefMapping_def nikonModelMappings_def nikonModelMappings_init_def)

lemma Z9_selection:
  "selectFullPreview NEF ''NIKON Z 9''
       [sized 4096 5120, sized 8192 2097152, sized 3145728 8388608]
     = sized 3145728 8388608
   \<and> selectMediumPreview NEF ''NIKON Z 9''
       [sized 4096 5120, sized 8192 2097152, sized 3145728 8388608]
     = sized 8192 2097152"
  by (simp add: selectFullPreview_def selectMediumPreview_def getNefMapping_Z9
      getLargestPreview_def getSecondLargestPreview_def sort_by_def sized_def
      PreviewInfo_default_def)

subsection \<open>The claims\<close>

text \<open>
  C1. Every read is specified to be checked against the buffer length first, the
  searches of \<open>find_jpeg_start\<close> and \<open>find_jpeg_end\<close> on a slice of size 0 and the
  32-bit sum of \<open>validate_preview\<close> included. In the source, \<open>size - 1\<close> and
  \<open>offset + size\<close> wrap: the two searches read past an empty slice, an \<open>mdat\<close> box
  without payload makes the CR3 parser search an empty slice, and an offset of
  \<open>0xFFFFFFFC\<close> with a length of 5 passes the bounds check of the RAF parser and of
  \<open>validatePreview\<close>, which then read beyond a buffer of 100 bytes.
\<close>

theorem reads_outside_the_buffer:
  "findJpegStart [] 0 0 = Inl OutOfBounds
   \<and> findJpegEnd [] 0 0 0 = Inl OutOfBounds
   \<and> Cr3_extractPreviews cr3_empty_mdat (length cr3_empty_mdat) = Inl OutOfBounds
   \<and> Raf_extractPreviews raf_wrapping (length raf_wrapping) = Inl OutOfBounds
   \<and> validatePreview env_idle raf_wrapping (length raf_wrapping)
         (PreviewInfo_default\<lparr>offset := 0xFFFFFFFC, size' := 5\<rparr>) ExtractionOptions_default
       = Inl OutOfBounds"
  by (simp add: findJpegStart_empty findJpegEnd_empty cr3_length cr3_extract
      raf_wrapping_length raf_wrapping_extract raf_wrapping_validate)

text \<open>
  C2. \<open>find_previews\<close> is specified to return on every TIFF, cyclic or not, within a
  depth cap. On the TIFF whose only IFD names itself as the next IFD the walk of the
  source never ends: whatever the number of IFD visits allowed, it is used up before
  the walk returns.
\<close>

theorem findPreviews_cyclic_never_returns:
  "\<forall>fuel. findPreviews fuel cyclic_tiff (length cyclic_tiff) = Inl OutOfFuel"
  by (simp add: findPreviews_def cyclic_length cyclic_header cyclic_loop)

text \<open>
  C3. Extraction is specified to be deterministic: two successive calls on the same
  bytes give the same list, field for field. The names of SubIFD previews come from a
  counter that outlives the call, so the second extraction of the same NEF (and of the
  same CR2) in one process returns a list with another \<open>type\<close> string.
\<close>

theorem getAllPreviews_second_call_differs:
  "getAllPreviews 1 env Counters_initial nef_subifd (length nef_subifd) NEF =
     Inr ([\<lparr>offset = 74, size' = 5, width = 0, height = 0, isJpeg = False, subfileType = 0,
            ifdIndex = - 1, quality = QUALITY_THUMBNAIL, priority = 5, orientation = 1,
            type' = ''NEF_SubIFD0''\<rparr>],
          Counters_initial\<lparr>nefCounter := 1\<rparr>)
   \<and> getAllPreviews 1 env (Counters_initial\<lparr>nefCounter := 1\<rparr>) nef_subifd (length nef_subifd) NEF =
     Inr ([\<lparr>offset = 74, size' = 5, width = 0, height = 0, isJpeg = False, subfileType = 0,
            ifdIndex = - 1, quality = QUALITY_THUMBNAIL, priority = 5, orientation = 1,
            type' = ''NEF_SubIFD1''\<rparr>],
          Counters_initial\<lparr>nefCounter := 2\<rparr>)
   \<and> map type' (fst (projr (getAllPreviews 1 env Counters_initial
        cr2_shared_strip (length cr2_shared_strip) CR2))) = [''CR2_IFD0'', ''CR2_SubIFD0'']
   \<and> map type' (fst (projr (getAllPreviews 1 env (Counters_initial\<lparr>cr2Counter := 1\<rparr>)
        cr2_shared_strip (length cr2_shared_strip) CR2))) = [''CR2_IFD0'', ''CR2_SubIFD1'']"
  by (simp add: getAllPreviews_def nef_length nef_extract [of 0, simplified]
      cr2_length cr2_extract [of 0, simplified] Counters_initial_def PreviewInfo_default_def
      to_string_0 to_string_1)

text \<open>
  C4. The candidate list of one extraction holds no two candidates with the same offset
  and size, whatever the format. The second passes of the NEF and ARW parsers compare
  each new candidate with the list before appending it, but the candidates of the TIFF
  scan are appended to the same kind of list without that comparison: the CR2 whose
  IFD0 and SubIFD name the same strip gives two candidates with offset 88 and size 5.
\<close>

theorem Cr2_extractPreviews_duplicate_pair:
  "Cr2_extractPreviews 1 0 cr2_shared_strip (length cr2_shared_strip) =
     Inr ([\<lparr>offset = 88, size' = 5, width = 0, height = 0, isJpeg = False, subfileType = 0,
            ifdIndex = 0, quality = QUALITY_PREVIEW, priority = 5, orientation = 1,
            type' = ''CR2_IFD0''\<rparr>,
           \<lparr>offset = 88, size' = 5, width = 0, height = 0, isJpeg = False, subfileType = 0,
            ifdIndex = - 1, quality = QUALITY_THUMBNAIL, priority = 3, orientation = 1,
            type' = ''CR2_SubIFD0''\<rparr>],
          1)
   \<and> \<not> distinct (map key (fst (projr
         (Cr2_extractPreviews 1 0 cr2_shared_strip (length cr2_shared_strip)))))"
  by (simp add: cr2_length cr2_extract [of 0, simplified] PreviewInfo_default_def to_string_0
      key_def)

text \<open>
  C5. The models Z 6, D750, D810, D610, D7500, D7200, D5600 and D3500 are specified to
  select by position and every other model, Z 6II and Z 6III among them, by size. The
  table of the source says the same, but the lookup walks it in the order of its keys
  and takes the first key that occurs in the model string: \<open>D6\<close> comes before \<open>D610\<close>
  and \<open>Z 6\<close> before \<open>Z 6II\<close> and \<open>Z 6III\<close>. So a D610 selects by size (full is the
  largest candidate, not the first) and a Z 6II by position (full is the first
  candidate, not the largest).
\<close>

theorem getNefMapping_shadowed_models:
  "getNefMapping ''D610'' =
     \<lparr>fullPreviewIndex = - 1, mediumPreviewIndex = - 2, useSmartSelection = True\<rparr>
   \<and> getNefMapping ''Z 6II'' =
     \<lparr>fullPreviewIndex = 0, mediumPreviewIndex = 1, useSmartSelection = False\<rparr>
   \<and> getNefMapping ''Z 6III'' =
     \<lparr>fullPreviewIndex = 0, mediumPreviewIndex = 1, useSmartSelection = False\<rparr>
   \<and> selectFullPreview NEF ''D610'' three_previews = sized 3145728 8388608
   \<and> selectMediumPreview NEF ''D610'' three_previews = sized 4096 2097152
   \<and> selectFullPreview NEF ''Z 6II'' three_previews = sized 4096 2097152
   \<and> selectMediumPreview NEF ''Z 6II'' three_previews = sized 3145728 8388608"
  by (simp add: getNefMapping_def nikonModelMappings_def nikonModelMappings_init_def
      selectFullPreview_def selectMediumPreview_def three_previews_def
      getLargestPreview_def getSecondLargestPreview_def sort_by_def sized_def
      PreviewInfo_default_def at_index_def word_sless_alt)

text \<open>
  C6. A RAF that starts with the 15 bytes \<open>FUJIFILMCCD-RAW\<close> is specified to give one
  candidate whenever the range named at offsets 84 and 88 is in bounds and holds a
  valid JPEG. The parser of the source gives up on every buffer of fewer than 100
  bytes: the RAF of 96 bytes whose range (offset 16, length 5) is in bounds and holds a
  valid JPEG gives no candidate.
\<close>

theorem Raf_extractPreviews_short_counterexample:
  "take 15 raf_short = ascii ''FUJIFILMCCD-RAW''
   \<and> readUInt32 raf_short 84 False = Inr 16
   \<and> readUInt32 raf_short 88 False = Inr 5
   \<and> 16 + 5 \<le> length raf_short
   \<and> isValidJpeg raf_short 16 5 = Inr True
   \<and> Raf_extractPreviews raf_short (length raf_short) = Inr []"
  by (simp add: raf_short_offset raf_short_len raf_short_length raf_short_jpeg
      raf_short_extract)
    (simp add: raf_short_def ascii_def)

text \<open>
  C6, as amended. A RAF of fewer than 100 bytes gives no candidate. A RAF of at least
  100 bytes that starts with the 15 bytes \<open>FUJIFILMCCD-RAW\<close>, whose big-endian words at
  offsets 84 and 88 name a range that lies in the buffer and on which \<open>is_valid_jpeg\<close>
  returns true, gives exactly one candidate, with that offset and that length, of
  priority 10 if the length is between 200 KiB and 3 MiB and of priority 7 otherwise.
  For the fixture with offset 1024 and length 512 the candidate has priority 7 and
  quality THUMBNAIL, and \<open>ExtractMediumPreview\<close> and \<open>ExtractFullPreview\<close> return it
  with success and format RAF.
\<close>

theorem Raf_extractPreviews_one_candidate:
  "(length data < 100 \<longrightarrow> Raf_extractPreviews data (length data) = Inr [])
   \<and> (100 \<le> length data \<and> take 15 data = ascii ''FUJIFILMCCD-RAW''
       \<and> readUInt32 data 84 False = Inr jpegOffset
       \<and> readUInt32 data 88 False = Inr jpegLength
       \<and> unat jpegOffset + unat jpegLength \<le> length data
       \<and> isValidJpeg data (unat jpegOffset) (unat jpegLength) = Inr True
      \<longrightarrow> Raf_extractPreviews data (length data) =
        Inr [\<lparr>offset = jpegOffset, size' = jpegLength, width = 0, height = 0,
              isJpeg = True, subfileType = 0, ifdIndex = - 1,
              quality = classifyPreview 0 0 (unat jpegLength),
              priority = (if jpegLength \<ge> 200 * 1024 \<and> jpegLength \<le> 3 * 1024 * 1024
                          then 10 else 7),
              orientation = 1, type' = []\<rparr>])"
  using Raf_extractPreviews_below_100 [of data]
    Raf_extractPreviews_emits [of data jpegOffset jpegLength]
  by blast

theorem Raf_extractPreviews_one_candidate_witness:
  "Raf_extractPreviews raf_fixture (length raf_fixture) =
     Inr [\<lparr>offset = 1024, size' = 512, width = 0, height = 0, isJpeg = True,
           subfileType = 0, ifdIndex = - 1, quality = QUALITY_THUMBNAIL, priority = 7,
           orientation = 1, type' = []\<rparr>]
   \<and> Raf_extractPreviews (replicate 99 0) (length (replicate 99 (0 :: u8))) = Inr []
   \<and> ExtractMediumPreview 1 env_idle Counters_initial raf_fixture =
       Inr (ExtractionResult_default
              \<lparr>success := True, format := RAF,
               preview :=
                 \<lparr>offset = 1024, size' = 512, width = 0, height = 0, isJpeg = True,
                  subfileType = 0, ifdIndex = - 1, quality = QUALITY_THUMBNAIL,
                  priority = 7, orientation = 1, type' = []\<rparr>,
               jpegData := take 512 (drop 1024 raf_fixture)\<rparr>,
            Counters_initial)
   \<and> ExtractFullPreview 1 env_idle Counters_initial raf_fixture =
       Inr (ExtractionResult_default
              \<lparr>success := True, format := RAF,
               preview :=
                 \<lparr>offset = 1024, size' = 512, width = 0, height = 0, isJpeg = True,
                  subfileType = 0, ifdIndex = - 1, quality = QUALITY_THUMBNAIL,
                  priority = 7, orientation = 1, type' = []\<rparr>,
               jpegData := take 512 (drop 1024 raf_fixture)\<rparr>,
            Counters_initial)"
  using Raf_extractPreviews_one_candidate [of raf_fixture 1024 512]
    Raf_extractPreviews_one_candidate [of "replicate 99 0" 0 0]
    raf_medium [of env_idle] raf_full [of env_idle]
  by (simp add: raf_length raf_magic raf_offset raf_len raf_jpeg classifyPreview_def
      PreviewInfo_default_def)

text \<open>
  C7. When the buffer is absent or shorter than 16 bytes, \<open>extract_from_buffer\<close>
  fails with the code \<open>INVALID_FORMAT\<close>, although \<open>validate_file\<close> alone gives
  \<open>CORRUPTED_FILE\<close> for a buffer shorter than 16 bytes.
\<close>

theorem extractPreviewFromBuffer_short_buffer:
  "buf = None \<or> sz < 16 \<Longrightarrow>
     (\<exists>r. extractPreviewFromBuffer fuel env cs buf sz options = Inr (r, cs)
          \<and> \<not> success r \<and> code (errorInfo r) = INVALID_FORMAT)
     \<and> (buf \<noteq> None \<and> sz < 16 \<longrightarrow> validateFile buf sz = Inr CORRUPTED_FILE)"
  by (auto simp: extractPreviewFromBuffer_def setError_def validateFile_def
      split: option.splits)

theorem extractPreviewFromBuffer_short_buffer_witness:
  "(\<exists>r. extractPreviewFromBuffer 1 env_idle Counters_initial (Some (replicate 12 0)) 12
           ExtractionOptions_default = Inr (r, Counters_initial)
        \<and> \<not> success r \<and> code (errorInfo r) = INVALID_FORMAT)
   \<and> validateFile (Some (replicate 12 0)) 12 = Inr CORRUPTED_FILE"
  using extractPreviewFromBuffer_short_buffer
    [of "Some (replicate 12 0)" 12 1 env_idle Counters_initial ExtractionOptions_default]
  by simp

text \<open>
  C8. \<open>is_valid_jpeg\<close> is specified to accept a slice of at least four bytes that
  starts with \<open>FF D8\<close> and holds a pair \<open>FF D9\<close> found scanning from the end toward
  offset 2. On the minimal JPEG \<open>FF D8 FF D9\<close>, whose end marker is at offset 2, the
  loop of the source stops before index 2 (\<open>i > 2\<close>) and the function returns false.
\<close>

theorem isValidJpeg_minimal_rejected:
  "isValidJpeg [0xFF, 0xD8, 0xFF, 0xD9] 0 4 = Inr False"
  by (simp add: isValidJpeg_def rd_def isValidJpeg_loop.simps)

text \<open>
  C9. \<open>extract_from_buffer\<close> never answers \<open>CORRUPTED_FILE\<close>, and a recognised format
  whose structures reach beyond the buffer is answered with \<open>NO_PREVIEWS_FOUND\<close>,
  these structures being skipped. The first half holds
  (\<open>extractPreviewFromBuffer_never_corrupted_file\<close>). The second does not: some
  structures that reach beyond the buffer are read, not skipped. On the CR3 whose
  \<open>mdat\<close> box has no payload, and on the DNG whose SubIFD offset is \<open>0xFFFFFFFE\<close> (so
  that \<open>offset + 2\<close> wraps to 0 in the bounds check of \<open>parseIfd\<close>),
  \<open>extractPreviewFromBuffer\<close> reads outside the buffer and returns no result at all.
\<close>

theorem extractPreviewFromBuffer_truncated_faults:
  "extractPreviewFromBuffer fuel env_idle cs (Some cr3_empty_mdat) (length cr3_empty_mdat)
     options = Inl OutOfBounds
   \<and> extractPreviewFromBuffer (Suc fuel) env_idle cs (Some dng_far_subifd)
     (length dng_far_subifd) options = Inl OutOfBounds"
  by (simp add: cr3_length cr3_buffer dng_length dng_buffer)

text \<open>
  C10. Every candidate is specified to have a positive offset and a positive size, so
  that a JPEG at file offset 0 is never listed and never returned. The SR2SubIFD pass
  of the ARW parser is the one pass that does not ask for \<open>offset > 0\<close>: on the ARW
  that is itself a JPEG from byte 0 to its end it lists a candidate with offset 0,
  and \<open>ExtractFullPreview\<close> returns this candidate with success.
\<close>

theorem Arw_extractPreviews_offset_zero:
  "Arw_extractPreviews 1 0 a arw_offset_zero (length arw_offset_zero) =
     Inr ([\<lparr>offset = 0, size' = 70, width = 0, height = 0, isJpeg = True, subfileType = 0,
            ifdIndex = - 10, quality = QUALITY_THUMBNAIL, priority = 7, orientation = 1,
            type' = ''ARW_SR2SubIFD''\<rparr>], 0)
   \<and> ExtractFullPreview 1 env Counters_initial arw_offset_zero =
     Inr (ExtractionResult_default
            \<lparr>success := True, format := ARW,
             preview :=
               \<lparr>offset = 0, size' = 70, width = 0, height = 0, isJpeg = True,
                subfileType = 0, ifdIndex = - 10, quality = QUALITY_THUMBNAIL, priority = 7,
                orientation = 1, type' = ''ARW_SR2SubIFD''\<rparr>,
             jpegData := arw_offset_zero\<rparr>,
          Counters_initial)"
  using arw_full [of env]
  by (simp add: arw_length arw_extract [of 0, simplified] PreviewInfo_default_def)

end
